theory Spec2Isabelle
  imports Main
begin

section \<open>Native-code build planning (cc.go): errors, helpers, data model\<close>

subsection \<open>Dependency tags\<close>

text \<open>The fields \<open>name\<close>, \<open>library\<close>, \<open>reexportFlags\<close> of \<open>dependencyTag\<close>, prefixed.\<close>

record dependencyTag =
  tag_name :: string
  tag_library :: bool
  tag_reexportFlags :: bool

definition mkTag :: "string \<Rightarrow> bool \<Rightarrow> bool \<Rightarrow> dependencyTag" where
  "mkTag n l r = \<lparr>tag_name = n, tag_library = l, tag_reexportFlags = r\<rparr>"

definition sharedDepTag :: dependencyTag where "sharedDepTag = mkTag ''shared'' True False"
definition sharedExportDepTag :: dependencyTag where "sharedExportDepTag = mkTag ''shared'' True True"
definition lateSharedDepTag :: dependencyTag where "lateSharedDepTag = mkTag ''late shared'' True False"
definition staticDepTag :: dependencyTag where "staticDepTag = mkTag ''static'' True False"
definition staticExportDepTag :: dependencyTag where "staticExportDepTag = mkTag ''static'' True True"
definition lateStaticDepTag :: dependencyTag where "lateStaticDepTag = mkTag ''late static'' True False"
definition wholeStaticDepTag :: dependencyTag where "wholeStaticDepTag = mkTag ''whole static'' True True"
definition genSourceDepTag :: dependencyTag where "genSourceDepTag = mkTag ''gen source'' False False"
definition genHeaderDepTag :: dependencyTag where "genHeaderDepTag = mkTag ''gen header'' False False"
definition objDepTag :: dependencyTag where "objDepTag = mkTag ''obj'' False False"
definition crtBeginDepTag :: dependencyTag where "crtBeginDepTag = mkTag ''crtbegin'' False False"
definition crtEndDepTag :: dependencyTag where "crtEndDepTag = mkTag ''crtend'' False False"
definition reuseObjTag :: dependencyTag where "reuseObjTag = mkTag ''reuse objects'' False False"

lemmas depTag_defs = mkTag_def sharedDepTag_def sharedExportDepTag_def lateSharedDepTag_def
  staticDepTag_def staticExportDepTag_def lateStaticDepTag_def wholeStaticDepTag_def
  genSourceDepTag_def genHeaderDepTag_def objDepTag_def crtBeginDepTag_def crtEndDepTag_def
  reuseObjTag_def

text \<open>
  A \<open>blueprint.DependencyTag\<close> on an edge is one of this package's tags,
  \<open>android.DefaultsDepTag\<close>, or a tag of another package.
\<close>

datatype depTag = CcTag dependencyTag | DefaultsDepTag | ForeignTag string

subsection \<open>Errors and panics\<close>

text \<open>
  The build context collects the errors a module reports. \<open>ctx.ModuleErrorf\<close>,
  \<open>ctx.PropertyErrorf\<close> and \<open>fmt.Errorf\<close> take a format string and its arguments; an
  error is kept as the call gives it, the format with the arguments (a name, or a
  dependency tag), so that no rule of the formatter's verbs \<open>%q\<close> and \<open>%s\<close> is
  assumed. \<open>ModuleError\<close> is what \<open>ModuleErrorf\<close> reports, \<open>PropertyError\<close> what
  \<open>PropertyErrorf\<close> reports for the property it names. A Go \<open>panic\<close> is a value of
  type \<open>panic\<close>: an index out of range, a failed type assertion, or an explicit
  \<open>panic(fmt.Errorf(...))\<close> with its format and arguments.
\<close>

datatype arg = StringArg string | TagArg depTag

datatype error = ModuleError string "arg list" | PropertyError string string "arg list"

datatype panic = IndexOutOfRange | TypeAssertion | Explicit string "arg list"

text \<open>\<open>proptools.Bool\<close>: a nil \<open>*bool\<close> reads as false.\<close>

fun Bool :: "bool option \<Rightarrow> bool" where
  "Bool None = False"
| "Bool (Some b) = b"

text \<open>
  Modelled from the spec: \<open>inList\<close> and \<open>filterList\<close> are helpers of the package that
  are declared in another file. \<open>inList s list\<close> says whether \<open>s\<close> occurs in \<open>list\<close>;
  \<open>filterList list filter\<close> walks \<open>list\<close> once and returns the entries that are not in
  \<open>filter\<close> (the remainder) and the entries that are (the filtered ones), each in the
  order of \<open>list\<close>: the denylist filter keeps the first component, the static binary
  moves the second component to the late bucket.
\<close>

fun inList :: "string \<Rightarrow> string list \<Rightarrow> bool" where
  "inList s [] = False"
| "inList s (l # list) = (if l = s then True else inList s list)"

fun filterList :: "string list \<Rightarrow> string list \<Rightarrow> string list \<times> string list" where
  "filterList [] flt = ([], [])"
| "filterList (l # list) flt =
     (let (remainder, filtered) = filterList list flt
      in if inList l flt then (remainder, l # filtered) else (l # remainder, filtered))"

subsection \<open>lastUniqueElements\<close>

text \<open>
  \<^verbatim>\<open>
  func lastUniqueElements(list []string) []string {
      totalSkip := 0
      for i := len(list) - 1; i >= totalSkip; i-- {
          skip := 0
          for j := i - 1; j >= totalSkip; j-- {
              if list[i] == list[j] { skip++ } else { list[j+skip] = list[j] }
          }
          totalSkip += skip
      }
      return list[totalSkip:]
  }
  \<close>
  The slice is updated in place; indices are Go ints. Every read and write checks its
  index, as the Go runtime does, and is a panic when it is out of range.
\<close>

definition inBounds :: "'a list \<Rightarrow> int \<Rightarrow> bool" where
  "inBounds list k = (0 \<le> k \<and> k < int (length list))"

function lastUnique_inner ::
  "string list \<Rightarrow> int \<Rightarrow> int \<Rightarrow> int \<Rightarrow> int \<Rightarrow> panic + (string list \<times> int)" where
  "lastUnique_inner list i j skip totalSkip =
     (if j \<ge> totalSkip then
        (if \<not> inBounds list i \<or> \<not> inBounds list j then Inl IndexOutOfRange
         else if list ! nat i = list ! nat j
           then lastUnique_inner list i (j - 1) (skip + 1) totalSkip
         else if \<not> inBounds list (j + skip) then Inl IndexOutOfRange
         else lastUnique_inner (list[nat (j + skip) := list ! nat j]) i (j - 1) skip totalSkip)
      else Inr (list, skip))"
  by pat_completeness auto
termination
  by (relation "measure (\<lambda>(list, i, j, skip, totalSkip). nat (j - totalSkip + 1))") auto

declare lastUnique_inner.simps [simp del]

lemma lastUnique_inner_skip_le:
  "lastUnique_inner list i j skip ts = Inr (list', skip') \<Longrightarrow> skip \<le> skip'"
proof (induction list i j skip ts rule: lastUnique_inner.induct)
  case (1 list i j skip ts)
  show ?case
  proof (cases "j \<ge> ts")
    case False
    with "1.prems" show ?thesis by (simp add: lastUnique_inner.simps)
  next
    case ge: True
    show ?thesis
    proof (cases "list ! nat i = list ! nat j")
      case True
      with ge "1.prems" "1.IH"(1) show ?thesis
        by (subst (asm) lastUnique_inner.simps) (fastforce split: if_splits)
    next
      case False
      with ge "1.prems" "1.IH"(2) show ?thesis
        by (subst (asm) lastUnique_inner.simps) (fastforce split: if_splits)
    qed
  qed
qed

function lastUnique_outer :: "string list \<Rightarrow> int \<Rightarrow> int \<Rightarrow> panic + string list" where
  "lastUnique_outer list i totalSkip =
     (if i \<ge> totalSkip then
        (case lastUnique_inner list i (i - 1) 0 totalSkip of
           Inl p \<Rightarrow> Inl p
         | Inr (list', skip) \<Rightarrow> lastUnique_outer list' (i - 1) (totalSkip + skip))
      else if 0 \<le> totalSkip \<and> totalSkip \<le> int (length list)
        then Inr (drop (nat totalSkip) list) else Inl IndexOutOfRange)"
  by pat_completeness auto
termination
  by (relation "measure (\<lambda>(list, i, totalSkip). nat (i - totalSkip + 1))")
     (auto dest: lastUnique_inner_skip_le)

declare lastUnique_outer.simps [simp del]

definition lastUniqueElements :: "string list \<Rightarrow> panic + string list" where
  "lastUniqueElements list = lastUnique_outer list (int (length list) - 1) 0"

subsection \<open>Dependency names, resolved paths, flags\<close>

text \<open>
  An \<open>android.Path\<close> is kept symbolic: a path below the module's output directory
  (\<open>android.PathForModuleOut\<close> with its components), below its source directory, or any
  other path given by its text.
\<close>

datatype path = PathForModuleOut "string list" | PathForModuleSrc string | OtherPath string

record Deps =
  SharedLibs :: "string list"
  LateSharedLibs :: "string list"
  StaticLibs :: "string list"
  LateStaticLibs :: "string list"
  WholeStaticLibs :: "string list"
  ReexportSharedLibHeaders :: "string list"
  ReexportStaticLibHeaders :: "string list"
  ObjFiles :: "string list"
  GeneratedSources :: "string list"
  GeneratedHeaders :: "string list"
  Cflags :: "string list"
  ReexportedCflags :: "string list"
  CrtBegin :: string
  CrtEnd :: string

text \<open>\<open>Deps{}\<close>: every list nil, both names empty.\<close>

definition Deps_zero :: Deps where
  "Deps_zero = \<lparr>SharedLibs = [], LateSharedLibs = [], StaticLibs = [], LateStaticLibs = [],
     WholeStaticLibs = [], ReexportSharedLibHeaders = [], ReexportStaticLibHeaders = [],
     ObjFiles = [], GeneratedSources = [], GeneratedHeaders = [], Cflags = [],
     ReexportedCflags = [], CrtBegin = [], CrtEnd = []\<rparr>"

text \<open>\<open>PathDeps\<close>; its fields carry the prefix \<open>pd_\<close>, the names being those of \<open>Deps\<close>.\<close>

record PathDeps =
  pd_SharedLibs :: "path list"
  pd_LateSharedLibs :: "path list"
  pd_StaticLibs :: "path list"
  pd_LateStaticLibs :: "path list"
  pd_WholeStaticLibs :: "path list"
  pd_ObjFiles :: "path list"
  pd_WholeStaticLibObjFiles :: "path list"
  pd_GeneratedSources :: "path list"
  pd_GeneratedHeaders :: "path list"
  pd_Cflags :: "string list"
  pd_ReexportedCflags :: "string list"
  pd_CrtBegin :: "path option"
  pd_CrtEnd :: "path option"

definition PathDeps_zero :: PathDeps where
  "PathDeps_zero = \<lparr>pd_SharedLibs = [], pd_LateSharedLibs = [], pd_StaticLibs = [],
     pd_LateStaticLibs = [], pd_WholeStaticLibs = [], pd_ObjFiles = [],
     pd_WholeStaticLibObjFiles = [], pd_GeneratedSources = [], pd_GeneratedHeaders = [],
     pd_Cflags = [], pd_ReexportedCflags = [], pd_CrtBegin = None, pd_CrtEnd = None\<rparr>"

text \<open>
  \<open>Flags\<close>. The toolchain is a parameter of the record (its methods are declared in
  another file); \<open>CFlagsDeps\<close> are paths.
\<close>

record 'tc Flags =
  GlobalFlags :: "string list"
  AsFlags :: "string list"
  CFlags :: "string list"
  ConlyFlags :: "string list"
  CppFlags :: "string list"
  YaccFlags :: "string list"
  LdFlags :: "string list"
  libFlags :: "string list"
  Nocrt :: bool
  Toolchain :: 'tc
  Clang :: bool
  RequiredInstructionSet :: string
  DynamicLinker :: string
  CFlagsDeps :: "path list"

definition illegalFlags :: "string list" where
  "illegalFlags = [''-w'']"

subsection \<open>Edges\<close>

text \<open>
  An edge requested from the build-graph engine: \<open>AddVariationDependencies\<close> with its
  variations (\<open>AddDependency\<close> has none), the tag, and one target name.
\<close>

record edge =
  variations :: "(string \<times> string) list"
  edgeTag :: dependencyTag
  target :: string

definition AddVariationDependencies ::
  "(string \<times> string) list \<Rightarrow> dependencyTag \<Rightarrow> string list \<Rightarrow> edge list" where
  "AddVariationDependencies vs t names =
     map (\<lambda>n. \<lparr>variations = vs, edgeTag = t, target = n\<rparr>) names"

definition AddDependency :: "dependencyTag \<Rightarrow> string list \<Rightarrow> edge list" where
  "AddDependency t names = map (\<lambda>n. \<lparr>variations = [], edgeTag = t, target = n\<rparr>) names"

subsection \<open>Compilers, linkers, modules\<close>

text \<open>
  The property structs and the delegates that embed them are records, Go's struct
  embedding is record extension. Of each property struct the fields that dependency
  computation, expansion, resolution and linking read are kept. The nested blocks
  \<open>Static { ... }\<close> and \<open>Shared { ... }\<close> give fields with the prefix \<open>Static_\<close> and
  \<open>Shared_\<close>. A property that distinguishes nil from the empty list is an option, and so
  is a \<open>*bool\<close> or \<open>*string\<close> property. In the library linker \<open>exportedFlags\<close> is the
  \<open>flags\<close> field of the embedded \<open>flagExporter\<close>, \<open>Strip_None\<close> and \<open>Strip_Keep_symbols\<close>
  are the properties of the embedded \<open>stripper\<close>, and the property \<open>Nocrt\<close> is
  \<open>Nocrt_prop\<close> (\<open>Flags\<close> has a field \<open>Nocrt\<close> too). The strip properties of the
  \<open>stripper\<close> that the binary linker embeds are \<open>Binary_Strip_None\<close> and
  \<open>Binary_Strip_Keep_symbols\<close>.
\<close>

record baseCompiler =
  Srcs :: "string list"
  Exclude_srcs :: "string list"
  Generated_sources :: "string list"
  Generated_headers :: "string list"

record libraryCompiler = baseCompiler +
  Static_Srcs :: "string list"
  Static_Exclude_srcs :: "string list"
  Static_Cflags :: "string list"
  Shared_Srcs :: "string list"
  Shared_Exclude_srcs :: "string list"
  Shared_Cflags :: "string list"
  reuseObjFiles :: "path list"

datatype compiler = BaseCompiler baseCompiler | LibraryCompiler libraryCompiler

record baseLinker =
  Whole_static_libs :: "string list"
  Static_libs :: "string list"
  Shared_libs :: "string list"
  System_shared_libs :: "string list option"
  No_libgcc :: "bool option"
  Export_shared_lib_headers :: "string list"
  Export_static_lib_headers :: "string list"
  VariantIsShared :: bool
  VariantIsStatic :: bool
  VariantIsStaticBinary :: bool
  RunPaths :: "string list"

record libraryLinker = baseLinker +
  exportedFlags :: "string list"
  Strip_None :: bool
  Strip_Keep_symbols :: bool
  Static_Enabled :: "bool option"
  Static_Whole_static_libs :: "string list"
  Static_Static_libs :: "string list"
  Static_Shared_libs :: "string list"
  Shared_Enabled :: "bool option"
  Shared_Whole_static_libs :: "string list"
  Shared_Static_libs :: "string list"
  Shared_Shared_libs :: "string list"
  Version_script :: "string option"
  Unexported_symbols_list :: "string option"
  Force_symbols_not_weak_list :: "string option"
  Force_symbols_weak_list :: "string option"
  Nocrt_prop :: "bool option"
  VariantName :: string
  BuildStatic :: bool
  BuildShared :: bool
  wholeStaticMissingDeps :: "string list"
  objFiles :: "path list"

record binaryLinker = baseLinker +
  Binary_Strip_None :: bool
  Binary_Strip_Keep_symbols :: bool
  Static_executable :: "bool option"
  Stem :: string
  Suffix :: string
  Prefix_symbols :: string
  hostToolPath :: "path option"

record testLinker = binaryLinker +
  Gtest :: bool
  Test_per_src :: "bool option"

text \<open>
  The zero values of the delegates: \<open>&libraryCompiler{}\<close>, \<open>&libraryLinker{}\<close>,
  \<open>&binaryLinker{}\<close>.
\<close>

definition libraryCompiler_zero :: libraryCompiler where
  "libraryCompiler_zero = \<lparr>Srcs = [], Exclude_srcs = [], Generated_sources = [],
     Generated_headers = [], Static_Srcs = [], Static_Exclude_srcs = [], Static_Cflags = [],
     Shared_Srcs = [], Shared_Exclude_srcs = [], Shared_Cflags = [], reuseObjFiles = []\<rparr>"

definition baseCompiler_zero :: baseCompiler where
  "baseCompiler_zero = \<lparr>Srcs = [], Exclude_srcs = [], Generated_sources = [],
     Generated_headers = []\<rparr>"

definition libraryLinker_zero :: libraryLinker where
  "libraryLinker_zero = \<lparr>Whole_static_libs = [], Static_libs = [], Shared_libs = [],
     System_shared_libs = None, No_libgcc = None, Export_shared_lib_headers = [],
     Export_static_lib_headers = [], VariantIsShared = False, VariantIsStatic = False,
     VariantIsStaticBinary = False, RunPaths = [], exportedFlags = [], Strip_None = False,
     Strip_Keep_symbols = False, Static_Enabled = None, Static_Whole_static_libs = [],
     Static_Static_libs = [], Static_Shared_libs = [], Shared_Enabled = None,
     Shared_Whole_static_libs = [], Shared_Static_libs = [], Shared_Shared_libs = [],
     Version_script = None, Unexported_symbols_list = None,
     Force_symbols_not_weak_list = None, Force_symbols_weak_list = None, Nocrt_prop = None,
     VariantName = [], BuildStatic = False, BuildShared = False,
     wholeStaticMissingDeps = [], objFiles = []\<rparr>"

definition binaryLinker_zero :: binaryLinker where
  "binaryLinker_zero = \<lparr>Whole_static_libs = [], Static_libs = [], Shared_libs = [],
     System_shared_libs = None, No_libgcc = None, Export_shared_lib_headers = [],
     Export_static_lib_headers = [], VariantIsShared = False, VariantIsStatic = False,
     VariantIsStaticBinary = False, RunPaths = [], Binary_Strip_None = False,
     Binary_Strip_Keep_symbols = False, Static_executable = None, Stem = [], Suffix = [],
     Prefix_symbols = [], hostToolPath = None\<rparr>"

text \<open>
  The linker delegates of the file. \<open>benchmarkLinker\<close> embeds a \<open>binaryLinker\<close> and adds
  no field, \<open>toolchainLibraryLinker\<close> embeds a \<open>baseLinker\<close>, the NDK prebuilt library
  and STL linkers embed a \<open>libraryLinker\<close>, \<open>objectLinker\<close> and the NDK prebuilt object
  linker have the property \<open>Objs\<close> only.
\<close>

datatype linker =
    LibraryLinker libraryLinker
  | BinaryLinker binaryLinker
  | TestLinker testLinker
  | BenchmarkLinker binaryLinker
  | ObjectLinker "string list"
  | ToolchainLibraryLinker baseLinker
  | NdkPrebuiltObjectLinker "string list"
  | NdkPrebuiltLibraryLinker libraryLinker
  | NdkPrebuiltStlLinker libraryLinker

text \<open>
  The \<open>stl\<close> and \<open>sanitize\<close> delegates and the extra \<open>features\<close> of a module are
  declared in other files. Of each, the model keeps its \<open>deps\<close> stage as a parameter:
  the dependency names it returns for the names it is given, and the errors it reports.
  \<open>SelectedStl\<close> is the property that \<open>ctx.selectedStl()\<close> reads.
\<close>

type_synonym depsStage = "Deps \<Rightarrow> Deps \<times> error list"

record stl =
  SelectedStl :: string
  stl_deps :: depsStage

datatype os = Android | Linux | Darwin | Windows

record Module =
  Enabled :: bool
  Target_Os :: os
  Target_ArchType :: string
  Sdk_version :: string
  AndroidMkSharedLibs :: "string list"
  compiler :: "compiler option"
  linker :: "linker option"
  stl :: "stl option"
  sanitize :: "depsStage option"
  features :: "depsStage list"
  outputFile :: "path option"

text \<open>
  The build context of one module: what the engine answers (\<open>ctx.Device()\<close>,
  \<open>ctx.Host()\<close>, \<open>ctx.Darwin()\<close> as \<open>IsDarwin\<close>, \<open>ctx.Os()\<close>,
  \<open>ctx.Os().Class == android.Host\<close> as \<open>OsClassHost\<close>, \<open>ctx.Arch().ArchType\<close>,
  \<open>ctx.ModuleName()\<close>, \<open>ctx.toolchain().Is64Bit()\<close>, the product variable
  \<open>HostStaticBinaries\<close>, \<open>ctx.AConfig().EmbeddedInMake()\<close>), and what the module has
  reported so far: its errors and its missing dependencies.
\<close>

record Ctx =
  Device :: bool
  Host :: bool
  IsDarwin :: bool
  Os :: os
  OsClassHost :: bool
  ArchType :: string
  ModuleName :: string
  Is64Bit :: bool
  HostStaticBinaries :: "bool option"
  EmbeddedInMake :: bool
  errs :: "error list"
  missingDeps :: "string list"

text \<open>
  Modelled from the spec: \<open>ModuleErrorf\<close> and \<open>PropertyErrorf\<close> are methods of the
  engine's module context. An error attaches to the owning module and does not abort
  it: the module-level error is appended to the module's errors, the property-level one
  names the offending property.
\<close>

definition ModuleErrorf :: "Ctx \<Rightarrow> string \<Rightarrow> arg list \<Rightarrow> Ctx" where
  "ModuleErrorf ctx fmt args = ctx\<lparr>errs := errs ctx @ [ModuleError fmt args]\<rparr>"

definition PropertyErrorf :: "Ctx \<Rightarrow> string \<Rightarrow> string \<Rightarrow> arg list \<Rightarrow> Ctx" where
  "PropertyErrorf ctx property fmt args =
     ctx\<lparr>errs := errs ctx @ [PropertyError property fmt args]\<rparr>"

text \<open>
  Modelled from the spec: \<open>AddMissingDependencies\<close> and \<open>GetMissingDependencies\<close> are
  methods of the engine's module context. A missing dependency is recorded, not
  immediately fatal: the first appends names to the module's record, the second reads it.
\<close>

definition AddMissingDependencies :: "Ctx \<Rightarrow> string list \<Rightarrow> Ctx" where
  "AddMissingDependencies ctx names = ctx\<lparr>missingDeps := missingDeps ctx @ names\<rparr>"

definition GetMissingDependencies :: "Ctx \<Rightarrow> string list" where
  "GetMissingDependencies ctx = missingDeps ctx"

text \<open>\<open>moduleContextImpl\<close>: \<open>sdk\<close>, \<open>sdkVersion\<close>, \<open>selectedStl\<close> read the module.\<close>

definition sdk :: "Module \<Rightarrow> Ctx \<Rightarrow> bool" where
  "sdk c ctx = (if Device ctx then Sdk_version c \<noteq> [] else False)"

definition sdkVersion :: "Module \<Rightarrow> Ctx \<Rightarrow> string" where
  "sdkVersion c ctx = (if Device ctx then Sdk_version c else [])"

definition selectedStl :: "Module \<Rightarrow> string" where
  "selectedStl c = (case stl c of Some s \<Rightarrow> SelectedStl s | None \<Rightarrow> [])"

subsection \<open>Module factories\<close>










section \<open>Dependency classification\<close>

subsection \<open>The \<open>begin\<close> hooks of the linkers\<close>

definition baseLinker_begin :: "Ctx \<Rightarrow> 'a baseLinker_scheme \<Rightarrow> 'a baseLinker_scheme" where
  "baseLinker_begin ctx l =
     (if Is64Bit ctx then l\<lparr>RunPaths := [''../lib64'', ''lib64'']\<rparr>
      else l\<lparr>RunPaths := [''../lib'', ''lib'']\<rparr>)"

text \<open>
  \<open>libraryLinker.begin\<close> disables the module when the variant's mode is switched off;
  the second component says whether \<open>ctx.module().Disable()\<close> was called.
\<close>

definition libraryLinker_begin :: "Ctx \<Rightarrow> libraryLinker \<Rightarrow> libraryLinker \<times> bool" where
  "libraryLinker_begin ctx library =
     (let library = baseLinker_begin ctx library
      in if VariantIsStatic library
         then (library, Static_Enabled library = Some False)
         else (library, Shared_Enabled library = Some False))"

definition binaryLinker_begin ::
  "Ctx \<Rightarrow> 'a binaryLinker_scheme \<Rightarrow> 'a binaryLinker_scheme" where
  "binaryLinker_begin ctx binary =
     (let binary = baseLinker_begin ctx binary;
          static = Bool (Static_executable binary);
          static =
            (if Host ctx then
               (if Os ctx = Linux then
                  (if Static_executable binary = None \<and> Bool (HostStaticBinaries ctx)
                   then True else static)
                else False)
             else static)
      in if static then binary\<lparr>VariantIsStatic := True, VariantIsStaticBinary := True\<rparr>
         else binary)"

definition testLinker_begin :: "Ctx \<Rightarrow> testLinker \<Rightarrow> testLinker" where
  "testLinker_begin ctx test =
     (let test = binaryLinker_begin ctx test;
          runpath = ''../../lib'';
          runpath = (if Is64Bit ctx then runpath @ ''64'' else runpath)
      in test\<lparr>RunPaths := [runpath] @ RunPaths test\<rparr>)"

text \<open>
  \<open>Module.begin\<close>: the compilers' hook is empty, a linker's hook is the one of its own
  type or of the struct it embeds. \<open>Disable\<close> clears the module's enabled flag.
\<close>

definition Module_begin :: "Module \<Rightarrow> Ctx \<Rightarrow> Module" where
  "Module_begin c ctx =
     (case linker c of
        None \<Rightarrow> c
      | Some (LibraryLinker l) \<Rightarrow>
          (let (l', disable) = libraryLinker_begin ctx l;
               c = c\<lparr>linker := Some (LibraryLinker l')\<rparr>
           in if disable then c\<lparr>Enabled := False\<rparr> else c)
      | Some (NdkPrebuiltLibraryLinker l) \<Rightarrow>
          (let (l', disable) = libraryLinker_begin ctx l;
               c = c\<lparr>linker := Some (NdkPrebuiltLibraryLinker l')\<rparr>
           in if disable then c\<lparr>Enabled := False\<rparr> else c)
      | Some (NdkPrebuiltStlLinker l) \<Rightarrow>
          (let (l', disable) = libraryLinker_begin ctx l;
               c = c\<lparr>linker := Some (NdkPrebuiltStlLinker l')\<rparr>
           in if disable then c\<lparr>Enabled := False\<rparr> else c)
      | Some (BinaryLinker b) \<Rightarrow> c\<lparr>linker := Some (BinaryLinker (binaryLinker_begin ctx b))\<rparr>
      | Some (BenchmarkLinker b) \<Rightarrow>
          c\<lparr>linker := Some (BenchmarkLinker (binaryLinker_begin ctx b))\<rparr>
      | Some (TestLinker t) \<Rightarrow> c\<lparr>linker := Some (TestLinker (testLinker_begin ctx t))\<rparr>
      | Some (ToolchainLibraryLinker l) \<Rightarrow>
          c\<lparr>linker := Some (ToolchainLibraryLinker (baseLinker_begin ctx l))\<rparr>
      | Some (ObjectLinker objs) \<Rightarrow> c
      | Some (NdkPrebuiltObjectLinker objs) \<Rightarrow> c)"

subsection \<open>The \<open>deps\<close> stages\<close>

definition baseCompiler_deps :: "'a baseCompiler_scheme \<Rightarrow> Deps \<Rightarrow> Deps" where
  "baseCompiler_deps cmp deps =
     (let deps = deps\<lparr>GeneratedSources := GeneratedSources deps @ Generated_sources cmp\<rparr>;
          deps = deps\<lparr>GeneratedHeaders := GeneratedHeaders deps @ Generated_headers cmp\<rparr>
      in deps)"

definition baseLinker_deps ::
  "Module \<Rightarrow> Ctx \<Rightarrow> 'a baseLinker_scheme \<Rightarrow> Deps \<Rightarrow> Deps" where
  "baseLinker_deps c ctx lnk deps =
     (let deps = deps\<lparr>WholeStaticLibs := WholeStaticLibs deps @ Whole_static_libs lnk\<rparr>;
          deps = deps\<lparr>StaticLibs := StaticLibs deps @ Static_libs lnk\<rparr>;
          deps = deps\<lparr>SharedLibs := SharedLibs deps @ Shared_libs lnk\<rparr>;
          deps = deps\<lparr>ReexportStaticLibHeaders :=
                   ReexportStaticLibHeaders deps @ Export_static_lib_headers lnk\<rparr>;
          deps = deps\<lparr>ReexportSharedLibHeaders :=
                   ReexportSharedLibHeaders deps @ Export_shared_lib_headers lnk\<rparr>;
          deps = (if \<not> sdk c ctx \<and> ModuleName ctx \<noteq> ''libcompiler_rt-extras''
                  then deps\<lparr>StaticLibs := StaticLibs deps @ [''libcompiler_rt-extras'']\<rparr>
                  else deps)
      in if Device ctx then
           (let deps = deps\<lparr>LateStaticLibs := LateStaticLibs deps @ [''libatomic'']\<rparr>;
                deps = (if \<not> Bool (No_libgcc lnk)
                        then deps\<lparr>LateStaticLibs := LateStaticLibs deps @ [''libgcc'']\<rparr>
                        else deps);
                deps =
                  (if \<not> VariantIsStatic lnk then
                     (case System_shared_libs lnk of
                        Some libs \<Rightarrow> deps\<lparr>LateSharedLibs := LateSharedLibs deps @ libs\<rparr>
                      | None \<Rightarrow>
                          if \<not> sdk c ctx
                          then deps\<lparr>LateSharedLibs := LateSharedLibs deps @ [''libc'', ''libm'']\<rparr>
                          else deps)
                   else deps)
            in if sdk c ctx then
                 (let version = sdkVersion c ctx
                  in deps\<lparr>SharedLibs := SharedLibs deps @
                       [''ndk_libc.'' @ version, ''ndk_libm.'' @ version]\<rparr>)
               else deps)
         else deps)"

definition libraryLinker_deps :: "Module \<Rightarrow> Ctx \<Rightarrow> libraryLinker \<Rightarrow> Deps \<Rightarrow> Deps" where
  "libraryLinker_deps c ctx library deps =
     (let deps = baseLinker_deps c ctx library deps
      in if VariantIsStatic library then
           (let deps = deps\<lparr>WholeStaticLibs :=
                          WholeStaticLibs deps @ Static_Whole_static_libs library\<rparr>;
                deps = deps\<lparr>StaticLibs := StaticLibs deps @ Static_Static_libs library\<rparr>;
                deps = deps\<lparr>SharedLibs := SharedLibs deps @ Static_Shared_libs library\<rparr>
            in deps)
         else
           (let deps =
                  (if Device ctx \<and> \<not> Bool (Nocrt_prop library) then
                     (if \<not> sdk c ctx
                      then deps\<lparr>CrtBegin := ''crtbegin_so'', CrtEnd := ''crtend_so''\<rparr>
                      else deps\<lparr>CrtBegin := ''ndk_crtbegin_so.'' @ sdkVersion c ctx,
                                CrtEnd := ''ndk_crtend_so.'' @ sdkVersion c ctx\<rparr>)
                   else deps);
                deps = deps\<lparr>WholeStaticLibs :=
                          WholeStaticLibs deps @ Shared_Whole_static_libs library\<rparr>;
                deps = deps\<lparr>StaticLibs := StaticLibs deps @ Shared_Static_libs library\<rparr>;
                deps = deps\<lparr>SharedLibs := SharedLibs deps @ Shared_Shared_libs library\<rparr>
            in deps))"

definition objectLinker_deps :: "string list \<Rightarrow> Deps \<Rightarrow> Deps" where
  "objectLinker_deps Objs deps = deps\<lparr>ObjFiles := ObjFiles deps @ Objs\<rparr>"

text \<open>\<open>binaryLinker.buildStatic\<close> and \<open>buildShared\<close> read \<open>baseLinker.staticBinary()\<close>.\<close>

definition binaryLinker_buildStatic :: "'a binaryLinker_scheme \<Rightarrow> bool" where
  "binaryLinker_buildStatic binary = VariantIsStaticBinary binary"

definition binaryLinker_buildShared :: "'a binaryLinker_scheme \<Rightarrow> bool" where
  "binaryLinker_buildShared binary = (\<not> VariantIsStaticBinary binary)"

definition binaryLinker_deps ::
  "Module \<Rightarrow> Ctx \<Rightarrow> 'a binaryLinker_scheme \<Rightarrow> Deps \<Rightarrow> Deps \<times> Ctx" where
  "binaryLinker_deps c ctx binary deps =
     (let deps = baseLinker_deps c ctx binary deps;
          deps =
            (if Device ctx then
               (let deps =
                      (if \<not> sdk c ctx then
                         (let deps = (if binaryLinker_buildStatic binary
                                      then deps\<lparr>CrtBegin := ''crtbegin_static''\<rparr>
                                      else deps\<lparr>CrtBegin := ''crtbegin_dynamic''\<rparr>)
                          in deps\<lparr>CrtEnd := ''crtend_android''\<rparr>)
                       else
                         (let deps = (if binaryLinker_buildStatic binary
                                      then deps\<lparr>CrtBegin :=
                                             ''ndk_crtbegin_static.'' @ sdkVersion c ctx\<rparr>
                                      else deps\<lparr>CrtBegin :=
                                             ''ndk_crtbegin_dynamic.'' @ sdkVersion c ctx\<rparr>)
                          in deps\<lparr>CrtEnd := ''ndk_crtend_android.'' @ sdkVersion c ctx\<rparr>))
                in if binaryLinker_buildStatic binary then
                     (let deps = (if inList ''libc++_static'' (StaticLibs deps)
                                  then deps\<lparr>StaticLibs :=
                                         StaticLibs deps @ [''libm'', ''libc'', ''libdl'']\<rparr>
                                  else deps);
                          (staticLibs, groupLibs) =
                             filterList (StaticLibs deps)
                               [''libc'', ''libc_nomalloc'', ''libcompiler_rt''];
                          deps = deps\<lparr>StaticLibs := staticLibs\<rparr>
                      in deps\<lparr>LateStaticLibs := groupLibs @ LateStaticLibs deps\<rparr>)
                   else deps)
             else deps)
      in if binaryLinker_buildShared binary \<and> inList ''libc'' (StaticLibs deps)
         then (deps, ModuleErrorf ctx
                 (''statically linking libc to dynamic executable, please remove libc'' @
                  [CHR 0x0A] @ ''from static libs or set static_executable: true'') [])
         else (deps, ctx))"

definition testLinker_deps :: "Module \<Rightarrow> Ctx \<Rightarrow> testLinker \<Rightarrow> Deps \<Rightarrow> Deps \<times> Ctx" where
  "testLinker_deps c ctx test deps =
     (let deps =
            (if Gtest test then
               (if sdk c ctx \<and> Device ctx then
                  (if selectedStl c = ''ndk_libc++_shared'' \<or> selectedStl c = ''ndk_libc++_static''
                   then deps\<lparr>StaticLibs := StaticLibs deps @
                          [''libgtest_main_ndk_libcxx'', ''libgtest_ndk_libcxx'']\<rparr>
                   else if selectedStl c = ''ndk_libgnustl_static''
                   then deps\<lparr>StaticLibs := StaticLibs deps @
                          [''libgtest_main_ndk_gnustl'', ''libgtest_ndk_gnustl'']\<rparr>
                   else deps\<lparr>StaticLibs := StaticLibs deps @
                          [''libgtest_main_ndk'', ''libgtest_ndk'']\<rparr>)
                else deps\<lparr>StaticLibs := StaticLibs deps @ [''libgtest_main'', ''libgtest'']\<rparr>)
             else deps)
      in binaryLinker_deps c ctx test deps)"

definition benchmarkLinker_deps ::
  "Module \<Rightarrow> Ctx \<Rightarrow> binaryLinker \<Rightarrow> Deps \<Rightarrow> Deps \<times> Ctx" where
  "benchmarkLinker_deps c ctx benchmark deps =
     (let (deps, ctx) = binaryLinker_deps c ctx benchmark deps
      in (deps\<lparr>StaticLibs := StaticLibs deps @ [''libbenchmark'', ''libbase'']\<rparr>, ctx))"

text \<open>
  The \<open>deps\<close> method that Go dispatches to for each delegate. Toolchain libraries and
  the NDK prebuilts return the names unchanged; both compilers use \<open>baseCompiler.deps\<close>.
\<close>

fun linker_deps :: "Module \<Rightarrow> Ctx \<Rightarrow> linker \<Rightarrow> Deps \<Rightarrow> Deps \<times> Ctx" where
  "linker_deps c ctx (LibraryLinker l) deps = (libraryLinker_deps c ctx l deps, ctx)"
| "linker_deps c ctx (BinaryLinker b) deps = binaryLinker_deps c ctx b deps"
| "linker_deps c ctx (TestLinker t) deps = testLinker_deps c ctx t deps"
| "linker_deps c ctx (BenchmarkLinker b) deps = benchmarkLinker_deps c ctx b deps"
| "linker_deps c ctx (ObjectLinker objs) deps = (objectLinker_deps objs deps, ctx)"
| "linker_deps c ctx (ToolchainLibraryLinker l) deps = (deps, ctx)"
| "linker_deps c ctx (NdkPrebuiltObjectLinker objs) deps = (deps, ctx)"
| "linker_deps c ctx (NdkPrebuiltLibraryLinker l) deps = (deps, ctx)"
| "linker_deps c ctx (NdkPrebuiltStlLinker l) deps = (deps, ctx)"

fun compiler_deps :: "compiler \<Rightarrow> Deps \<Rightarrow> Deps" where
  "compiler_deps (BaseCompiler b) deps = baseCompiler_deps b deps"
| "compiler_deps (LibraryCompiler l) deps = baseCompiler_deps l deps"

text \<open>A stage declared in another file: its names replace the current ones, its errors are reported.\<close>

definition runStage :: "depsStage \<Rightarrow> Deps \<times> Ctx \<Rightarrow> Deps \<times> Ctx" where
  "runStage f s = (let (deps, es) = f (fst s) in (deps, (snd s)\<lparr>errs := errs (snd s) @ es\<rparr>))"

subsection \<open>\<open>Module.deps\<close>\<close>

text \<open>The stages of \<open>Module.deps\<close>, up to the deduplication.\<close>

definition Module_deps_stages :: "Module \<Rightarrow> Ctx \<Rightarrow> Deps \<times> Ctx" where
  "Module_deps_stages c ctx =
     (let deps = Deps_zero;
          deps = (case compiler c of Some cmp \<Rightarrow> compiler_deps cmp deps | None \<Rightarrow> deps);
          s = (case linker c of Some lnk \<Rightarrow> linker_deps c ctx lnk deps | None \<Rightarrow> (deps, ctx));
          s = (case stl c of Some st \<Rightarrow> runStage (stl_deps st) s | None \<Rightarrow> s);
          s = (case sanitize c of Some sn \<Rightarrow> runStage sn s | None \<Rightarrow> s)
      in foldl (\<lambda>s feature. runStage feature s) s (features c))"

text \<open>The two loops over the re-export lists.\<close>

fun checkReexportShared :: "string list \<Rightarrow> Deps \<Rightarrow> Ctx \<Rightarrow> Ctx" where
  "checkReexportShared [] deps ctx = ctx"
| "checkReexportShared (lib # libs) deps ctx =
     checkReexportShared libs deps
       (if \<not> inList lib (SharedLibs deps)
        then PropertyErrorf ctx ''export_shared_lib_headers''
               (''Shared library not in shared_libs: '' @ [CHR 0x27] @ ''%s'' @ [CHR 0x27])
               [StringArg lib]
        else ctx)"

fun checkReexportStatic :: "string list \<Rightarrow> Deps \<Rightarrow> Ctx \<Rightarrow> Ctx" where
  "checkReexportStatic [] deps ctx = ctx"
| "checkReexportStatic (lib # libs) deps ctx =
     checkReexportStatic libs deps
       (if \<not> inList lib (StaticLibs deps)
        then PropertyErrorf ctx ''export_static_lib_headers''
               (''Static library not in static_libs: '' @ [CHR 0x27] @ ''%s'' @ [CHR 0x27])
               [StringArg lib]
        else ctx)"

definition bindP :: "panic + 'a \<Rightarrow> ('a \<Rightarrow> panic + 'b) \<Rightarrow> panic + 'b" where
  "bindP r f = (case r of Inl p \<Rightarrow> Inl p | Inr v \<Rightarrow> f v)"

definition Module_deps :: "Module \<Rightarrow> Ctx \<Rightarrow> panic + (Deps \<times> Ctx)" where
  "Module_deps c ctx =
     (let (deps, ctx) = Module_deps_stages c ctx in
      bindP (lastUniqueElements (WholeStaticLibs deps)) (\<lambda>whole.
      bindP (lastUniqueElements (StaticLibs deps)) (\<lambda>static.
      bindP (lastUniqueElements (LateStaticLibs deps)) (\<lambda>lateStatic.
      bindP (lastUniqueElements (SharedLibs deps)) (\<lambda>shared.
      bindP (lastUniqueElements (LateSharedLibs deps)) (\<lambda>lateShared.
        (let deps = deps\<lparr>WholeStaticLibs := whole, StaticLibs := static,
                      LateStaticLibs := lateStatic, SharedLibs := shared,
                      LateSharedLibs := lateShared\<rparr>;
             ctx = checkReexportShared (ReexportSharedLibHeaders deps) deps ctx;
             ctx = checkReexportStatic (ReexportStaticLibHeaders deps) deps ctx
         in Inr (deps, ctx))))))))"

subsection \<open>\<open>Module.depsMutator\<close>\<close>

text \<open>
  For a module without a customizer. The loops over the static and the shared names
  pass the whole list to \<open>AddVariationDependencies\<close> on every round, as the source does;
  the tag of a round is the one chosen for the round's name.
\<close>

definition Module_depsMutator :: "Module \<Rightarrow> Ctx \<Rightarrow> panic + (Module \<times> Ctx \<times> edge list)" where
  "Module_depsMutator c ctx =
     (let c = Module_begin c ctx in
      bindP (Module_deps c ctx) (\<lambda>(deps, ctx).
        (let c = c\<lparr>AndroidMkSharedLibs := SharedLibs deps\<rparr>;
             es = AddVariationDependencies [(''link'', ''static'')] wholeStaticDepTag
                    (WholeStaticLibs deps);
             es = es @ concat (map (\<lambda>lib.
                    AddVariationDependencies [(''link'', ''static'')]
                      (if inList lib (ReexportStaticLibHeaders deps)
                       then staticExportDepTag else staticDepTag)
                      (StaticLibs deps)) (StaticLibs deps));
             es = es @ AddVariationDependencies [(''link'', ''static'')] lateStaticDepTag
                    (LateStaticLibs deps);
             es = es @ concat (map (\<lambda>lib.
                    AddVariationDependencies [(''link'', ''shared'')]
                      (if inList lib (ReexportSharedLibHeaders deps)
                       then sharedExportDepTag else sharedDepTag)
                      (SharedLibs deps)) (SharedLibs deps));
             es = es @ AddVariationDependencies [(''link'', ''shared'')] lateSharedDepTag
                    (LateSharedLibs deps);
             es = es @ AddDependency genSourceDepTag (GeneratedSources deps);
             es = es @ AddDependency genHeaderDepTag (GeneratedHeaders deps);
             es = es @ AddDependency objDepTag (ObjFiles deps);
             es = (if CrtBegin deps \<noteq> [] then es @ AddDependency crtBeginDepTag [CrtBegin deps]
                   else es);
             es = (if CrtEnd deps \<noteq> [] then es @ AddDependency crtEndDepTag [CrtEnd deps]
                   else es)
         in Inr (c, ctx, es))))"

section \<open>Dependency resolution: \<open>Module.depsToPaths\<close>\<close>

text \<open>
  A direct dependency that \<open>ctx.VisitDirectDeps\<close> visits: the name and the tag the
  context gives for it, and the module itself: not an \<open>android.Module\<close>; an android
  module that is no cc module and is a \<open>genrule.SourceFileGenerator\<close> (with its
  generated files and header directory) or is not; or a cc \<open>Module\<close>.
\<close>

datatype depModule =
    NotAndroidModule
  | SourceFileGenerator "path list" path
  | OtherAndroidModule
  | CcModule Module

record dep =
  depName :: string
  depTagOf :: depTag
  depModule :: depModule

definition linkTypeOk :: "Module \<Rightarrow> Module \<Rightarrow> bool" where
  "linkTypeOk from to =
     (if Target_Os from \<noteq> Android then True
      else if Sdk_version from = [] then True
      else case linker to of
             Some (ToolchainLibraryLinker l) \<Rightarrow> True
           | Some (NdkPrebuiltLibraryLinker l) \<Rightarrow> True
           | Some (NdkPrebuiltStlLinker l) \<Rightarrow> True
           | _ \<Rightarrow> Sdk_version to \<noteq> [])"

text \<open>
  The type assertion \<open>cc.linker.(exportedFlagsProducer)\<close> holds for the linkers that
  embed a \<open>flagExporter\<close>, which the library linker and the two that embed it do.
\<close>

definition linker_exportedFlags :: "linker option \<Rightarrow> string list option" where
  "linker_exportedFlags l =
     (case l of
        Some (LibraryLinker i) \<Rightarrow> Some (exportedFlags i)
      | Some (NdkPrebuiltLibraryLinker i) \<Rightarrow> Some (exportedFlags i)
      | Some (NdkPrebuiltStlLinker i) \<Rightarrow> Some (exportedFlags i)
      | _ \<Rightarrow> None)"

text \<open>
  The visit of one cc module, in the three parts of the visitor's body: the flags of a
  library edge (\<open>if t, ok := tag.(dependencyTag); ok && t.library\<close>), the \<open>switch\<close> on
  the tag with the append to the chosen bucket, and before both the checks of the
  target with the reuse edge. The result is the path set, the context, and the visited
  module: the whole-static case appends the postfix to the strings of the target's own
  \<open>wholeStaticMissingDeps\<close> slice, so the target is changed too. A target whose slice is
  nil or empty adds nothing. An error branch that ends in \<open>return\<close> appends no path.
\<close>

definition visitCc_library ::
  "Module \<Rightarrow> Ctx \<Rightarrow> PathDeps \<Rightarrow> string \<Rightarrow> depTag \<Rightarrow> Module \<Rightarrow> PathDeps \<times> Ctx" where
  "visitCc_library c ctx depPaths name tag cc =
     (case tag of
        CcTag t \<Rightarrow>
          if tag_library t then
            (let depPaths =
                   (case linker_exportedFlags (linker cc) of
                      Some cflags \<Rightarrow>
                        (let depPaths = depPaths\<lparr>pd_Cflags := pd_Cflags depPaths @ cflags\<rparr>
                         in if tag_reexportFlags t
                            then depPaths\<lparr>pd_ReexportedCflags :=
                                   pd_ReexportedCflags depPaths @ cflags\<rparr>
                            else depPaths)
                    | None \<Rightarrow> depPaths)
             in if \<not> linkTypeOk c cc
                then (depPaths, ModuleErrorf ctx
                        ''depends on non-NDK-built library %q'' [StringArg name])
                else (depPaths, ctx))
          else (depPaths, ctx)
      | _ \<Rightarrow> (depPaths, ctx))"

definition visitCc_switch ::
  "Ctx \<Rightarrow> PathDeps \<Rightarrow> string \<Rightarrow> depTag \<Rightarrow> Module \<Rightarrow> path \<Rightarrow> panic + (PathDeps \<times> Ctx \<times> Module)" where
  "visitCc_switch ctx depPaths name tag cc out =
     (if tag = CcTag sharedDepTag \<or> tag = CcTag sharedExportDepTag then
        Inr (depPaths\<lparr>pd_SharedLibs := pd_SharedLibs depPaths @ [out]\<rparr>, ctx, cc)
      else if tag = CcTag lateSharedDepTag then
        Inr (depPaths\<lparr>pd_LateSharedLibs := pd_LateSharedLibs depPaths @ [out]\<rparr>, ctx, cc)
      else if tag = CcTag staticDepTag \<or> tag = CcTag staticExportDepTag then
        Inr (depPaths\<lparr>pd_StaticLibs := pd_StaticLibs depPaths @ [out]\<rparr>, ctx, cc)
      else if tag = CcTag lateStaticDepTag then
        Inr (depPaths\<lparr>pd_LateStaticLibs := pd_LateStaticLibs depPaths @ [out]\<rparr>, ctx, cc)
      else if tag = CcTag wholeStaticDepTag then
        (case linker cc of
           Some (LibraryLinker staticLib) \<Rightarrow>
             if \<not> VariantIsStatic staticLib then
               Inr (depPaths, ModuleErrorf ctx ''module %q not a static library''
                      [StringArg name], cc)
             else
               (let (ctx, cc) =
                      (if wholeStaticMissingDeps staticLib \<noteq> [] then
                         (let postfix = '' (required by '' @ name @ '')'';
                              missing = map (\<lambda>dep. dep @ postfix)
                                          (wholeStaticMissingDeps staticLib)
                          in (AddMissingDependencies ctx missing,
                              cc\<lparr>linker := Some (LibraryLinker
                                 (staticLib\<lparr>wholeStaticMissingDeps := missing\<rparr>))\<rparr>))
                       else (ctx, cc));
                    depPaths = depPaths\<lparr>pd_WholeStaticLibObjFiles :=
                       pd_WholeStaticLibObjFiles depPaths @ objFiles staticLib\<rparr>
                in Inr (depPaths\<lparr>pd_WholeStaticLibs :=
                          pd_WholeStaticLibs depPaths @ [out]\<rparr>, ctx, cc))
         | _ \<Rightarrow> Inr (depPaths, ModuleErrorf ctx ''module %q not a static library''
                      [StringArg name], cc))
      else if tag = CcTag objDepTag then
        Inr (depPaths\<lparr>pd_ObjFiles := pd_ObjFiles depPaths @ [out]\<rparr>, ctx, cc)
      else if tag = CcTag crtBeginDepTag then
        Inr (depPaths\<lparr>pd_CrtBegin := outputFile cc\<rparr>, ctx, cc)
      else if tag = CcTag crtEndDepTag then
        Inr (depPaths\<lparr>pd_CrtEnd := outputFile cc\<rparr>, ctx, cc)
      else Inl (Explicit ''unknown dependency tag: %s'' [TagArg tag]))"

definition visitCc ::
  "Module \<Rightarrow> Ctx \<Rightarrow> PathDeps \<Rightarrow> string \<Rightarrow> depTag \<Rightarrow> Module \<Rightarrow> panic + (PathDeps \<times> Ctx \<times> Module)" where
  "visitCc c ctx depPaths name tag cc =
     (if \<not> Enabled cc then
        Inr (depPaths, ModuleErrorf ctx ''depends on disabled module %q'' [StringArg name], cc)
      else if Target_Os cc \<noteq> Os ctx then
        Inr (depPaths, ModuleErrorf ctx ''OS mismatch between %q and %q''
               [StringArg (ModuleName ctx), StringArg name], cc)
      else if Target_ArchType cc \<noteq> ArchType ctx then
        Inr (depPaths, ModuleErrorf ctx ''Arch mismatch between %q and %q''
               [StringArg (ModuleName ctx), StringArg name], cc)
      else case outputFile cc of
        None \<Rightarrow> Inr (depPaths, ModuleErrorf ctx ''module %q missing output file''
                  [StringArg name], cc)
      | Some out \<Rightarrow>
        if tag = CcTag reuseObjTag then
          (case compiler cc of
             Some (LibraryCompiler lc) \<Rightarrow>
               Inr (depPaths\<lparr>pd_ObjFiles := pd_ObjFiles depPaths @ reuseObjFiles lc\<rparr>, ctx, cc)
           | _ \<Rightarrow> Inl TypeAssertion)
        else
          (let (depPaths, ctx) = visitCc_library c ctx depPaths name tag cc
           in visitCc_switch ctx depPaths name tag cc out))"

text \<open>
  The test of the whole-static case, \<open>staticLib == nil || !staticLib.static()\<close>, negated:
  the target's linker is a \<open>*libraryLinker\<close> whose variant is static.
\<close>

definition staticLibraryVariant :: "Module \<Rightarrow> bool" where
  "staticLibraryVariant cc =
     (case linker cc of Some (LibraryLinker l) \<Rightarrow> VariantIsStatic l | _ \<Rightarrow> False)"

text \<open>
  The visitor. \<open>includeDirsToFlags\<close> is declared in another file and is a parameter.
\<close>

definition visitDep ::
  "(path list \<Rightarrow> string) \<Rightarrow> Module \<Rightarrow> Ctx \<Rightarrow> PathDeps \<Rightarrow> dep \<Rightarrow> panic + (PathDeps \<times> Ctx \<times> dep)" where
  "visitDep includeDirsToFlags c ctx depPaths m =
     (let name = depName m; tag = depTagOf m in
      case depModule m of
        NotAndroidModule \<Rightarrow>
          Inr (depPaths, ModuleErrorf ctx ''module %q not an android module'' [StringArg name], m)
      | SourceFileGenerator files dir \<Rightarrow>
          if tag = DefaultsDepTag then Inr (depPaths, ctx, m)
          else if tag = CcTag genSourceDepTag then
            Inr (depPaths\<lparr>pd_GeneratedSources := pd_GeneratedSources depPaths @ files\<rparr>, ctx, m)
          else if tag = CcTag genHeaderDepTag then
            Inr (depPaths\<lparr>pd_GeneratedHeaders := pd_GeneratedHeaders depPaths @ files,
                   pd_Cflags := pd_Cflags depPaths @ [includeDirsToFlags [dir]]\<rparr>, ctx, m)
          else Inr (depPaths, ModuleErrorf ctx ''depends on non-cc module %q'' [StringArg name], m)
      | OtherAndroidModule \<Rightarrow>
          if tag = DefaultsDepTag then Inr (depPaths, ctx, m)
          else if tag = CcTag genSourceDepTag then
            Inr (depPaths, ModuleErrorf ctx ''module %q is not a gensrcs or genrule''
                   [StringArg name], m)
          else if tag = CcTag genHeaderDepTag then
            Inr (depPaths, ModuleErrorf ctx ''module %q is not a genrule'' [StringArg name], m)
          else Inr (depPaths, ModuleErrorf ctx ''depends on non-cc module %q'' [StringArg name], m)
      | CcModule cc \<Rightarrow>
          bindP (visitCc c ctx depPaths name tag cc) (\<lambda>(depPaths, ctx, cc).
            Inr (depPaths, ctx, m\<lparr>depModule := CcModule cc\<rparr>)))"

fun visitDirectDeps ::
  "(path list \<Rightarrow> string) \<Rightarrow> Module \<Rightarrow> Ctx \<Rightarrow> PathDeps \<Rightarrow> dep list \<Rightarrow>
     panic + (PathDeps \<times> Ctx \<times> dep list)" where
  "visitDirectDeps incl c ctx depPaths [] = Inr (depPaths, ctx, [])"
| "visitDirectDeps incl c ctx depPaths (m # ms) =
     bindP (visitDep incl c ctx depPaths m) (\<lambda>(depPaths, ctx, m').
     bindP (visitDirectDeps incl c ctx depPaths ms) (\<lambda>(depPaths, ctx, ms').
       Inr (depPaths, ctx, m' # ms')))"

definition Module_depsToPaths ::
  "(path list \<Rightarrow> string) \<Rightarrow> Module \<Rightarrow> Ctx \<Rightarrow> dep list \<Rightarrow> panic + (PathDeps \<times> Ctx \<times> dep list)" where
  "Module_depsToPaths incl c ctx directDeps = visitDirectDeps incl c ctx PathDeps_zero directDeps"

section \<open>Link planning\<close>

text \<open>
  The build rules that the link steps emit, with the arguments in the order of the
  call. Builder flags are represented by the linker flags they are made from.
\<close>

record dynamicBinaryArgs =
  arg_objFiles :: "path list"
  arg_sharedLibs :: "path list"
  arg_staticLibs :: "path list"
  arg_lateStaticLibs :: "path list"
  arg_wholeStaticLibs :: "path list"
  arg_deps :: "path list"
  arg_crtBegin :: "path option"
  arg_crtEnd :: "path option"
  arg_groupLate :: bool
  arg_ldFlags :: "string list"
  arg_outputFile :: path

datatype rule =
    TransformObjToStaticLib "path list" path
  | TransformDarwinObjToStaticLib "path list" path
  | TransformDarwinStrip path path
  | TransformStrip path path bool bool
  | TransformBinaryPrefixSymbols string path path
  | TransformObjToDynamicBinary dynamicBinaryArgs
  | CheckbuildFile path

text \<open>
  \<open>libraryLinker.linkStatic\<close>; \<open>staticLibraryExtension\<close> is a constant declared in
  another file and is a parameter.
\<close>

definition libraryLinker_linkStatic ::
  "string \<Rightarrow> Ctx \<Rightarrow> libraryLinker \<Rightarrow> PathDeps \<Rightarrow> path list \<Rightarrow> libraryLinker \<times> path \<times> rule list" where
  "libraryLinker_linkStatic staticLibraryExtension ctx library deps objs =
     (let library = library\<lparr>objFiles := [] @ pd_WholeStaticLibObjFiles deps\<rparr>;
          library = library\<lparr>objFiles := objFiles library @ objs\<rparr>;
          out = PathForModuleOut [ModuleName ctx @ VariantName library @ staticLibraryExtension];
          rules = (if IsDarwin ctx then [TransformDarwinObjToStaticLib (objFiles library) out]
                   else [TransformObjToStaticLib (objFiles library) out]);
          library = library\<lparr>wholeStaticMissingDeps := GetMissingDependencies ctx\<rparr>
      in (library, out, rules @ [CheckbuildFile out]))"

text \<open>\<open>stripper.needsStrip\<close> and \<open>stripper.strip\<close>, for the strip properties of the linker.\<close>

definition needsStrip :: "Ctx \<Rightarrow> bool \<Rightarrow> bool" where
  "needsStrip ctx stripNone = (\<not> EmbeddedInMake ctx \<and> \<not> stripNone)"

definition strip :: "Ctx \<Rightarrow> bool \<Rightarrow> path \<Rightarrow> path \<Rightarrow> rule" where
  "strip ctx keepSymbols inp out =
     (if IsDarwin ctx then TransformDarwinStrip inp out
      else TransformStrip inp out keepSymbols True)"

text \<open>
  \<open>libraryLinker.linkShared\<close>. \<open>Toolchain.ShlibSuffix\<close> and the \<open>String\<close> method of a
  path are declared in other files and are parameters; \<open>android.OptionalPathForModuleSrc\<close>
  of a nil name is the invalid path, of a name the path below the module's sources.
\<close>

definition addLdFlag ::
  "string \<Rightarrow> (path \<Rightarrow> string) \<Rightarrow> path option \<Rightarrow> 'tc Flags \<times> path list \<Rightarrow> 'tc Flags \<times> path list" where
  "addLdFlag prefix String p s =
     (case p of
        Some f \<Rightarrow> ((fst s)\<lparr>LdFlags := LdFlags (fst s) @ [prefix @ String f]\<rparr>, snd s @ [f])
      | None \<Rightarrow> s)"

definition libraryLinker_linkShared ::
  "('tc \<Rightarrow> string) \<Rightarrow> (path \<Rightarrow> string) \<Rightarrow> Ctx \<Rightarrow> libraryLinker \<Rightarrow> 'tc Flags \<Rightarrow> PathDeps \<Rightarrow>
     path list \<Rightarrow> path \<times> Ctx \<times> rule list" where
  "libraryLinker_linkShared ShlibSuffix String ctx library flags deps objs =
     (let versionScript = map_option PathForModuleSrc (Version_script library);
          unexportedSymbols = map_option PathForModuleSrc (Unexported_symbols_list library);
          forceNotWeakSymbols = map_option PathForModuleSrc (Force_symbols_not_weak_list library);
          forceWeakSymbols = map_option PathForModuleSrc (Force_symbols_weak_list library);
          (fl, ctx) =
            (if \<not> IsDarwin ctx then
               (let fl = addLdFlag ''-Wl,--version-script,'' String versionScript (flags, []);
                    ctx = (if unexportedSymbols \<noteq> None
                           then PropertyErrorf ctx ''unexported_symbols_list''
                                  ''Only supported on Darwin'' [] else ctx);
                    ctx = (if forceNotWeakSymbols \<noteq> None
                           then PropertyErrorf ctx ''force_symbols_not_weak_list''
                                  ''Only supported on Darwin'' [] else ctx);
                    ctx = (if forceWeakSymbols \<noteq> None
                           then PropertyErrorf ctx ''force_symbols_weak_list''
                                  ''Only supported on Darwin'' [] else ctx)
                in (fl, ctx))
             else
               (let ctx = (if versionScript \<noteq> None
                           then PropertyErrorf ctx ''version_script'' ''Not supported on Darwin'' []
                           else ctx);
                    fl = addLdFlag ''-Wl,-unexported_symbols_list,'' String unexportedSymbols
                           (flags, []);
                    fl = addLdFlag ''-Wl,-force_symbols_not_weak_list,'' String
                           forceNotWeakSymbols fl;
                    fl = addLdFlag ''-Wl,-force_symbols_weak_list,'' String forceWeakSymbols fl
                in (fl, ctx)));
          flags = fst fl;
          linkerDeps = snd fl;
          fileName = ModuleName ctx @ VariantName library @ ShlibSuffix (Toolchain flags);
          out = PathForModuleOut [fileName];
          ret = out;
          (out, rules) =
            (if needsStrip ctx (Strip_None library) then
               (let strippedOutputFile = out;
                    out = PathForModuleOut [''unstripped'', fileName]
                in (out, [strip ctx (Strip_Keep_symbols library) out strippedOutputFile]))
             else (out, []));
          sharedLibs = pd_SharedLibs deps;
          sharedLibs = sharedLibs @ pd_LateSharedLibs deps
      in (ret, ctx, rules @ [TransformObjToDynamicBinary
            \<lparr>arg_objFiles = objs, arg_sharedLibs = sharedLibs,
             arg_staticLibs = pd_StaticLibs deps, arg_lateStaticLibs = pd_LateStaticLibs deps,
             arg_wholeStaticLibs = pd_WholeStaticLibs deps, arg_deps = linkerDeps,
             arg_crtBegin = pd_CrtBegin deps, arg_crtEnd = pd_CrtEnd deps,
             arg_groupLate = False, arg_ldFlags = LdFlags flags, arg_outputFile = out\<rparr>]))"

text \<open>
  \<open>binaryLinker.getStem\<close> and \<open>binaryLinker.link\<close>, which the test and the benchmark
  linker inherit. \<open>Toolchain.ExecutableSuffix\<close> is declared in another file and is a
  parameter. The prefix-symbols rule has the prefix, its input and its output; the link
  rule is called with \<open>groupLate\<close> true and with no linker dependency.
\<close>

definition binaryLinker_getStem :: "Ctx \<Rightarrow> 'a binaryLinker_scheme \<Rightarrow> string" where
  "binaryLinker_getStem ctx binary =
     (let stem = ModuleName ctx;
          stem = (if Stem binary \<noteq> [] then Stem binary else stem)
      in stem @ Suffix binary)"

definition binaryLinker_link ::
  "('tc \<Rightarrow> string) \<Rightarrow> Ctx \<Rightarrow> 'a binaryLinker_scheme \<Rightarrow> 'tc Flags \<Rightarrow> PathDeps \<Rightarrow>
     path list \<Rightarrow> 'a binaryLinker_scheme \<times> path \<times> rule list" where
  "binaryLinker_link ExecutableSuffix ctx binary flags deps objs =
     (let fileName = binaryLinker_getStem ctx binary @ ExecutableSuffix (Toolchain flags);
          out = PathForModuleOut [fileName];
          ret = out;
          binary = (if OsClassHost ctx then binary\<lparr>hostToolPath := Some out\<rparr> else binary);
          linkerDeps = [];
          sharedLibs = pd_SharedLibs deps;
          sharedLibs = sharedLibs @ pd_LateSharedLibs deps;
          flags = (if DynamicLinker flags \<noteq> []
                   then flags\<lparr>LdFlags := LdFlags flags @
                          ['' -Wl,-dynamic-linker,'' @ DynamicLinker flags]\<rparr>
                   else flags);
          (out, rules) =
            (if needsStrip ctx (Binary_Strip_None binary) then
               (let strippedOutputFile = out;
                    out = PathForModuleOut [''unstripped'', fileName]
                in (out, [strip ctx (Binary_Strip_Keep_symbols binary) out strippedOutputFile]))
             else (out, []));
          (out, rules) =
            (if Prefix_symbols binary \<noteq> [] then
               (let afterPrefixSymbols = out;
                    out = PathForModuleOut [''unprefixed'', fileName]
                in (out, rules @ [TransformBinaryPrefixSymbols (Prefix_symbols binary) out
                                   afterPrefixSymbols]))
             else (out, rules))
      in (binary, ret, rules @ [TransformObjToDynamicBinary
            \<lparr>arg_objFiles = objs, arg_sharedLibs = sharedLibs,
             arg_staticLibs = pd_StaticLibs deps, arg_lateStaticLibs = pd_LateStaticLibs deps,
             arg_wholeStaticLibs = pd_WholeStaticLibs deps, arg_deps = linkerDeps,
             arg_crtBegin = pd_CrtBegin deps, arg_crtEnd = pd_CrtEnd deps,
             arg_groupLate = True, arg_ldFlags = LdFlags flags, arg_outputFile = out\<rparr>]))"

text \<open>
  Modelled from the spec: \<open>TransformObjToDynamicBinary\<close> writes the link line and is
  declared in another file. Of the order of the libraries on that line the spec says
  that late buckets resolve after ordinary buckets, so the static libraries of the link
  input are the ordinary static paths the rule is given followed by the late-static
  paths it is given, and the shared libraries are the list it is given, in its order.
\<close>

definition linkInputStatic :: "dynamicBinaryArgs \<Rightarrow> path list" where
  "linkInputStatic args = arg_staticLibs args @ arg_lateStaticLibs args"

definition linkInputShared :: "dynamicBinaryArgs \<Rightarrow> path list" where
  "linkInputShared args = arg_sharedLibs args"

section \<open>Variant expansion: \<open>linkageMutator\<close>\<close>

text \<open>
  The linkers that implement \<open>baseLinkerInterface\<close> are those that embed a
  \<open>baseLinker\<close>; the two object linkers do not. \<open>buildStatic\<close> and \<open>buildShared\<close> are
  the methods of the library linker, of the binary linker and of the toolchain library
  linker; \<open>setStatic\<close> is the one of \<open>baseLinker\<close>.
\<close>

fun isBaseLinkerInterface :: "linker \<Rightarrow> bool" where
  "isBaseLinkerInterface (ObjectLinker objs) = False"
| "isBaseLinkerInterface (NdkPrebuiltObjectLinker objs) = False"
| "isBaseLinkerInterface l = True"

fun buildStatic :: "linker \<Rightarrow> bool" where
  "buildStatic (LibraryLinker l) = BuildStatic l"
| "buildStatic (NdkPrebuiltLibraryLinker l) = BuildStatic l"
| "buildStatic (NdkPrebuiltStlLinker l) = BuildStatic l"
| "buildStatic (BinaryLinker b) = binaryLinker_buildStatic b"
| "buildStatic (BenchmarkLinker b) = binaryLinker_buildStatic b"
| "buildStatic (TestLinker t) = binaryLinker_buildStatic t"
| "buildStatic (ToolchainLibraryLinker l) = True"
| "buildStatic (ObjectLinker objs) = False"
| "buildStatic (NdkPrebuiltObjectLinker objs) = False"

fun buildShared :: "linker \<Rightarrow> bool" where
  "buildShared (LibraryLinker l) = BuildShared l"
| "buildShared (NdkPrebuiltLibraryLinker l) = BuildShared l"
| "buildShared (NdkPrebuiltStlLinker l) = BuildShared l"
| "buildShared (BinaryLinker b) = binaryLinker_buildShared b"
| "buildShared (BenchmarkLinker b) = binaryLinker_buildShared b"
| "buildShared (TestLinker t) = binaryLinker_buildShared t"
| "buildShared (ToolchainLibraryLinker l) = False"
| "buildShared (ObjectLinker objs) = False"
| "buildShared (NdkPrebuiltObjectLinker objs) = False"

fun setStatic :: "bool \<Rightarrow> linker \<Rightarrow> linker" where
  "setStatic static (LibraryLinker l) = LibraryLinker (l\<lparr>VariantIsStatic := static\<rparr>)"
| "setStatic static (NdkPrebuiltLibraryLinker l) =
     NdkPrebuiltLibraryLinker (l\<lparr>VariantIsStatic := static\<rparr>)"
| "setStatic static (NdkPrebuiltStlLinker l) =
     NdkPrebuiltStlLinker (l\<lparr>VariantIsStatic := static\<rparr>)"
| "setStatic static (BinaryLinker b) = BinaryLinker (b\<lparr>VariantIsStatic := static\<rparr>)"
| "setStatic static (BenchmarkLinker b) = BenchmarkLinker (b\<lparr>VariantIsStatic := static\<rparr>)"
| "setStatic static (TestLinker t) = TestLinker (t\<lparr>VariantIsStatic := static\<rparr>)"
| "setStatic static (ToolchainLibraryLinker l) =
     ToolchainLibraryLinker (l\<lparr>VariantIsStatic := static\<rparr>)"
| "setStatic static (ObjectLinker objs) = ObjectLinker objs"
| "setStatic static (NdkPrebuiltObjectLinker objs) = NdkPrebuiltObjectLinker objs"

text \<open>
  What the mutator asks of the engine: the local variations it creates, each a copy of
  the module under the variation's name, and the inter-variant dependencies it adds
  (tag, from, to). No variation means that the module is left as it is.
\<close>

record mutation =
  localVariations :: "(string \<times> Module) list"
  interVariantDeps :: "(dependencyTag \<times> string \<times> string) list"

definition linkageMutator :: "string \<Rightarrow> Module \<Rightarrow> panic + mutation" where
  "linkageMutator moduleName m =
     (case linker m of
        None \<Rightarrow> Inr \<lparr>localVariations = [], interVariantDeps = []\<rparr>
      | Some lnk \<Rightarrow>
          if \<not> isBaseLinkerInterface lnk then Inr \<lparr>localVariations = [], interVariantDeps = []\<rparr>
          else if buildStatic lnk \<and> buildShared lnk then
            (let static = m\<lparr>linker := Some (setStatic True lnk)\<rparr>;
                 shared = m\<lparr>linker := Some (setStatic False lnk)\<rparr>
             in case compiler static of
                  Some (LibraryCompiler staticCompiler) \<Rightarrow>
                    (case compiler shared of
                       Some (LibraryCompiler sharedCompiler) \<Rightarrow>
                         if length (Static_Cflags staticCompiler) = 0 \<and>
                            length (Shared_Cflags sharedCompiler) = 0
                         then Inr \<lparr>localVariations =
                                [(''static'', static),
                                 (''shared'', shared\<lparr>compiler := Some (LibraryCompiler
                                     (sharedCompiler\<lparr>Srcs := []\<rparr>))\<rparr>)],
                                interVariantDeps = [(reuseObjTag, ''shared'', ''static'')]\<rparr>
                         else Inr \<lparr>localVariations = [(''static'', static), (''shared'', shared)],
                                interVariantDeps = []\<rparr>
                     | _ \<Rightarrow> Inl TypeAssertion)
                | _ \<Rightarrow> Inr \<lparr>localVariations = [(''static'', static), (''shared'', shared)],
                         interVariantDeps = []\<rparr>)
          else if buildStatic lnk then
            Inr \<lparr>localVariations = [(''static'', m\<lparr>linker := Some (setStatic True lnk)\<rparr>)],
                 interVariantDeps = []\<rparr>
          else if buildShared lnk then
            Inr \<lparr>localVariations = [(''shared'', m\<lparr>linker := Some (setStatic False lnk)\<rparr>)],
                 interVariantDeps = []\<rparr>
          else Inl (Explicit ''library %q not static or shared'' [StringArg moduleName]))"

section \<open>The illegal-flag filter of \<open>Module.GenerateAndroidBuildActions\<close>\<close>

text \<open>
  After the flag stages of the compiler, the linker, the STL, the sanitizer and the
  features, and before the flags are written to module variables:
  \<^verbatim>\<open>
  flags.CFlags, _ = filterList(flags.CFlags, illegalFlags)
  flags.CppFlags, _ = filterList(flags.CppFlags, illegalFlags)
  flags.ConlyFlags, _ = filterList(flags.ConlyFlags, illegalFlags)
  \<close>
\<close>

definition filterIllegalFlags :: "'tc Flags \<Rightarrow> 'tc Flags" where
  "filterIllegalFlags flags =
     (let flags = flags\<lparr>CFlags := fst (filterList (CFlags flags) illegalFlags)\<rparr>;
          flags = flags\<lparr>CppFlags := fst (filterList (CppFlags flags) illegalFlags)\<rparr>;
          flags = flags\<lparr>ConlyFlags := fst (filterList (ConlyFlags flags) illegalFlags)\<rparr>
      in flags)"

section \<open>Notions of the statements\<close>

text \<open>
  The names of the claims, written over the model. \<open>deduplicated\<close> is a \<open>Deps\<close> with
  each of its five library buckets reduced to the last occurrence of every name.
  \<open>sharedReexportError\<close> and \<open>staticReexportError\<close> are the errors of the two calls of
  \<open>ctx.PropertyErrorf\<close> in \<open>Module.deps\<close>.
\<close>

definition deduplicated :: "Deps \<Rightarrow> Deps" where
  "deduplicated deps =
     deps\<lparr>WholeStaticLibs := remdups (WholeStaticLibs deps),
          StaticLibs := remdups (StaticLibs deps),
          LateStaticLibs := remdups (LateStaticLibs deps),
          SharedLibs := remdups (SharedLibs deps),
          LateSharedLibs := remdups (LateSharedLibs deps)\<rparr>"

definition sharedReexportError :: "string \<Rightarrow> error" where
  "sharedReexportError lib = PropertyError ''export_shared_lib_headers''
     (''Shared library not in shared_libs: '' @ [CHR 0x27] @ ''%s'' @ [CHR 0x27]) [StringArg lib]"

definition staticReexportError :: "string \<Rightarrow> error" where
  "staticReexportError lib = PropertyError ''export_static_lib_headers''
     (''Static library not in static_libs: '' @ [CHR 0x27] @ ''%s'' @ [CHR 0x27]) [StringArg lib]"

text \<open>
  The linkers whose \<open>deps\<close> calls \<open>baseLinker.deps\<close> are the library, the binary, the test
  and the benchmark linker; the others return the names they are given (the object
  linker adds its objects). So the entries of \<open>export_shared_lib_headers\<close> and of
  \<open>export_static_lib_headers\<close> that reach the re-export lists, and with them the checks
  of \<open>Module.deps\<close>, are those of these four linkers.
\<close>

fun runsBaseLinkerDeps :: "linker \<Rightarrow> bool" where
  "runsBaseLinkerDeps (LibraryLinker l) = True"
| "runsBaseLinkerDeps (BinaryLinker b) = True"
| "runsBaseLinkerDeps (TestLinker t) = True"
| "runsBaseLinkerDeps (BenchmarkLinker b) = True"
| "runsBaseLinkerDeps l = False"

fun checkedSharedReexports :: "linker \<Rightarrow> string list" where
  "checkedSharedReexports (LibraryLinker l) = Export_shared_lib_headers l"
| "checkedSharedReexports (BinaryLinker b) = Export_shared_lib_headers b"
| "checkedSharedReexports (TestLinker t) = Export_shared_lib_headers t"
| "checkedSharedReexports (BenchmarkLinker b) = Export_shared_lib_headers b"
| "checkedSharedReexports l = []"

fun checkedStaticReexports :: "linker \<Rightarrow> string list" where
  "checkedStaticReexports (LibraryLinker l) = Export_static_lib_headers l"
| "checkedStaticReexports (BinaryLinker b) = Export_static_lib_headers b"
| "checkedStaticReexports (TestLinker t) = Export_static_lib_headers t"
| "checkedStaticReexports (BenchmarkLinker b) = Export_static_lib_headers b"
| "checkedStaticReexports l = []"

text \<open>The stages of \<open>Module.deps\<close> that run after the linker's, in their order.\<close>

definition laterStages :: "Module \<Rightarrow> depsStage list" where
  "laterStages c =
     (case stl c of Some st \<Rightarrow> [stl_deps st] | None \<Rightarrow> []) @
     (case sanitize c of Some sn \<Rightarrow> [sn] | None \<Rightarrow> []) @ features c"

text \<open>
  A visited module without what it has recorded as missing, and a direct dependency
  with such a module: the resolved paths and flags do not depend on the record.
\<close>

definition forgetMissing :: "Module \<Rightarrow> Module" where
  "forgetMissing cc =
     (case linker cc of
        Some (LibraryLinker w) \<Rightarrow>
          cc\<lparr>linker := Some (LibraryLinker (w\<lparr>wholeStaticMissingDeps := []\<rparr>))\<rparr>
      | _ \<Rightarrow> cc)"

definition forgetDep :: "dep \<Rightarrow> dep" where
  "forgetDep m =
     (case depModule m of
        CcModule cc \<Rightarrow> m\<lparr>depModule := CcModule (forgetMissing cc)\<rparr>
      | _ \<Rightarrow> m)"

section \<open>Example modules\<close>

text \<open>
  A stage that adds nothing (such as the STL stage of a module with \<open>stl: "none"\<close>), an
  enabled module for an Android arm64 target that has both stages and no delegate yet
  (what \<open>newModule\<close> returns), and the context of a device build of a module.
\<close>

definition noStage :: depsStage where
  "noStage deps = (deps, [])"

definition exampleModule :: Module where
  "exampleModule = \<lparr>Enabled = True, Target_Os = Android, Target_ArchType = ''arm64'',
     Sdk_version = [], AndroidMkSharedLibs = [], compiler = None, linker = None,
     stl = Some \<lparr>SelectedStl = [], stl_deps = noStage\<rparr>, sanitize = Some noStage,
     features = [], outputFile = None\<rparr>"

definition deviceCtx :: "string \<Rightarrow> Ctx" where
  "deviceCtx moduleName = \<lparr>Device = True, Host = False, IsDarwin = False, Os = Android,
     OsClassHost = False, ArchType = ''arm64'', ModuleName = moduleName, Is64Bit = True,
     HostStaticBinaries = None, EmbeddedInMake = False, errs = [], missingDeps = []\<rparr>"

text \<open>The context of a build of a module for a Darwin host.\<close>

definition darwinHostCtx :: "string \<Rightarrow> Ctx" where
  "darwinHostCtx moduleName = \<lparr>Device = False, Host = True, IsDarwin = True, Os = Darwin,
     OsClassHost = True, ArchType = ''x86_64'', ModuleName = moduleName, Is64Bit = True,
     HostStaticBinaries = None, EmbeddedInMake = False, errs = [], missingDeps = []\<rparr>"

text \<open>
  A \<open>cc_binary\<close> with \<open>static_executable: true\<close> and \<open>static_libs: ["libc"]\<close>, and the same
  binary without \<open>static_executable\<close>.
\<close>

definition staticBinary :: Module where
  "staticBinary = exampleModule\<lparr>compiler := Some (BaseCompiler baseCompiler_zero),
     linker := Some (BinaryLinker
       (binaryLinker_zero\<lparr>Static_libs := [''libc''], Static_executable := Some True\<rparr>))\<rparr>"

definition dynamicBinary :: Module where
  "dynamicBinary = exampleModule\<lparr>compiler := Some (BaseCompiler baseCompiler_zero),
     linker := Some (BinaryLinker (binaryLinker_zero\<lparr>Static_libs := [''libc'']\<rparr>))\<rparr>"

text \<open>
  A \<open>cc_library\<close> (both modes) with a source of its own and \<open>shared: { srcs: ["only_shared.c"] }\<close>;
  one with \<open>shared: { cflags: ["-DSHARED"] }\<close> and no source of a mode; one with
  \<open>static: { enabled: false }\<close> and \<open>shared: { enabled: false }\<close>.
\<close>

definition libraryWithSharedSrcs :: Module where
  "libraryWithSharedSrcs = exampleModule\<lparr>
     compiler := Some (LibraryCompiler
       (libraryCompiler_zero\<lparr>Srcs := [''common.c''], Shared_Srcs := [''only_shared.c'']\<rparr>)),
     linker := Some (LibraryLinker (libraryLinker_zero\<lparr>BuildStatic := True, BuildShared := True\<rparr>))\<rparr>"

definition libraryWithSharedCflags :: Module where
  "libraryWithSharedCflags = exampleModule\<lparr>
     compiler := Some (LibraryCompiler
       (libraryCompiler_zero\<lparr>Srcs := [''common.c''], Shared_Cflags := [''-DSHARED'']\<rparr>)),
     linker := Some (LibraryLinker (libraryLinker_zero\<lparr>BuildStatic := True, BuildShared := True\<rparr>))\<rparr>"

definition libraryBothDisabled :: Module where
  "libraryBothDisabled = exampleModule\<lparr>
     compiler := Some (LibraryCompiler libraryCompiler_zero),
     linker := Some (LibraryLinker
       (libraryLinker_zero\<lparr>BuildShared := True, BuildStatic := True,
          Static_Enabled := Some False, Shared_Enabled := Some False\<rparr>))\<rparr>"

text \<open>
  A shared library variant built against SDK version 21 with
  \<open>shared: { shared_libs: ["libuser"] }\<close>, and one with
  \<open>shared_libs: ["libfoo"]\<close>, \<open>export_shared_lib_headers: ["libfoo", "libbar"]\<close> and
  \<open>whole_static_libs: ["libw"]\<close>.
\<close>

definition sdkSharedLibrary :: Module where
  "sdkSharedLibrary = exampleModule\<lparr>Sdk_version := ''21'',
     compiler := Some (LibraryCompiler libraryCompiler_zero),
     linker := Some (LibraryLinker
       (libraryLinker_zero\<lparr>BuildShared := True, Shared_Shared_libs := [''libuser'']\<rparr>))\<rparr>"

definition reexportingLibrary :: Module where
  "reexportingLibrary = exampleModule\<lparr>
     compiler := Some (LibraryCompiler libraryCompiler_zero),
     linker := Some (LibraryLinker
       (libraryLinker_zero\<lparr>BuildShared := True, Shared_libs := [''libfoo''],
          Whole_static_libs := [''libw''],
          Export_shared_lib_headers := [''libfoo'', ''libbar'']\<rparr>))\<rparr>"

text \<open>
  A shared library variant with \<open>shared_libs: ["libfoo"]\<close>,
  \<open>export_shared_lib_headers: ["libfoo", "libbar"]\<close>, \<open>static_libs: ["liby"]\<close> and
  \<open>export_static_lib_headers: ["libx", "liby"]\<close>; a \<open>toolchain_library\<close> (its module comes
  from \<open>newBaseModule\<close> and has no STL and no sanitizer delegate) with
  \<open>export_static_lib_headers: ["libfoo"]\<close>; and a shared library variant with
  \<open>static_libs: ["A", "B", "A"]\<close> and \<open>shared_libs: ["libx", "libx"]\<close>.
\<close>

definition reexportingBothRoles :: Module where
  "reexportingBothRoles = exampleModule\<lparr>
     compiler := Some (LibraryCompiler libraryCompiler_zero),
     linker := Some (LibraryLinker
       (libraryLinker_zero\<lparr>BuildShared := True, Shared_libs := [''libfoo''],
          Export_shared_lib_headers := [''libfoo'', ''libbar''], Static_libs := [''liby''],
          Export_static_lib_headers := [''libx'', ''liby'']\<rparr>))\<rparr>"

definition baseLinker_zero :: baseLinker where
  "baseLinker_zero = \<lparr>Whole_static_libs = [], Static_libs = [], Shared_libs = [],
     System_shared_libs = None, No_libgcc = None, Export_shared_lib_headers = [],
     Export_static_lib_headers = [], VariantIsShared = False, VariantIsStatic = False,
     VariantIsStaticBinary = False, RunPaths = []\<rparr>"

definition toolchainLibraryWithExport :: Module where
  "toolchainLibraryWithExport = exampleModule\<lparr>stl := None, sanitize := None,
     compiler := Some (BaseCompiler baseCompiler_zero),
     linker := Some (ToolchainLibraryLinker
       (baseLinker_zero\<lparr>Export_static_lib_headers := [''libfoo'']\<rparr>))\<rparr>"

definition duplicatingLibrary :: Module where
  "duplicatingLibrary = exampleModule\<lparr>
     compiler := Some (LibraryCompiler libraryCompiler_zero),
     linker := Some (LibraryLinker
       (libraryLinker_zero\<lparr>BuildShared := True, Static_libs := [''A'', ''B'', ''A''],
          Shared_libs := [''libx'', ''libx'']\<rparr>))\<rparr>"

text \<open>
  A static library variant \<open>W\<close> that has recorded the missing dependency \<open>X\<close>, a shared
  library variant \<open>S\<close>, both built, the variant \<open>W\<close> with an exported flag, and a flag set
  with the illegal flag in every list.
\<close>

definition staticLibW :: Module where
  "staticLibW = exampleModule\<lparr>
     compiler := Some (LibraryCompiler libraryCompiler_zero),
     linker := Some (LibraryLinker
       (libraryLinker_zero\<lparr>BuildStatic := True, VariantIsStatic := True,
          wholeStaticMissingDeps := [''X''], objFiles := [PathForModuleOut [''w1.o''], PathForModuleOut [''w2.o'']]\<rparr>)),
     outputFile := Some (PathForModuleOut [''W.a''])\<rparr>"

definition exportingStaticLib :: Module where
  "exportingStaticLib = exampleModule\<lparr>
     compiler := Some (LibraryCompiler libraryCompiler_zero),
     linker := Some (LibraryLinker
       (libraryLinker_zero\<lparr>BuildStatic := True, VariantIsStatic := True,
          exportedFlags := [''-Iw/include''], wholeStaticMissingDeps := [''X''],
          objFiles := [PathForModuleOut [''w1.o'']]\<rparr>)),
     outputFile := Some (PathForModuleOut [''W.a''])\<rparr>"

definition staticBinaryWithLibcxx :: Module where
  "staticBinaryWithLibcxx = exampleModule\<lparr>compiler := Some (BaseCompiler baseCompiler_zero),
     linker := Some (BinaryLinker
       (binaryLinker_zero\<lparr>Static_libs := [''libc++_static''], Static_executable := Some True\<rparr>))\<rparr>"

definition sharedLibS :: Module where
  "sharedLibS = exampleModule\<lparr>
     compiler := Some (LibraryCompiler libraryCompiler_zero),
     linker := Some (LibraryLinker (libraryLinker_zero\<lparr>BuildShared := True\<rparr>)),
     outputFile := Some (PathForModuleOut [''S.so''])\<rparr>"

text \<open>
  The direct dependencies of a consumer, a whole-static edge to \<open>W\<close> and a shared edge to
  \<open>S\<close>, and a resolved path set with a user's and the system's libraries.
\<close>

definition exampleDeps :: "dep list" where
  "exampleDeps = [\<lparr>depName = ''W'', depTagOf = CcTag wholeStaticDepTag,
                    depModule = CcModule exportingStaticLib\<rparr>,
                  \<lparr>depName = ''S'', depTagOf = CcTag sharedDepTag, depModule = CcModule sharedLibS\<rparr>]"

definition examplePaths :: PathDeps where
  "examplePaths = PathDeps_zero\<lparr>pd_SharedLibs := [OtherPath ''libuser.so''],
     pd_LateSharedLibs := [OtherPath ''libc.so'', OtherPath ''libm.so''],
     pd_StaticLibs := [OtherPath ''libuser.a''],
     pd_LateStaticLibs := [OtherPath ''libatomic.a'', OtherPath ''libgcc.a'']\<rparr>"

definition exampleFlags :: "unit Flags" where
  "exampleFlags = \<lparr>GlobalFlags = [''-w''], AsFlags = [''-w'', ''-D__ASSEMBLY__''],
     CFlags = [''-Wall'', ''-w'', ''-O2''], ConlyFlags = [''-w''], CppFlags = [''-w'', ''-frtti''],
     YaccFlags = [''-w''], LdFlags = [''-w'', ''-shared''], libFlags = [], Nocrt = False,
     Toolchain = (), Clang = False, RequiredInstructionSet = [], DynamicLinker = [],
     CFlagsDeps = []\<rparr>"

lemmas example_defs = libraryCompiler_zero_def baseCompiler_zero_def libraryLinker_zero_def
  binaryLinker_zero_def noStage_def exampleModule_def deviceCtx_def staticBinary_def
  dynamicBinary_def libraryWithSharedSrcs_def libraryWithSharedCflags_def
  libraryBothDisabled_def sdkSharedLibrary_def reexportingLibrary_def staticLibW_def
  sharedLibS_def exampleFlags_def darwinHostCtx_def reexportingBothRoles_def
  baseLinker_zero_def toolchainLibraryWithExport_def duplicatingLibrary_def
  exportingStaticLib_def staticBinaryWithLibcxx_def

section \<open>Properties\<close>

subsection \<open>Helpers\<close>

lemma inList_iff [simp]: "inList s list \<longleftrightarrow> s \<in> set list"
  by (induction list) auto

lemma filterList_eq [simp]:
  "filterList list flt = (filter (\<lambda>l. l \<notin> set flt) list, filter (\<lambda>l. l \<in> set flt) list)"
  by (induction list) auto

subsection \<open>lastUniqueElements keeps the last occurrence of every name\<close>

lemma remdups_filter_neq:
  "remdups (filter (\<lambda>y. y \<noteq> x) A @ x # D) = remdups (A @ x # D)"
  by (induction A) auto

lemma lastUnique_inner_spec:
  "T \<le> J \<Longrightarrow> J \<le> I \<Longrightarrow> I < length list \<Longrightarrow> J + S \<le> I \<Longrightarrow>
   \<exists>list' S'. lastUnique_inner list (int I) (int J - 1) (int S) (int T) = Inr (list', int S')
      \<and> length list' = length list \<and> T + S' \<le> J + S
      \<and> drop (T + S') list' =
          filter (\<lambda>y. y \<noteq> list ! I) (take (J - T) (drop T list)) @ drop (J + S) list"
proof (induction J arbitrary: list S)
  case 0
  then show ?case
    by (simp add: lastUnique_inner.simps)
next
  case (Suc J)
  show ?case
  proof (cases "T \<le> J")
    case False
    with Suc.prems have "T = Suc J" by simp
    then show ?thesis
      by (simp add: lastUnique_inner.simps)
  next
    case True
    have bI: "inBounds list (int I)" and bJ: "inBounds list (int J)"
      using Suc.prems by (simp_all add: inBounds_def)
    have tk: "take (Suc J - T) (drop T list) = take (J - T) (drop T list) @ [list ! J]"
      using True Suc.prems by (simp add: Suc_diff_le take_Suc_conv_app_nth)
    show ?thesis
    proof (cases "list ! I = list ! J")
      case eq: True
      from Suc.IH [of list "Suc S"] True Suc.prems
      obtain list' S' where
        r: "lastUnique_inner list (int I) (int J - 1) (int (Suc S)) (int T) = Inr (list', int S')"
        and l: "length list' = length list" and b: "T + S' \<le> J + Suc S"
        and d: "drop (T + S') list' =
            filter (\<lambda>y. y \<noteq> list ! I) (take (J - T) (drop T list)) @ drop (J + Suc S) list"
        by auto
      have "lastUnique_inner list (int I) (int (Suc J) - 1) (int S) (int T) = Inr (list', int S')"
        using r True bI bJ eq
        by (subst lastUnique_inner.simps) (simp add: add.commute)
      with l b d tk eq show ?thesis by auto
    next
      case neq: False
      let ?l2 = "list[J + S := list ! J]"
      have bJS: "inBounds list (int J + int S)"
        using Suc.prems by (simp add: inBounds_def)
      from Suc.IH [of ?l2 S] True Suc.prems
      obtain list' S' where
        r: "lastUnique_inner ?l2 (int I) (int J - 1) (int S) (int T) = Inr (list', int S')"
        and l: "length list' = length list" and b: "T + S' \<le> J + S"
        and d: "drop (T + S') list' =
            filter (\<lambda>y. y \<noteq> ?l2 ! I) (take (J - T) (drop T ?l2)) @ drop (J + S) ?l2"
        by auto
      have I2: "?l2 ! I = list ! I"
        using Suc.prems by simp
      have t2: "take (J - T) (drop T ?l2) = take (J - T) (drop T list)"
        using True by (simp add: take_drop)
      have d2: "drop (J + S) ?l2 = list ! J # drop (Suc J + S) list"
        using Suc.prems by (simp add: upd_conv_take_nth_drop)
      have "lastUnique_inner list (int I) (int (Suc J) - 1) (int S) (int T) = Inr (list', int S')"
        using r True bI bJ bJS neq
        by (subst lastUnique_inner.simps) (simp add: nat_add_distrib)
      with l b d tk neq I2 t2 d2 show ?thesis by auto
    qed
  qed
qed

lemma lastUnique_outer_spec:
  "T \<le> I1 \<Longrightarrow> I1 \<le> length list \<Longrightarrow> distinct (drop I1 list) \<Longrightarrow>
   set (take (I1 - T) (drop T list)) \<inter> set (drop I1 list) = {} \<Longrightarrow>
   lastUnique_outer list (int I1 - 1) (int T) = Inr (remdups (drop T list))"
proof (induction I1 arbitrary: list T)
  case 0
  then show ?case by (simp add: distinct_remdups_id lastUnique_outer.simps)
next
  case (Suc I)
  show ?case
  proof (cases "T \<le> I")
    case False
    with Suc.prems have T: "T = Suc I" by simp
    have "nat (1 + int I) = Suc I" by simp
    with T Suc.prems show ?thesis by (simp add: distinct_remdups_id lastUnique_outer.simps)
  next
    case True
    let ?x = "list ! I"
    let ?A = "take (I - T) (drop T list)"
    let ?D = "drop (Suc I) list"
    from lastUnique_inner_spec [of T I I list 0] True Suc.prems
    obtain list' S' where
      r: "lastUnique_inner list (int I) (int I - 1) 0 (int T) = Inr (list', int S')"
      and l: "length list' = length list" and b: "T + S' \<le> I"
      and d: "drop (T + S') list' = filter (\<lambda>y. y \<noteq> ?x) ?A @ drop I list"
      by auto
    have dI: "drop I list = ?x # ?D"
      using Suc.prems by (simp add: Cons_nth_drop_Suc)
    have whole: "drop T list = ?A @ ?x # ?D"
    proof -
      have "drop T list = take (I - T) (drop T list) @ drop (I - T) (drop T list)"
        by (rule append_take_drop_id [symmetric])
      moreover have "drop (I - T) (drop T list) = drop I list"
        using True by simp
      ultimately show ?thesis using dI by simp
    qed
    have tk: "take (Suc I - T) (drop T list) = ?A @ [?x]"
      using True Suc.prems by (simp add: Suc_diff_le take_Suc_conv_app_nth)
    have lenF: "length (filter (\<lambda>y. y \<noteq> ?x) ?A) = I - (T + S')"
    proof -
      have "length (drop (T + S') list') =
            length (filter (\<lambda>y. y \<noteq> ?x) ?A) + length (drop I list)"
        by (simp only: d length_append)
      then have "length list - (T + S') =
            length (filter (\<lambda>y. y \<noteq> ?x) ?A) + (length list - I)"
        by (simp only: length_drop l)
      with b Suc.prems(2) show ?thesis by arith
    qed
    have dI': "drop I list' = drop I list"
    proof -
      have "drop I list' = drop (I - (T + S')) (drop (T + S') list')"
        using b by simp
      also have "\<dots> = drop I list"
        using d lenF by simp
      finally show ?thesis .
    qed
    have tI': "take (I - (T + S')) (drop (T + S') list') = filter (\<lambda>y. y \<noteq> ?x) ?A"
      using d lenF by simp
    have xnotin: "?x \<notin> set ?D"
      using Suc.prems(4) tk by auto
    have Adisj: "set ?A \<inter> set ?D = {}"
      using Suc.prems(4) tk by auto
    have p1: "distinct (drop I list')"
      using dI' dI xnotin Suc.prems(3) by simp
    have p2: "set (take (I - (T + S')) (drop (T + S') list')) \<inter> set (drop I list') = {}"
      using tI' dI' dI Adisj by auto
    have "lastUnique_outer list' (int I - 1) (int (T + S')) = Inr (remdups (drop (T + S') list'))"
      using Suc.IH [of "T + S'" list'] b l Suc.prems(2) p1 p2 by simp
    also have "drop (T + S') list' = filter (\<lambda>y. y \<noteq> ?x) ?A @ ?x # ?D"
      using d dI by simp
    also have "remdups \<dots> = remdups (drop T list)"
      using whole remdups_filter_neq [of ?x ?A ?D] by simp
    finally have rec: "lastUnique_outer list' (int I - 1) (int (T + S')) = Inr (remdups (drop T list))" .
    show ?thesis
      using True r rec by (subst lastUnique_outer.simps) simp
  qed
qed

lemma lastUniqueElements_remdups [simp]: "lastUniqueElements list = Inr (remdups list)"
  using lastUnique_outer_spec [of 0 "length list" list] by (simp add: lastUniqueElements_def)

text \<open>
  \<open>remdups\<close> drops an element exactly when it occurs again later in the list: what
  remains are the entries at the positions of the last occurrences, in their order.
\<close>

lemma remdups_last_occurrences:
  "remdups xs = nths xs {i. i < length xs \<and> xs ! i \<notin> set (drop (Suc i) xs)}"
proof (induction xs)
  case Nil
  show ?case by simp
next
  case (Cons x xs)
  have "{j. Suc j \<in> {i. i < length (x # xs) \<and> (x # xs) ! i \<notin> set (drop (Suc i) (x # xs))}} =
        {i. i < length xs \<and> xs ! i \<notin> set (drop (Suc i) xs)}"
    by auto
  with Cons show ?case by (simp add: nths_Cons)
qed

subsection \<open>\<open>Module.deps\<close> in closed form\<close>

lemma Module_deps_eq:
  "Module_deps c ctx =
     (let s = Module_deps_stages c ctx;
          deps = (fst s)\<lparr>WholeStaticLibs := remdups (WholeStaticLibs (fst s)),
                    StaticLibs := remdups (StaticLibs (fst s)),
                    LateStaticLibs := remdups (LateStaticLibs (fst s)),
                    SharedLibs := remdups (SharedLibs (fst s)),
                    LateSharedLibs := remdups (LateSharedLibs (fst s))\<rparr>
      in Inr (deps, checkReexportStatic (ReexportStaticLibHeaders deps) deps
                      (checkReexportShared (ReexportSharedLibHeaders deps) deps (snd s))))"
  by (simp add: Module_deps_def bindP_def Let_def split: prod.split)

subsection \<open>The linker stages in closed form\<close>

lemma baseLinker_deps_closed:
  "baseLinker_deps c ctx lnk deps =
     deps\<lparr>WholeStaticLibs := WholeStaticLibs deps @ Whole_static_libs lnk,
          StaticLibs := StaticLibs deps @ Static_libs lnk @
            (if \<not> sdk c ctx \<and> ModuleName ctx \<noteq> ''libcompiler_rt-extras''
             then [''libcompiler_rt-extras''] else []),
          SharedLibs := SharedLibs deps @ Shared_libs lnk @
            (if Device ctx \<and> sdk c ctx
             then [''ndk_libc.'' @ sdkVersion c ctx, ''ndk_libm.'' @ sdkVersion c ctx] else []),
          ReexportStaticLibHeaders := ReexportStaticLibHeaders deps @ Export_static_lib_headers lnk,
          ReexportSharedLibHeaders := ReexportSharedLibHeaders deps @ Export_shared_lib_headers lnk,
          LateStaticLibs := LateStaticLibs deps @
            (if Device ctx then [''libatomic''] @ (if Bool (No_libgcc lnk) then [] else [''libgcc''])
             else []),
          LateSharedLibs := LateSharedLibs deps @
            (if Device ctx \<and> \<not> VariantIsStatic lnk then
               (case System_shared_libs lnk of
                  Some libs \<Rightarrow> libs
                | None \<Rightarrow> if sdk c ctx then [] else [''libc'', ''libm''])
             else [])\<rparr>"
  unfolding baseLinker_deps_def Let_def
  by (cases "Device ctx"; cases "sdk c ctx"; cases "Bool (No_libgcc lnk)";
      cases "VariantIsStatic lnk"; cases "System_shared_libs lnk";
      cases "ModuleName ctx = ''libcompiler_rt-extras''"; simp)


lemma baseLinker_deps_StaticLibs:
  "StaticLibs (baseLinker_deps c ctx lnk deps) =
     StaticLibs deps @ Static_libs lnk @
       (if \<not> sdk c ctx \<and> ModuleName ctx \<noteq> ''libcompiler_rt-extras''
        then [''libcompiler_rt-extras''] else [])"
  by (simp add: baseLinker_deps_closed)

lemma baseLinker_deps_LateStaticLibs:
  "LateStaticLibs (baseLinker_deps c ctx lnk deps) =
     LateStaticLibs deps @
       (if Device ctx then [''libatomic''] @ (if Bool (No_libgcc lnk) then [] else [''libgcc''])
        else [])"
  by (simp add: baseLinker_deps_closed)

lemma binaryLinker_deps_errs:
  "errs (snd (binaryLinker_deps c ctx binary deps)) =
     (if \<not> VariantIsStaticBinary binary \<and>
         ''libc'' \<in> set (StaticLibs (baseLinker_deps c ctx binary deps))
      then errs ctx @ [ModuleError
             (''statically linking libc to dynamic executable, please remove libc'' @
              [CHR 0x0A] @ ''from static libs or set static_executable: true'') []]
      else errs ctx)"
  unfolding binaryLinker_deps_def Let_def binaryLinker_buildStatic_def
    binaryLinker_buildShared_def
  by (cases "Device ctx"; cases "sdk c ctx"; cases "VariantIsStaticBinary binary";
      simp add: ModuleErrorf_def)

lemma binaryLinker_deps_StaticLibs:
  "StaticLibs (fst (binaryLinker_deps c ctx binary deps)) =
     (if Device ctx \<and> VariantIsStaticBinary binary then
        filter (\<lambda>l. l \<notin> set [''libc'', ''libc_nomalloc'', ''libcompiler_rt''])
          (StaticLibs (baseLinker_deps c ctx binary deps) @
           (if ''libc++_static'' \<in> set (StaticLibs (baseLinker_deps c ctx binary deps))
            then [''libm'', ''libc'', ''libdl''] else []))
      else StaticLibs (baseLinker_deps c ctx binary deps))"
  unfolding binaryLinker_deps_def Let_def binaryLinker_buildStatic_def
    binaryLinker_buildShared_def
  by (cases "Device ctx"; cases "sdk c ctx"; cases "VariantIsStaticBinary binary";
      cases "''libc++_static'' \<in> set (StaticLibs (baseLinker_deps c ctx binary deps))";
      simp)

lemma binaryLinker_deps_LateStaticLibs:
  "LateStaticLibs (fst (binaryLinker_deps c ctx binary deps)) =
     (if Device ctx \<and> VariantIsStaticBinary binary then
        filter (\<lambda>l. l \<in> set [''libc'', ''libc_nomalloc'', ''libcompiler_rt''])
          (StaticLibs (baseLinker_deps c ctx binary deps) @
           (if ''libc++_static'' \<in> set (StaticLibs (baseLinker_deps c ctx binary deps))
            then [''libm'', ''libc'', ''libdl''] else []))
        @ LateStaticLibs (baseLinker_deps c ctx binary deps)
      else LateStaticLibs (baseLinker_deps c ctx binary deps))"
  unfolding binaryLinker_deps_def Let_def binaryLinker_buildStatic_def
    binaryLinker_buildShared_def
  by (cases "Device ctx"; cases "sdk c ctx"; cases "VariantIsStaticBinary binary";
      cases "''libc++_static'' \<in> set (StaticLibs (baseLinker_deps c ctx binary deps))";
      simp)


lemma binaryLinker_begin_fields:
  "VariantIsStaticBinary (binaryLinker_begin ctx binary) =
     (VariantIsStaticBinary binary \<or>
      (if Host ctx
       then Os ctx = Linux \<and>
            (Bool (Static_executable binary) \<or>
             Static_executable binary = None \<and> Bool (HostStaticBinaries ctx))
       else Bool (Static_executable binary)))"
  "Static_libs (binaryLinker_begin ctx binary) = Static_libs binary"
  by (auto simp add: binaryLinker_begin_def baseLinker_begin_def Let_def)

lemma libraryLinker_deps_buckets:
  "LateStaticLibs (libraryLinker_deps c ctx l d) = LateStaticLibs (baseLinker_deps c ctx l d)"
  "LateSharedLibs (libraryLinker_deps c ctx l d) = LateSharedLibs (baseLinker_deps c ctx l d)"
  "StaticLibs (libraryLinker_deps c ctx l d) =
     StaticLibs (baseLinker_deps c ctx l d) @
       (if VariantIsStatic l then Static_Static_libs l else Shared_Static_libs l)"
  "SharedLibs (libraryLinker_deps c ctx l d) =
     SharedLibs (baseLinker_deps c ctx l d) @
       (if VariantIsStatic l then Static_Shared_libs l else Shared_Shared_libs l)"
  by (simp_all add: libraryLinker_deps_def Let_def)

lemma binaryLinker_deps_shared:
  "SharedLibs (fst (binaryLinker_deps c ctx binary deps)) =
     SharedLibs (baseLinker_deps c ctx binary deps)"
  "LateSharedLibs (fst (binaryLinker_deps c ctx binary deps)) =
     LateSharedLibs (baseLinker_deps c ctx binary deps)"
  unfolding binaryLinker_deps_def Let_def binaryLinker_buildStatic_def
    binaryLinker_buildShared_def
  by (cases "Device ctx"; cases "sdk c ctx"; cases "VariantIsStaticBinary binary";
      cases "''libc++_static'' \<in> set (StaticLibs (baseLinker_deps c ctx binary deps))";
      simp)+

lemma benchmarkLinker_deps_buckets:
  "LateStaticLibs (fst (benchmarkLinker_deps c ctx b d)) =
     LateStaticLibs (fst (binaryLinker_deps c ctx b d))"
  "LateSharedLibs (fst (benchmarkLinker_deps c ctx b d)) =
     LateSharedLibs (fst (binaryLinker_deps c ctx b d))"
  "SharedLibs (fst (benchmarkLinker_deps c ctx b d)) =
     SharedLibs (fst (binaryLinker_deps c ctx b d))"
  "StaticLibs (fst (benchmarkLinker_deps c ctx b d)) =
     StaticLibs (fst (binaryLinker_deps c ctx b d)) @ [''libbenchmark'', ''libbase'']"
  by (simp_all add: benchmarkLinker_deps_def split_def Let_def)

lemma testLinker_deps_eq:
  "testLinker_deps c ctx t d =
     binaryLinker_deps c ctx t (d\<lparr>StaticLibs := StaticLibs d @
       (if \<not> Gtest t then []
        else if \<not> (sdk c ctx \<and> Device ctx) then [''libgtest_main'', ''libgtest'']
        else if selectedStl c = ''ndk_libc++_shared'' \<or> selectedStl c = ''ndk_libc++_static''
          then [''libgtest_main_ndk_libcxx'', ''libgtest_ndk_libcxx'']
        else if selectedStl c = ''ndk_libgnustl_static''
          then [''libgtest_main_ndk_gnustl'', ''libgtest_ndk_gnustl'']
        else [''libgtest_main_ndk'', ''libgtest_ndk''])\<rparr>)"
  by (simp add: testLinker_deps_def Let_def)

lemma other_linker_deps_buckets:
  "\<not> runsBaseLinkerDeps lnk \<Longrightarrow>
     SharedLibs (fst (linker_deps c ctx lnk d)) = SharedLibs d \<and>
     LateSharedLibs (fst (linker_deps c ctx lnk d)) = LateSharedLibs d \<and>
     StaticLibs (fst (linker_deps c ctx lnk d)) = StaticLibs d \<and>
     LateStaticLibs (fst (linker_deps c ctx lnk d)) = LateStaticLibs d \<and>
     WholeStaticLibs (fst (linker_deps c ctx lnk d)) = WholeStaticLibs d"
  by (cases lnk) (simp_all add: objectLinker_deps_def)

lemma binaryLinker_deps_Reexport:
  "ReexportSharedLibHeaders (fst (binaryLinker_deps c ctx binary deps)) =
     ReexportSharedLibHeaders deps @ Export_shared_lib_headers binary"
  "ReexportStaticLibHeaders (fst (binaryLinker_deps c ctx binary deps)) =
     ReexportStaticLibHeaders deps @ Export_static_lib_headers binary"
  unfolding binaryLinker_deps_def Let_def binaryLinker_buildStatic_def
    binaryLinker_buildShared_def
  by (cases "Device ctx"; cases "sdk c ctx"; cases "VariantIsStaticBinary binary";
      cases "''libc++_static'' \<in> set (StaticLibs (baseLinker_deps c ctx binary deps))";
      simp add: baseLinker_deps_closed)+

lemma libraryLinker_deps_Reexport:
  "ReexportSharedLibHeaders (libraryLinker_deps c ctx l deps) =
     ReexportSharedLibHeaders deps @ Export_shared_lib_headers l"
  "ReexportStaticLibHeaders (libraryLinker_deps c ctx l deps) =
     ReexportStaticLibHeaders deps @ Export_static_lib_headers l"
  by (simp_all add: libraryLinker_deps_def Let_def baseLinker_deps_closed)

lemma linker_deps_Reexport:
  "ReexportSharedLibHeaders (fst (linker_deps c ctx lnk deps)) =
     ReexportSharedLibHeaders deps @ checkedSharedReexports lnk"
  "ReexportStaticLibHeaders (fst (linker_deps c ctx lnk deps)) =
     ReexportStaticLibHeaders deps @ checkedStaticReexports lnk"
  by (cases lnk; simp add: libraryLinker_deps_Reexport binaryLinker_deps_Reexport
        testLinker_deps_def benchmarkLinker_deps_def objectLinker_deps_def Let_def split_def)+

subsection \<open>The re-export checks and the stages of \<open>Module.deps\<close>\<close>

lemma checkReexportShared_eq:
  "checkReexportShared libs deps ctx =
     ctx\<lparr>errs := errs ctx @
       map (\<lambda>lib. PropertyError ''export_shared_lib_headers''
              (''Shared library not in shared_libs: '' @ [CHR 0x27] @ ''%s'' @ [CHR 0x27])
              [StringArg lib])
         (filter (\<lambda>lib. lib \<notin> set (SharedLibs deps)) libs)\<rparr>"
  by (induction libs arbitrary: ctx) (simp_all add: PropertyErrorf_def)

lemma checkReexportStatic_eq:
  "checkReexportStatic libs deps ctx =
     ctx\<lparr>errs := errs ctx @
       map (\<lambda>lib. PropertyError ''export_static_lib_headers''
              (''Static library not in static_libs: '' @ [CHR 0x27] @ ''%s'' @ [CHR 0x27])
              [StringArg lib])
         (filter (\<lambda>lib. lib \<notin> set (StaticLibs deps)) libs)\<rparr>"
  by (induction libs arbitrary: ctx) (simp_all add: PropertyErrorf_def)

lemmas eval_defs = Module_begin_def binaryLinker_begin_def baseLinker_begin_def
  libraryLinker_begin_def Module_deps_stages_def Let_def runStage_def binaryLinker_deps_def
  binaryLinker_buildStatic_def binaryLinker_buildShared_def baseLinker_deps_def
  libraryLinker_deps_def baseCompiler_deps_def Deps_zero_def sdk_def sdkVersion_def
  ModuleErrorf_def PropertyErrorf_def split_def

text \<open>Stages read the configuration of the context and only append to its errors.\<close>

lemma Device_errs: "Device (ctx\<lparr>errs := es\<rparr>) = Device ctx"
  by simp

lemma sdk_errs: "sdk c (ctx\<lparr>errs := es\<rparr>) = sdk c ctx"
  by (simp add: sdk_def)

lemma sdkVersion_errs: "sdkVersion c (ctx\<lparr>errs := es\<rparr>) = sdkVersion c ctx"
  by (simp add: sdkVersion_def)

lemma baseLinker_deps_errs:
  "baseLinker_deps c (ctx\<lparr>errs := es\<rparr>) lnk deps = baseLinker_deps c ctx lnk deps"
  by (simp add: baseLinker_deps_closed sdk_errs sdkVersion_errs)

lemma libraryLinker_deps_errs:
  "libraryLinker_deps c (ctx\<lparr>errs := es\<rparr>) l deps = libraryLinker_deps c ctx l deps"
  unfolding libraryLinker_deps_def Device_errs sdk_errs sdkVersion_errs baseLinker_deps_errs
  by (rule refl)

lemma fst_Let: "fst (Let X f) = (let d = X in fst (f d))"
  by (simp add: Let_def)

lemma binaryLinker_deps_fst_errs:
  "fst (binaryLinker_deps c (ctx\<lparr>errs := es\<rparr>) binary deps) =
   fst (binaryLinker_deps c ctx binary deps)"
  unfolding binaryLinker_deps_def fst_Let if_distrib [of fst] fst_conv
    Device_errs sdk_errs sdkVersion_errs baseLinker_deps_errs
  by (rule refl)

lemma binaryLinker_deps_snd:
  "\<exists>es. snd (binaryLinker_deps c ctx binary deps) = ctx\<lparr>errs := es\<rparr>"
proof -
  have "snd (binaryLinker_deps c ctx binary deps) = ctx\<lparr>errs := errs (snd (binaryLinker_deps c ctx binary deps))\<rparr>"
    unfolding binaryLinker_deps_def Let_def split_def
    by (simp add: ModuleErrorf_def)
  then show ?thesis by blast
qed


lemma ctx_errs_same: "\<exists>es. ctx = ctx\<lparr>errs := es\<rparr>"
  by (rule exI [of _ "errs ctx"]) simp

lemma linker_deps_fst_errs:
  "fst (linker_deps c (ctx\<lparr>errs := es\<rparr>) l deps) = fst (linker_deps c ctx l deps)"
  by (cases l)
     (simp_all add: testLinker_deps_def benchmarkLinker_deps_def Let_def split_def
        binaryLinker_deps_fst_errs libraryLinker_deps_errs sdk_errs)

lemma linker_deps_snd: "\<exists>es. snd (linker_deps c ctx l deps) = ctx\<lparr>errs := es\<rparr>"
  by (cases l)
     (simp_all add: testLinker_deps_def benchmarkLinker_deps_def Let_def split_def
        binaryLinker_deps_snd ctx_errs_same)

lemma runStage_fst: "fst (runStage f s) = fst (f (fst s))"
  by (simp add: runStage_def split_def Let_def)

lemma runStage_snd:
  "\<exists>es. snd s = ctx\<lparr>errs := es\<rparr> \<Longrightarrow> \<exists>es. snd (runStage f s) = ctx\<lparr>errs := es\<rparr>"
  by (auto simp add: runStage_def split_def Let_def)

lemma features_fst:
  "fst s = fst s' \<Longrightarrow>
   fst (foldl (\<lambda>s feature. runStage feature s) s fs) =
   fst (foldl (\<lambda>s feature. runStage feature s) s' fs)"
  by (induction fs arbitrary: s s') (simp_all add: runStage_fst)

lemma features_snd:
  "\<exists>es. snd s = ctx\<lparr>errs := es\<rparr> \<Longrightarrow>
   \<exists>es. snd (foldl (\<lambda>s feature. runStage feature s) s fs) = ctx\<lparr>errs := es\<rparr>"
  by (induction fs arbitrary: s) (simp_all add: runStage_snd)

lemma Module_deps_stages_fst_errs:
  "fst (Module_deps_stages c (ctx\<lparr>errs := es\<rparr>)) = fst (Module_deps_stages c ctx)"
  unfolding Module_deps_stages_def Let_def
  by (rule features_fst)
     (simp add: runStage_fst linker_deps_fst_errs split: option.split)

lemma Module_deps_stages_snd: "\<exists>es. snd (Module_deps_stages c ctx) = ctx\<lparr>errs := es\<rparr>"
proof -
  have l: "\<exists>es. snd (case linker c of Some lnk \<Rightarrow> linker_deps c ctx lnk d | None \<Rightarrow> (d, ctx)) =
                ctx\<lparr>errs := es\<rparr>" for d
    by (cases "linker c") (simp_all add: ctx_errs_same linker_deps_snd)
  have r: "\<exists>es. snd s = ctx\<lparr>errs := es\<rparr> \<Longrightarrow>
           \<exists>es. snd (case opt of Some f \<Rightarrow> runStage f s | None \<Rightarrow> s) = ctx\<lparr>errs := es\<rparr>"
    for s and opt :: "depsStage option"
    by (cases opt) (simp_all add: runStage_snd)
  have r': "\<exists>es. snd s = ctx\<lparr>errs := es\<rparr> \<Longrightarrow>
           \<exists>es. snd (case opt of Some st \<Rightarrow> runStage (stl_deps st) s | None \<Rightarrow> s) =
                ctx\<lparr>errs := es\<rparr>"
    for s and opt :: "stl option"
    by (cases opt) (simp_all add: runStage_snd)
  show ?thesis
    unfolding Module_deps_stages_def Let_def
    by (intro features_snd r r' l)
qed

lemma Module_deps_result:
  "Module_deps c ctx =
     Inr (deduplicated (fst (Module_deps_stages c ctx)),
          (snd (Module_deps_stages c ctx))\<lparr>errs := errs (snd (Module_deps_stages c ctx)) @
             map sharedReexportError
               (filter (\<lambda>lib. lib \<notin> set (SharedLibs (fst (Module_deps_stages c ctx))))
                  (ReexportSharedLibHeaders (fst (Module_deps_stages c ctx)))) @
             map staticReexportError
               (filter (\<lambda>lib. lib \<notin> set (StaticLibs (fst (Module_deps_stages c ctx))))
                  (ReexportStaticLibHeaders (fst (Module_deps_stages c ctx))))\<rparr>)"
  by (simp add: Module_deps_eq Let_def checkReexportShared_eq checkReexportStatic_eq
        deduplicated_def sharedReexportError_def [abs_def] staticReexportError_def [abs_def])

lemma fst_foldl_runStage:
  "fst (foldl (\<lambda>s feature. runStage feature s) s fs) = foldl (\<lambda>d f. fst (f d)) (fst s) fs"
  by (induction fs arbitrary: s) (simp_all add: runStage_fst)

lemma Module_deps_stages_fst:
  "fst (Module_deps_stages c ctx) =
     foldl (\<lambda>d f. fst (f d))
       (fst (case linker c of
               Some lnk \<Rightarrow> linker_deps c ctx lnk
                 (case compiler c of Some cmp \<Rightarrow> compiler_deps cmp Deps_zero | None \<Rightarrow> Deps_zero)
             | None \<Rightarrow> (case compiler c of Some cmp \<Rightarrow> compiler_deps cmp Deps_zero
                        | None \<Rightarrow> Deps_zero, ctx)))
       (laterStages c)"
  by (simp add: Module_deps_stages_def Let_def laterStages_def fst_foldl_runStage runStage_fst
        split: option.split)

lemma foldl_keeps:
  "\<forall>f\<in>set fs. \<forall>d. P (fst (f d)) = P d \<Longrightarrow> P (foldl (\<lambda>d f. fst (f d)) d0 fs) = P d0"
  by (induction fs arbitrary: d0) simp_all

lemma compiler_deps_keeps_Reexport:
  "ReexportSharedLibHeaders (compiler_deps cmp d) = ReexportSharedLibHeaders d"
  "ReexportStaticLibHeaders (compiler_deps cmp d) = ReexportStaticLibHeaders d"
  by (cases cmp; simp add: baseCompiler_deps_def Let_def)+

lemma compiler_deps_Reexport:
  "ReexportSharedLibHeaders (case cmp of Some cmp \<Rightarrow> compiler_deps cmp Deps_zero | None \<Rightarrow> Deps_zero) = []"
  "ReexportStaticLibHeaders (case cmp of Some cmp \<Rightarrow> compiler_deps cmp Deps_zero | None \<Rightarrow> Deps_zero) = []"
  by (cases cmp; simp add: compiler_deps_keeps_Reexport Deps_zero_def)+

lemma Module_deps_stages_Reexport:
  assumes "\<forall>f\<in>set (laterStages c). \<forall>d.
             ReexportSharedLibHeaders (fst (f d)) = ReexportSharedLibHeaders d \<and>
             ReexportStaticLibHeaders (fst (f d)) = ReexportStaticLibHeaders d"
  shows "ReexportSharedLibHeaders (fst (Module_deps_stages c ctx)) =
           (case linker c of Some lnk \<Rightarrow> checkedSharedReexports lnk | None \<Rightarrow> [])"
    and "ReexportStaticLibHeaders (fst (Module_deps_stages c ctx)) =
           (case linker c of Some lnk \<Rightarrow> checkedStaticReexports lnk | None \<Rightarrow> [])"
proof -
  have a: "\<forall>f\<in>set (laterStages c). \<forall>d.
             ReexportSharedLibHeaders (fst (f d)) = ReexportSharedLibHeaders d"
    and b: "\<forall>f\<in>set (laterStages c). \<forall>d.
             ReexportStaticLibHeaders (fst (f d)) = ReexportStaticLibHeaders d"
    using assms by simp_all
  show "ReexportSharedLibHeaders (fst (Module_deps_stages c ctx)) =
           (case linker c of Some lnk \<Rightarrow> checkedSharedReexports lnk | None \<Rightarrow> [])"
    unfolding Module_deps_stages_fst foldl_keeps [of _ ReexportSharedLibHeaders, OF a]
    by (cases "linker c") (simp_all add: compiler_deps_Reexport linker_deps_Reexport)
  show "ReexportStaticLibHeaders (fst (Module_deps_stages c ctx)) =
           (case linker c of Some lnk \<Rightarrow> checkedStaticReexports lnk | None \<Rightarrow> [])"
    unfolding Module_deps_stages_fst foldl_keeps [of _ ReexportStaticLibHeaders, OF b]
    by (cases "linker c") (simp_all add: compiler_deps_Reexport linker_deps_Reexport)
qed

subsection \<open>Edges and resolution\<close>

lemma filter_AddVariationDependencies:
  "filter (\<lambda>e. edgeTag e = w) (AddVariationDependencies vs t names) =
     (if t = w then AddVariationDependencies vs t names else [])"
  by (simp add: AddVariationDependencies_def filter_map comp_def)

lemma filter_AddDependency:
  "filter (\<lambda>e. edgeTag e = w) (AddDependency t names) =
     (if t = w then AddDependency t names else [])"
  by (simp add: AddDependency_def filter_map comp_def)

lemma filter_concat_AddVariationDependencies:
  "\<forall>lib. f lib \<noteq> w \<Longrightarrow>
   filter (\<lambda>e. edgeTag e = w)
     (concat (map (\<lambda>lib. AddVariationDependencies vs (f lib) names) libs)) = []"
  by (induction libs) (simp_all add: filter_AddVariationDependencies)

lemma wholeStatic_neq:
  "staticExportDepTag \<noteq> wholeStaticDepTag" "staticDepTag \<noteq> wholeStaticDepTag"
  "lateStaticDepTag \<noteq> wholeStaticDepTag" "sharedExportDepTag \<noteq> wholeStaticDepTag"
  "sharedDepTag \<noteq> wholeStaticDepTag" "lateSharedDepTag \<noteq> wholeStaticDepTag"
  "genSourceDepTag \<noteq> wholeStaticDepTag" "genHeaderDepTag \<noteq> wholeStaticDepTag"
  "objDepTag \<noteq> wholeStaticDepTag" "crtBeginDepTag \<noteq> wholeStaticDepTag"
  "crtEndDepTag \<noteq> wholeStaticDepTag" "reuseObjTag \<noteq> wholeStaticDepTag"
  by (simp_all add: depTag_defs)

lemma Module_depsMutator_wholeStatic:
  "\<exists>c' ctx' es. Module_depsMutator c ctx = Inr (c', ctx', es)
     \<and> filter (\<lambda>e. edgeTag e = wholeStaticDepTag) es =
         map (\<lambda>n. \<lparr>variations = [(''link'', ''static'')], edgeTag = wholeStaticDepTag, target = n\<rparr>)
           (remdups (WholeStaticLibs (fst (Module_deps_stages (Module_begin c ctx) ctx))))"
  by (simp add: Module_depsMutator_def Module_deps_eq bindP_def Let_def
        filter_AddVariationDependencies filter_AddDependency
        filter_concat_AddVariationDependencies wholeStatic_neq
        AddVariationDependencies_def)

lemma late_neq:
  "wholeStaticDepTag \<noteq> lateStaticDepTag" "staticExportDepTag \<noteq> lateStaticDepTag"
  "staticDepTag \<noteq> lateStaticDepTag" "sharedExportDepTag \<noteq> lateStaticDepTag"
  "sharedDepTag \<noteq> lateStaticDepTag" "lateSharedDepTag \<noteq> lateStaticDepTag"
  "genSourceDepTag \<noteq> lateStaticDepTag" "genHeaderDepTag \<noteq> lateStaticDepTag"
  "objDepTag \<noteq> lateStaticDepTag" "crtBeginDepTag \<noteq> lateStaticDepTag"
  "crtEndDepTag \<noteq> lateStaticDepTag"
  "wholeStaticDepTag \<noteq> lateSharedDepTag" "staticExportDepTag \<noteq> lateSharedDepTag"
  "staticDepTag \<noteq> lateSharedDepTag" "sharedExportDepTag \<noteq> lateSharedDepTag"
  "sharedDepTag \<noteq> lateSharedDepTag" "lateStaticDepTag \<noteq> lateSharedDepTag"
  "genSourceDepTag \<noteq> lateSharedDepTag" "genHeaderDepTag \<noteq> lateSharedDepTag"
  "objDepTag \<noteq> lateSharedDepTag" "crtBeginDepTag \<noteq> lateSharedDepTag"
  "crtEndDepTag \<noteq> lateSharedDepTag"
  by (simp_all add: depTag_defs)

lemma Module_depsMutator_late:
  "\<exists>c' ctx' es. Module_depsMutator c ctx = Inr (c', ctx', es)
     \<and> filter (\<lambda>e. edgeTag e = lateStaticDepTag) es =
         map (\<lambda>n. \<lparr>variations = [(''link'', ''static'')], edgeTag = lateStaticDepTag, target = n\<rparr>)
           (remdups (LateStaticLibs (fst (Module_deps_stages (Module_begin c ctx) ctx))))
     \<and> filter (\<lambda>e. edgeTag e = lateSharedDepTag) es =
         map (\<lambda>n. \<lparr>variations = [(''link'', ''shared'')], edgeTag = lateSharedDepTag, target = n\<rparr>)
           (remdups (LateSharedLibs (fst (Module_deps_stages (Module_begin c ctx) ctx))))"
  by (simp add: Module_depsMutator_def Module_deps_eq bindP_def Let_def
        filter_AddVariationDependencies filter_AddDependency
        filter_concat_AddVariationDependencies late_neq
        AddVariationDependencies_def)

lemma visitCc_library_paths:
  "(fst (visitCc_library c ctx dp name tag cc))
     \<lparr>pd_Cflags := pd_Cflags dp, pd_ReexportedCflags := pd_ReexportedCflags dp\<rparr> = dp"
  by (simp add: visitCc_library_def Let_def split: depTag.split option.split)

lemma visitCc_library_ctx:
  "snd (visitCc_library c ctx dp name tag cc) = ctx \<or>
   snd (visitCc_library c ctx dp name tag cc) =
     ModuleErrorf ctx ''depends on non-NDK-built library %q'' [StringArg name]"
  by (simp add: visitCc_library_def Let_def split: depTag.split option.split)

lemma visitCc_library_fields:
  "pd_WholeStaticLibObjFiles (fst (visitCc_library c ctx dp name tag cc)) =
     pd_WholeStaticLibObjFiles dp"
  "pd_WholeStaticLibs (fst (visitCc_library c ctx dp name tag cc)) = pd_WholeStaticLibs dp"
  "missingDeps (snd (visitCc_library c ctx dp name tag cc)) = missingDeps ctx"
  by (simp_all add: visitCc_library_def Let_def ModuleErrorf_def split: depTag.split option.split)

lemma visitCc_switch_not_static:
  "\<not> staticLibraryVariant cc \<Longrightarrow>
   visitCc_switch ctx dp name (CcTag wholeStaticDepTag) cc out =
     Inr (dp, ModuleErrorf ctx ''module %q not a static library'' [StringArg name], cc)"
  by (auto simp add: visitCc_switch_def staticLibraryVariant_def depTag_defs
        split: option.splits linker.splits)

lemma visitCc_switch_static:
  "linker cc = Some (LibraryLinker w) \<Longrightarrow> VariantIsStatic w \<Longrightarrow>
   visitCc_switch ctx dp name (CcTag wholeStaticDepTag) cc out =
     Inr (dp\<lparr>pd_WholeStaticLibObjFiles := pd_WholeStaticLibObjFiles dp @ objFiles w,
              pd_WholeStaticLibs := pd_WholeStaticLibs dp @ [out]\<rparr>,
          (if wholeStaticMissingDeps w \<noteq> []
           then AddMissingDependencies ctx
                  (map (\<lambda>dep. dep @ '' (required by '' @ name @ '')'') (wholeStaticMissingDeps w))
           else ctx),
          (if wholeStaticMissingDeps w \<noteq> []
           then cc\<lparr>linker := Some (LibraryLinker (w\<lparr>wholeStaticMissingDeps :=
                  map (\<lambda>dep. dep @ '' (required by '' @ name @ '')'') (wholeStaticMissingDeps w)\<rparr>))\<rparr>
           else cc))"
  by (simp add: visitCc_switch_def depTag_defs Let_def)

lemma visitCc_wholeStatic:
  "Enabled cc \<Longrightarrow> Target_Os cc = Os ctx \<Longrightarrow> Target_ArchType cc = ArchType ctx \<Longrightarrow>
   outputFile cc = Some out \<Longrightarrow>
   visitCc c ctx dp name (CcTag wholeStaticDepTag) cc =
     visitCc_switch (snd (visitCc_library c ctx dp name (CcTag wholeStaticDepTag) cc))
       (fst (visitCc_library c ctx dp name (CcTag wholeStaticDepTag) cc))
       name (CcTag wholeStaticDepTag) cc out"
  by (simp add: visitCc_def depTag_defs split_def Let_def)

lemmas resolve_defs = visitCc_def visitCc_library_def visitCc_switch_def linkTypeOk_def
  linker_exportedFlags_def AddMissingDependencies_def GetMissingDependencies_def
  PathDeps_zero_def depTag_defs ModuleErrorf_def Let_def split_def

lemma libraryLinker_linkShared_input:
  "\<exists>rules args.
     snd (snd (libraryLinker_linkShared ShlibSuffix String ctx library flags deps objs)) =
       rules @ [TransformObjToDynamicBinary args]
     \<and> linkInputShared args = pd_SharedLibs deps @ pd_LateSharedLibs deps
     \<and> linkInputStatic args = pd_StaticLibs deps @ pd_LateStaticLibs deps"
  unfolding libraryLinker_linkShared_def Let_def split_def snd_conv
  by (intro exI conjI, rule refl) (simp_all add: linkInputShared_def linkInputStatic_def)

lemma binaryLinker_link_input:
  "\<exists>rules args.
     snd (snd (binaryLinker_link ExecutableSuffix ctx binary flags deps objs)) =
       rules @ [TransformObjToDynamicBinary args]
     \<and> linkInputShared args = pd_SharedLibs deps @ pd_LateSharedLibs deps
     \<and> linkInputStatic args = pd_StaticLibs deps @ pd_LateStaticLibs deps"
  unfolding binaryLinker_link_def Let_def split_def snd_conv
  by (intro exI conjI, rule refl) (simp_all add: linkInputShared_def linkInputStatic_def)

lemma visitCc_switch_late:
  "visitCc_switch ctx dp name (CcTag lateStaticDepTag) cc out =
     Inr (dp\<lparr>pd_LateStaticLibs := pd_LateStaticLibs dp @ [out]\<rparr>, ctx, cc)"
  "visitCc_switch ctx dp name (CcTag lateSharedDepTag) cc out =
     Inr (dp\<lparr>pd_LateSharedLibs := pd_LateSharedLibs dp @ [out]\<rparr>, ctx, cc)"
  by (simp_all add: visitCc_switch_def depTag_defs)

subsection \<open>Resolution does not depend on what the targets record as missing\<close>

lemma visitCc_library_paths_any:
  "fst (visitCc_library c ctx' dp name tag cc) = fst (visitCc_library c ctx dp name tag cc)"
  by (simp add: visitCc_library_def Let_def split: depTag.split option.split)

lemma visitCc_switch_paths_any:
  "map_sum id fst (visitCc_switch ctx' dp name tag cc out) =
   map_sum id fst (visitCc_switch ctx dp name tag cc out)"
  by (simp add: visitCc_switch_def Let_def split_def split: option.split linker.split)

lemma visitCc_paths_any:
  "Os ctx' = Os ctx \<Longrightarrow> ArchType ctx' = ArchType ctx \<Longrightarrow>
   map_sum id fst (visitCc c ctx' dp name tag cc) = map_sum id fst (visitCc c ctx dp name tag cc)"
  using visitCc_switch_paths_any [of "snd (visitCc_library c ctx' dp name tag cc)" _ name tag cc _
      "snd (visitCc_library c ctx dp name tag cc)"]
  by (simp add: visitCc_def split_def Let_def visitCc_library_paths_any [of c ctx' dp name tag cc ctx]
        split: option.split compiler.split)

lemma forgetMissing_fields:
  "Enabled (forgetMissing cc) = Enabled cc" "Target_Os (forgetMissing cc) = Target_Os cc"
  "Target_ArchType (forgetMissing cc) = Target_ArchType cc"
  "outputFile (forgetMissing cc) = outputFile cc" "compiler (forgetMissing cc) = compiler cc"
  "linker_exportedFlags (linker (forgetMissing cc)) = linker_exportedFlags (linker cc)"
  "linkTypeOk c (forgetMissing cc) = linkTypeOk c cc"
  by (simp_all add: forgetMissing_def linker_exportedFlags_def linkTypeOk_def
        split: option.split linker.split)

lemma visitCc_library_forget:
  "visitCc_library c ctx dp name tag (forgetMissing cc) = visitCc_library c ctx dp name tag cc"
  unfolding visitCc_library_def forgetMissing_fields by (rule refl)

lemma visitCc_switch_forget:
  "map_sum id fst (visitCc_switch ctx dp name tag (forgetMissing cc) out) =
   map_sum id fst (visitCc_switch ctx dp name tag cc out)"
  by (simp add: visitCc_switch_def forgetMissing_def Let_def split_def
        split: option.split linker.split)

lemma visitCc_paths_forget:
  "map_sum id fst (visitCc c ctx dp name tag (forgetMissing cc)) =
   map_sum id fst (visitCc c ctx dp name tag cc)"
  unfolding visitCc_def forgetMissing_fields split_def Let_def visitCc_library_forget
  by (simp add: visitCc_switch_forget split: option.split compiler.split)

lemma visitCc_library_config:
  "Os (snd (visitCc_library c ctx dp name tag cc)) = Os ctx"
  "ArchType (snd (visitCc_library c ctx dp name tag cc)) = ArchType ctx"
  by (simp_all add: visitCc_library_def Let_def ModuleErrorf_def split: depTag.split option.split)

lemma visitCc_switch_result:
  "visitCc_switch ctx dp name tag cc out = Inr (dp1, ctx1, cc1) \<Longrightarrow>
   Os ctx1 = Os ctx \<and> ArchType ctx1 = ArchType ctx \<and> forgetMissing cc1 = forgetMissing cc"
  by (auto simp add: visitCc_switch_def ModuleErrorf_def AddMissingDependencies_def
        forgetMissing_def Let_def split: if_splits option.splits linker.splits)

lemma visitCc_result:
  "visitCc c ctx dp name tag cc = Inr (dp1, ctx1, cc1) \<Longrightarrow>
   Os ctx1 = Os ctx \<and> ArchType ctx1 = ArchType ctx \<and> forgetMissing cc1 = forgetMissing cc"
  using visitCc_switch_result [of "snd (visitCc_library c ctx dp name tag cc)"
      "fst (visitCc_library c ctx dp name tag cc)" name tag cc _ dp1 ctx1 cc1]
  by (auto simp add: visitCc_def ModuleErrorf_def split_def Let_def visitCc_library_config
        split: if_splits option.splits compiler.splits)

lemma bindP_paths:
  "map_sum id fst (bindP r (\<lambda>(dp, ctx, cc). Inr (dp, ctx, g cc))) = map_sum id fst r"
  by (cases r) (auto simp add: bindP_def)

lemma visitDep_result:
  "visitDep incl c ctx dp m = Inr (dp1, ctx1, m1) \<Longrightarrow>
   Os ctx1 = Os ctx \<and> ArchType ctx1 = ArchType ctx \<and> forgetDep m1 = forgetDep m"
  using visitCc_result [of c ctx dp "depName m" "depTagOf m"]
  by (cases "depModule m")
     (auto simp add: visitDep_def forgetDep_def Let_def bindP_def ModuleErrorf_def
        split: sum.splits if_splits)

lemma visitDep_paths_any:
  assumes "Os ctx' = Os ctx" and "ArchType ctx' = ArchType ctx"
  shows "map_sum id fst (visitDep incl c ctx' dp (forgetDep m)) =
         map_sum id fst (visitDep incl c ctx dp m)"
proof (cases "depModule m")
  case (CcModule cc)
  have "map_sum id fst (visitCc c ctx' dp (depName m) (depTagOf m) (forgetMissing cc)) =
        map_sum id fst (visitCc c ctx dp (depName m) (depTagOf m) (forgetMissing cc))"
    by (rule visitCc_paths_any [OF assms])
  also have "\<dots> = map_sum id fst (visitCc c ctx dp (depName m) (depTagOf m) cc)"
    by (rule visitCc_paths_forget)
  finally have e: "map_sum id fst (visitCc c ctx' dp (depName m) (depTagOf m) (forgetMissing cc)) =
        map_sum id fst (visitCc c ctx dp (depName m) (depTagOf m) cc)" .
  have f: "forgetDep m = m\<lparr>depModule := CcModule (forgetMissing cc)\<rparr>"
    using CcModule by (simp add: forgetDep_def)
  show ?thesis
    unfolding f visitDep_def Let_def
    using CcModule e by (simp add: bindP_paths)
next
  case NotAndroidModule
  then have f: "forgetDep m = m" by (simp add: forgetDep_def)
  show ?thesis unfolding f using NotAndroidModule by (simp add: visitDep_def Let_def)
next
  case (SourceFileGenerator files dir)
  then have f: "forgetDep m = m" by (simp add: forgetDep_def)
  show ?thesis unfolding f using SourceFileGenerator by (simp add: visitDep_def Let_def)
next
  case OtherAndroidModule
  then have f: "forgetDep m = m" by (simp add: forgetDep_def)
  show ?thesis unfolding f using OtherAndroidModule by (simp add: visitDep_def Let_def)
qed

lemma visitDirectDeps_result:
  "visitDirectDeps incl c ctx dp ms = Inr (P, ctx1, ms1) \<Longrightarrow>
   Os ctx1 = Os ctx \<and> ArchType ctx1 = ArchType ctx \<and> map forgetDep ms1 = map forgetDep ms"
proof (induction ms arbitrary: ctx dp P ctx1 ms1)
  case Nil
  then show ?case by simp
next
  case (Cons m ms)
  from Cons.prems obtain dpa ctxa ma where
    v: "visitDep incl c ctx dp m = Inr (dpa, ctxa, ma)"
    by (auto simp add: bindP_def split: sum.splits)
  from Cons.prems v obtain ms' where
    r: "visitDirectDeps incl c ctxa dpa ms = Inr (P, ctx1, ms')" and m1: "ms1 = ma # ms'"
    by (auto simp add: bindP_def split: sum.splits)
  from Cons.IH [OF r] visitDep_result [OF v] m1 show ?case by simp
qed

lemma visitDirectDeps_paths_any:
  "Os ctx' = Os ctx \<Longrightarrow> ArchType ctx' = ArchType ctx \<Longrightarrow>
   map forgetDep ms' = map forgetDep ms \<Longrightarrow>
   map_sum id fst (visitDirectDeps incl c ctx' dp ms') =
   map_sum id fst (visitDirectDeps incl c ctx dp ms)"
proof (induction ms arbitrary: ctx ctx' dp ms')
  case Nil
  then show ?case by simp
next
  case (Cons m ms)
  from Cons.prems(3) obtain m' ms'' where
    ms': "ms' = m' # ms''" and fm: "forgetDep m' = forgetDep m"
    and fms: "map forgetDep ms'' = map forgetDep ms"
    by (cases ms') auto
  have "map_sum id fst (visitDep incl c ctx' dp m') =
        map_sum id fst (visitDep incl c ctx' dp (forgetDep m'))"
    by (rule visitDep_paths_any [symmetric]) simp_all
  also have "\<dots> = map_sum id fst (visitDep incl c ctx dp m)"
    unfolding fm by (rule visitDep_paths_any) (use Cons.prems in simp_all)
  finally have e: "map_sum id fst (visitDep incl c ctx' dp m') =
        map_sum id fst (visitDep incl c ctx dp m)" .
  show ?case
  proof (cases "visitDep incl c ctx dp m")
    case (Inl p)
    with e have "visitDep incl c ctx' dp m' = Inl p"
      by (cases "visitDep incl c ctx' dp m'") simp_all
    with Inl ms' show ?thesis by (simp add: bindP_def)
  next
    case (Inr r)
    then obtain dpa ctxa ma where v: "visitDep incl c ctx dp m = Inr (dpa, ctxa, ma)"
      by (cases r) auto
    with e obtain ctxa' ma' where v': "visitDep incl c ctx' dp m' = Inr (dpa, ctxa', ma')"
      by (cases "visitDep incl c ctx' dp m'") auto
    have c: "Os ctxa' = Os ctxa" "ArchType ctxa' = ArchType ctxa"
      using visitDep_result [OF v] visitDep_result [OF v'] Cons.prems by simp_all
    have ih: "map_sum id fst (visitDirectDeps incl c ctxa' dpa ms'') =
              map_sum id fst (visitDirectDeps incl c ctxa dpa ms)"
      by (rule Cons.IH [OF c fms])
    show ?thesis
      unfolding ms' using v v' ih
      by (cases "visitDirectDeps incl c ctxa' dpa ms''";
          cases "visitDirectDeps incl c ctxa dpa ms") (auto simp add: bindP_def)
  qed
qed

lemma Module_deps_again:
  "\<exists>ctx1 ctx2.
     Module_deps c ctx = Inr (deduplicated (fst (Module_deps_stages c ctx)), ctx1) \<and>
     Module_deps c ctx1 = Inr (deduplicated (fst (Module_deps_stages c ctx)), ctx2)"
proof -
  obtain es where s: "snd (Module_deps_stages c ctx) = ctx\<lparr>errs := es\<rparr>"
    using Module_deps_stages_snd by blast
  obtain ctx1 where r1: "Module_deps c ctx = Inr (deduplicated (fst (Module_deps_stages c ctx)), ctx1)"
    by (simp add: Module_deps_result)
  have "\<exists>es1. ctx1 = ctx\<lparr>errs := es1\<rparr>"
    using r1 s by (auto simp add: Module_deps_result)
  then obtain es1 where c1: "ctx1 = ctx\<lparr>errs := es1\<rparr>" by blast
  have "fst (Module_deps_stages c ctx1) = fst (Module_deps_stages c ctx)"
    unfolding c1 by (rule Module_deps_stages_fst_errs)
  then have "\<exists>ctx2. Module_deps c ctx1 = Inr (deduplicated (fst (Module_deps_stages c ctx)), ctx2)"
    by (simp add: Module_deps_result)
  with r1 show ?thesis by blast
qed

lemma deduplicated_buckets:
  "distinct (WholeStaticLibs (deduplicated d))" "distinct (StaticLibs (deduplicated d))"
  "distinct (LateStaticLibs (deduplicated d))" "distinct (SharedLibs (deduplicated d))"
  "distinct (LateSharedLibs (deduplicated d))"
  "deduplicated (deduplicated d) = deduplicated d"
  by (simp_all add: deduplicated_def)

lemma Module_depsToPaths_again:
  assumes "Module_depsToPaths incl r rctx ds = Inr (P, rctx1, ds1)"
  shows "\<exists>rctx2 ds2. Module_depsToPaths incl r rctx1 ds1 = Inr (P, rctx2, ds2)"
proof -
  from assms have v: "visitDirectDeps incl r rctx PathDeps_zero ds = Inr (P, rctx1, ds1)"
    by (simp add: Module_depsToPaths_def)
  from visitDirectDeps_result [OF v] have
    c: "Os rctx1 = Os rctx" "ArchType rctx1 = ArchType rctx" "map forgetDep ds1 = map forgetDep ds"
    by simp_all
  have "map_sum id fst (visitDirectDeps incl r rctx1 PathDeps_zero ds1) =
        map_sum id fst (visitDirectDeps incl r rctx PathDeps_zero ds)"
    by (rule visitDirectDeps_paths_any [OF c])
  with v have "map_sum id fst (visitDirectDeps incl r rctx1 PathDeps_zero ds1) = Inr P"
    by simp
  then show ?thesis
    by (cases "visitDirectDeps incl r rctx1 PathDeps_zero ds1")
       (auto simp add: Module_depsToPaths_def)
qed

subsection \<open>The panic of the link-mode expansion\<close>





section \<open>The claims\<close>

text \<open>
  C3. Deduplication of a dependency-name list keeps exactly one occurrence of every name,
  the one at its last position, and keeps the order of the survivors: the result of
  \<open>lastUniqueElements\<close> is the list of the entries that do not occur again later, and the
  call never panics. \<open>Module.deps\<close> returns each of the five buckets (whole-static,
  static, late-static, shared, late-shared) deduplicated in this way. In particular
  \<open>[A, B, A]\<close> gives \<open>[B, A]\<close>.
\<close>

theorem dedup_keeps_last_occurrence:
  "lastUniqueElements list = Inr (remdups list)
   \<and> remdups list = nths list {i. i < length list \<and> list ! i \<notin> set (drop (Suc i) list)}
   \<and> (\<exists>deps ctx'. Module_deps c ctx = Inr (deps, ctx')
         \<and> WholeStaticLibs deps = remdups (WholeStaticLibs (fst (Module_deps_stages c ctx)))
         \<and> StaticLibs deps = remdups (StaticLibs (fst (Module_deps_stages c ctx)))
         \<and> LateStaticLibs deps = remdups (LateStaticLibs (fst (Module_deps_stages c ctx)))
         \<and> SharedLibs deps = remdups (SharedLibs (fst (Module_deps_stages c ctx)))
         \<and> LateSharedLibs deps = remdups (LateSharedLibs (fst (Module_deps_stages c ctx))))"
  by (simp add: Module_deps_eq Let_def remdups_last_occurrences [symmetric])

theorem dedup_keeps_last_occurrence_witness:
  "lastUniqueElements [''A'', ''B'', ''A''] = Inr [''B'', ''A'']"
  using dedup_keeps_last_occurrence [of "[''A'', ''B'', ''A'']"]
  by (simp del: lastUniqueElements_remdups)

text \<open>
  C1 (as amended). \<open>binaryLinker.deps\<close> reports the module error "statically linking libc
  to dynamic executable, ..." exactly when the variant of the binary is not a static
  binary and \<open>libc\<close> is among its static libraries (the names it is given and its
  \<open>static_libs\<close>); it reports no other error, so a static binary that links \<open>libc\<close>
  statically is accepted. A binary with \<open>static_executable: true\<close> is a static binary
  after \<open>begin\<close> on a build that is not a host build and on a Linux host (where the
  product variable \<open>HostStaticBinaries\<close> makes a binary without the property static too);
  on a host that is not Linux \<open>begin\<close> ignores the property, the binary stays dynamic and
  is rejected when it lists \<open>libc\<close>. On a device a static binary has \<open>libc\<close>,
  \<open>libc_nomalloc\<close> and \<open>libcompiler_rt\<close> taken out of the static bucket (after \<open>libm\<close>,
  \<open>libc\<close>, \<open>libdl\<close> were appended to it when it holds \<open>libc++_static\<close>) and put, in their
  order, at the front of the late-static bucket, before what \<open>baseLinker.deps\<close> has
  placed there.
\<close>

theorem binary_libc_rejected_when_dynamic:
  "(let S = StaticLibs deps @ Static_libs binary @
              (if \<not> sdk c ctx \<and> ModuleName ctx \<noteq> ''libcompiler_rt-extras''
               then [''libcompiler_rt-extras''] else []);
        S' = S @ (if ''libc++_static'' \<in> set S then [''libm'', ''libc'', ''libdl''] else []);
        L = LateStaticLibs deps @
              (if Device ctx
               then [''libatomic''] @ (if Bool (No_libgcc binary) then [] else [''libgcc''])
               else []);
        group = [''libc'', ''libc_nomalloc'', ''libcompiler_rt'']
    in errs (snd (binaryLinker_deps c ctx binary deps)) =
         (if \<not> VariantIsStaticBinary binary \<and> ''libc'' \<in> set (StaticLibs deps @ Static_libs binary)
          then errs ctx @ [ModuleError
                 (''statically linking libc to dynamic executable, please remove libc'' @
                  [CHR 0x0A] @ ''from static libs or set static_executable: true'') []]
          else errs ctx)
       \<and> StaticLibs (fst (binaryLinker_deps c ctx binary deps)) =
         (if Device ctx \<and> VariantIsStaticBinary binary
          then filter (\<lambda>l. l \<notin> set group) S' else S)
       \<and> LateStaticLibs (fst (binaryLinker_deps c ctx binary deps)) =
         (if Device ctx \<and> VariantIsStaticBinary binary
          then filter (\<lambda>l. l \<in> set group) S' @ L else L))
   \<and> VariantIsStaticBinary (binaryLinker_begin ctx binary) =
       (VariantIsStaticBinary binary \<or>
        (if Host ctx
         then Os ctx = Linux \<and>
              (Bool (Static_executable binary) \<or>
               Static_executable binary = None \<and> Bool (HostStaticBinaries ctx))
         else Bool (Static_executable binary)))
   \<and> Static_libs (binaryLinker_begin ctx binary) = Static_libs binary"
  unfolding Let_def
  by (simp only: binaryLinker_begin_fields binaryLinker_deps_errs binaryLinker_deps_StaticLibs
        binaryLinker_deps_LateStaticLibs baseLinker_deps_StaticLibs
        baseLinker_deps_LateStaticLibs) simp

theorem binary_libc_rejected_when_dynamic_witness:
  "errs (snd (binaryLinker_deps dynamicBinary (deviceCtx ''app'')
       (binaryLinker_zero\<lparr>Static_libs := [''libc'']\<rparr>) Deps_zero)) =
     [ModuleError (''statically linking libc to dynamic executable, please remove libc'' @
        [CHR 0x0A] @ ''from static libs or set static_executable: true'') []]
   \<and> VariantIsStaticBinary (binaryLinker_begin (deviceCtx ''init'')
          (binaryLinker_zero\<lparr>Static_libs := [''libc''], Static_executable := Some True\<rparr>))
   \<and> errs (snd (binaryLinker_deps staticBinary (deviceCtx ''init'')
       (binaryLinker_begin (deviceCtx ''init'')
          (binaryLinker_zero\<lparr>Static_libs := [''libc''], Static_executable := Some True\<rparr>))
       Deps_zero)) = []
   \<and> StaticLibs (fst (binaryLinker_deps staticBinary (deviceCtx ''init'')
       (binaryLinker_begin (deviceCtx ''init'')
          (binaryLinker_zero\<lparr>Static_libs := [''libc''], Static_executable := Some True\<rparr>))
       Deps_zero)) = [''libcompiler_rt-extras'']
   \<and> LateStaticLibs (fst (binaryLinker_deps staticBinary (deviceCtx ''init'')
       (binaryLinker_begin (deviceCtx ''init'')
          (binaryLinker_zero\<lparr>Static_libs := [''libc''], Static_executable := Some True\<rparr>))
       Deps_zero)) = [''libc'', ''libatomic'', ''libgcc'']
   \<and> VariantIsStaticBinary (binaryLinker_begin (darwinHostCtx ''tool'')
          (binaryLinker_zero\<lparr>Static_libs := [''libc''], Static_executable := Some True\<rparr>)) = False
   \<and> errs (snd (binaryLinker_deps staticBinary (darwinHostCtx ''tool'')
       (binaryLinker_begin (darwinHostCtx ''tool'')
          (binaryLinker_zero\<lparr>Static_libs := [''libc''], Static_executable := Some True\<rparr>))
       Deps_zero)) =
     [ModuleError (''statically linking libc to dynamic executable, please remove libc'' @
        [CHR 0x0A] @ ''from static libs or set static_executable: true'') []]"
  using binary_libc_rejected_when_dynamic [of Deps_zero
      "binaryLinker_zero\<lparr>Static_libs := [''libc'']\<rparr>" dynamicBinary "deviceCtx ''app''"]
    binary_libc_rejected_when_dynamic [of Deps_zero
      "binaryLinker_begin (deviceCtx ''init'')
         (binaryLinker_zero\<lparr>Static_libs := [''libc''], Static_executable := Some True\<rparr>)"
      staticBinary "deviceCtx ''init''"]
    binary_libc_rejected_when_dynamic [of Deps_zero
      "binaryLinker_begin (darwinHostCtx ''tool'')
         (binaryLinker_zero\<lparr>Static_libs := [''libc''], Static_executable := Some True\<rparr>)"
      staticBinary "darwinHostCtx ''tool''"]
  by (simp add: example_defs binaryLinker_begin_def baseLinker_begin_def
        Let_def Deps_zero_def sdk_def)

text \<open>
  The claim as stated fails: the \<open>cc_binary\<close> with \<open>static_executable: true\<close> and
  \<open>static_libs: ["libc"]\<close> is a static binary after \<open>begin\<close>, and \<open>Module.deps\<close> reports no
  error for it.
\<close>

theorem static_binary_with_libc_accepted:
  "linker (Module_begin staticBinary (deviceCtx ''init'')) =
     Some (BinaryLinker (binaryLinker_zero\<lparr>Static_libs := [''libc''],
        Static_executable := Some True, VariantIsStatic := True, VariantIsStaticBinary := True,
        RunPaths := [''../lib64'', ''lib64'']\<rparr>))
   \<and> map_sum id (errs \<circ> snd)
        (Module_deps (Module_begin staticBinary (deviceCtx ''init'')) (deviceCtx ''init'')) = Inr []"
  by (simp add: example_defs Module_begin_def binaryLinker_begin_def baseLinker_begin_def
        Module_deps_eq Module_deps_stages_def Let_def runStage_def binaryLinker_deps_def
        binaryLinker_buildStatic_def binaryLinker_buildShared_def baseLinker_deps_def
        baseCompiler_deps_def Deps_zero_def sdk_def sdkVersion_def ModuleErrorf_def split_def)

text \<open>
  C2 (as amended). When a library module with a library compiler is expanded into a static
  and a shared sibling, the shared sibling reuses the static sibling's compiled objects
  (the reuse edge from the shared to the static variant is added and the shared
  sibling's own source list is cleared) if and only if neither link mode declares
  mode-specific compiler flags: \<open>static.cflags\<close> and \<open>shared.cflags\<close> are both empty.
  Otherwise there is no edge and the shared sibling keeps its sources.
\<close>

theorem reuse_iff_no_mode_cflags:
  "linker m = Some (LibraryLinker l) \<Longrightarrow> BuildStatic l \<Longrightarrow> BuildShared l \<Longrightarrow>
   compiler m = Some (LibraryCompiler lc) \<Longrightarrow>
   linkageMutator moduleName m =
     Inr \<lparr>localVariations =
            [(''static'', m\<lparr>linker := Some (LibraryLinker (l\<lparr>VariantIsStatic := True\<rparr>))\<rparr>),
             (''shared'', m\<lparr>linker := Some (LibraryLinker (l\<lparr>VariantIsStatic := False\<rparr>)),
                compiler := (if Static_Cflags lc = [] \<and> Shared_Cflags lc = []
                             then Some (LibraryCompiler (lc\<lparr>Srcs := []\<rparr>))
                             else Some (LibraryCompiler lc))\<rparr>)],
          interVariantDeps =
            (if Static_Cflags lc = [] \<and> Shared_Cflags lc = []
             then [(reuseObjTag, ''shared'', ''static'')] else [])\<rparr>"
  by (simp add: linkageMutator_def Let_def)

theorem reuse_iff_no_mode_cflags_witness:
  "interVariantDeps (projr (linkageMutator ''libfoo'' libraryWithSharedSrcs)) =
     [(reuseObjTag, ''shared'', ''static'')]
   \<and> interVariantDeps (projr (linkageMutator ''libfoo'' libraryWithSharedCflags)) = []"
  using reuse_iff_no_mode_cflags [of libraryWithSharedSrcs
      "libraryLinker_zero\<lparr>BuildStatic := True, BuildShared := True\<rparr>"
      "libraryCompiler_zero\<lparr>Srcs := [''common.c''], Shared_Srcs := [''only_shared.c'']\<rparr>" "''libfoo''"]
    reuse_iff_no_mode_cflags [of libraryWithSharedCflags
      "libraryLinker_zero\<lparr>BuildStatic := True, BuildShared := True\<rparr>"
      "libraryCompiler_zero\<lparr>Srcs := [''common.c''], Shared_Cflags := [''-DSHARED'']\<rparr>" "''libfoo''"]
  by (simp add: example_defs)

text \<open>
  The claim as stated fails in both directions: a library with a source of the shared mode
  and no flags of a mode gets the reuse edge and has its common sources cleared; a
  library with no source of a mode and a flag of the shared mode gets no edge.
\<close>

theorem shared_sources_still_reuse:
  "linkageMutator ''libfoo'' libraryWithSharedSrcs =
     Inr \<lparr>localVariations =
            [(''static'', libraryWithSharedSrcs\<lparr>linker := Some (LibraryLinker
                (libraryLinker_zero\<lparr>BuildStatic := True, BuildShared := True,
                   VariantIsStatic := True\<rparr>))\<rparr>),
             (''shared'', libraryWithSharedSrcs\<lparr>
                compiler := Some (LibraryCompiler
                  (libraryCompiler_zero\<lparr>Srcs := [], Shared_Srcs := [''only_shared.c'']\<rparr>))\<rparr>)],
          interVariantDeps = [(reuseObjTag, ''shared'', ''static'')]\<rparr>
   \<and> linkageMutator ''libfoo'' libraryWithSharedCflags =
     Inr \<lparr>localVariations =
            [(''static'', libraryWithSharedCflags\<lparr>linker := Some (LibraryLinker
                (libraryLinker_zero\<lparr>BuildStatic := True, BuildShared := True,
                   VariantIsStatic := True\<rparr>))\<rparr>),
             (''shared'', libraryWithSharedCflags)],
          interVariantDeps = []\<rparr>"
  by (simp add: linkageMutator_def Let_def example_defs)




text \<open>
  C4 (as amended). \<open>Module.deps\<close> never panics. It returns the names the stages have
  accumulated with the five buckets deduplicated, and to the errors of the stages it
  adds exactly one property error for every entry of the accumulated re-export list of
  shared libraries that is not in the deduplicated shared bucket, then one for every
  entry of the re-export list of static libraries that is not in the deduplicated static
  bucket, in the order of the lists; an entry that is in its base bucket gives no error.
  The linker stage appends to the two re-export lists the \<open>export_shared_lib_headers\<close>
  and \<open>export_static_lib_headers\<close> of a library, binary, test or benchmark linker, and
  nothing for every other linker: a toolchain library or an NDK prebuilt returns no
  names, and what it lists for re-export is not checked. When the stages that follow
  the linker's (STL, sanitizer, features, declared in other files) leave the re-export
  lists as they are, the lists that are checked are exactly those entries.
\<close>

theorem reexport_outside_base_is_property_error:
  "(let D = fst (Module_deps_stages c ctx); C = snd (Module_deps_stages c ctx)
    in Module_deps c ctx =
         Inr (deduplicated D,
              C\<lparr>errs := errs C @
                 map sharedReexportError
                   (filter (\<lambda>lib. lib \<notin> set (SharedLibs (deduplicated D)))
                      (ReexportSharedLibHeaders D)) @
                 map staticReexportError
                   (filter (\<lambda>lib. lib \<notin> set (StaticLibs (deduplicated D)))
                      (ReexportStaticLibHeaders D))\<rparr>))
   \<and> ReexportSharedLibHeaders (fst (linker_deps c ctx lnk deps)) =
       ReexportSharedLibHeaders deps @ checkedSharedReexports lnk
   \<and> ReexportStaticLibHeaders (fst (linker_deps c ctx lnk deps)) =
       ReexportStaticLibHeaders deps @ checkedStaticReexports lnk
   \<and> ((\<forall>f\<in>set (laterStages c). \<forall>d.
          ReexportSharedLibHeaders (fst (f d)) = ReexportSharedLibHeaders d \<and>
          ReexportStaticLibHeaders (fst (f d)) = ReexportStaticLibHeaders d) \<longrightarrow>
        ReexportSharedLibHeaders (fst (Module_deps_stages c ctx)) =
          (case linker c of Some lnk \<Rightarrow> checkedSharedReexports lnk | None \<Rightarrow> []) \<and>
        ReexportStaticLibHeaders (fst (Module_deps_stages c ctx)) =
          (case linker c of Some lnk \<Rightarrow> checkedStaticReexports lnk | None \<Rightarrow> []))"
proof (intro conjI impI)
  show "let D = fst (Module_deps_stages c ctx); C = snd (Module_deps_stages c ctx)
    in Module_deps c ctx =
         Inr (deduplicated D,
              C\<lparr>errs := errs C @
                 map sharedReexportError
                   (filter (\<lambda>lib. lib \<notin> set (SharedLibs (deduplicated D)))
                      (ReexportSharedLibHeaders D)) @
                 map staticReexportError
                   (filter (\<lambda>lib. lib \<notin> set (StaticLibs (deduplicated D)))
                      (ReexportStaticLibHeaders D))\<rparr>)"
    unfolding Let_def by (subst Module_deps_result) (simp add: deduplicated_def)
qed (simp_all add: linker_deps_Reexport Module_deps_stages_Reexport)

theorem reexport_outside_base_is_property_error_witness:
  "map_sum id (\<lambda>r. (SharedLibs (fst r), StaticLibs (fst r), errs (snd r)))
     (Module_deps reexportingBothRoles (deviceCtx ''libre'')) =
     Inr ([''libfoo''], [''liby'', ''libcompiler_rt-extras''],
          [sharedReexportError ''libbar'', staticReexportError ''libx''])
   \<and> ReexportSharedLibHeaders (fst (Module_deps_stages reexportingBothRoles (deviceCtx ''libre''))) =
       [''libfoo'', ''libbar'']
   \<and> ReexportStaticLibHeaders (fst (Module_deps_stages reexportingBothRoles (deviceCtx ''libre''))) =
       [''libx'', ''liby'']"
proof -
  note inst = reexport_outside_base_is_property_error [where c = reexportingBothRoles
      and ctx = "deviceCtx ''libre''"
      and lnk = "LibraryLinker libraryLinker_zero" and deps = Deps_zero]
  have stages: "\<forall>f\<in>set (laterStages reexportingBothRoles). \<forall>d.
          ReexportSharedLibHeaders (fst (f d)) = ReexportSharedLibHeaders d \<and>
          ReexportStaticLibHeaders (fst (f d)) = ReexportStaticLibHeaders d"
    by (simp add: laterStages_def example_defs)
  have lnk: "linker reexportingBothRoles = Some (LibraryLinker
       (libraryLinker_zero\<lparr>BuildShared := True, Shared_libs := [''libfoo''],
          Export_shared_lib_headers := [''libfoo'', ''libbar''], Static_libs := [''liby''],
          Export_static_lib_headers := [''libx'', ''liby'']\<rparr>))"
    by (simp add: example_defs)
  from inst stages have
    r1: "ReexportSharedLibHeaders (fst (Module_deps_stages reexportingBothRoles (deviceCtx ''libre''))) =
       [''libfoo'', ''libbar'']" and
    r2: "ReexportStaticLibHeaders (fst (Module_deps_stages reexportingBothRoles (deviceCtx ''libre''))) =
       [''libx'', ''liby'']"
    by (simp_all add: lnk)
  have b: "SharedLibs (fst (Module_deps_stages reexportingBothRoles (deviceCtx ''libre''))) = [''libfoo'']"
    "StaticLibs (fst (Module_deps_stages reexportingBothRoles (deviceCtx ''libre''))) =
       [''liby'', ''libcompiler_rt-extras'']"
    "errs (snd (Module_deps_stages reexportingBothRoles (deviceCtx ''libre''))) = []"
    by (simp_all add: example_defs eval_defs)
  from inst have m: "Module_deps reexportingBothRoles (deviceCtx ''libre'') =
         Inr (deduplicated (fst (Module_deps_stages reexportingBothRoles (deviceCtx ''libre''))),
              (snd (Module_deps_stages reexportingBothRoles (deviceCtx ''libre'')))\<lparr>errs :=
                 errs (snd (Module_deps_stages reexportingBothRoles (deviceCtx ''libre''))) @
                 map sharedReexportError
                   (filter (\<lambda>lib. lib \<notin> set (SharedLibs (deduplicated
                       (fst (Module_deps_stages reexportingBothRoles (deviceCtx ''libre''))))))
                      (ReexportSharedLibHeaders
                         (fst (Module_deps_stages reexportingBothRoles (deviceCtx ''libre''))))) @
                 map staticReexportError
                   (filter (\<lambda>lib. lib \<notin> set (StaticLibs (deduplicated
                       (fst (Module_deps_stages reexportingBothRoles (deviceCtx ''libre''))))))
                      (ReexportStaticLibHeaders
                         (fst (Module_deps_stages reexportingBothRoles (deviceCtx ''libre'')))))\<rparr>)"
    by (simp add: Let_def)
  show ?thesis
    unfolding m by (simp add: r1 r2 b deduplicated_def)
qed

text \<open>
  The claim as stated fails: a \<open>toolchain_library\<close> that lists \<open>libfoo\<close> in
  \<open>export_static_lib_headers\<close> and has no static library gets no error from
  \<open>Module.deps\<close>; its re-export list and its static bucket stay empty.
\<close>

theorem toolchain_library_reexport_unchecked:
  "linker toolchainLibraryWithExport =
     Some (ToolchainLibraryLinker (baseLinker_zero\<lparr>Export_static_lib_headers := [''libfoo'']\<rparr>))
   \<and> map_sum id (\<lambda>r. (StaticLibs (fst r), ReexportStaticLibHeaders (fst r), errs (snd r)))
        (Module_deps (Module_begin toolchainLibraryWithExport (deviceCtx ''libgcc''))
           (deviceCtx ''libgcc'')) =
       Inr ([], [], [])"
  by (simp add: Module_deps_eq example_defs eval_defs)

text \<open>
  C9. Classification and resolution give the same result when they are run again.
  \<open>Module.deps\<close> returns the names of the stages with the five buckets deduplicated, and
  run again on the same module, in the context the first run left (with the errors of
  the first run recorded), it returns the same \<open>Deps\<close>: the same buckets in the same
  order. A deduplicated bucket has no name twice, and deduplicating again changes
  nothing. \<open>Module.depsToPaths\<close>, run again on the same module in the context and on the
  dependencies that the first run left (with the postfix written into what the
  whole-static targets have recorded as missing), returns the same path set: the same
  buckets in the same order and the same flags. Neither run of \<open>Module.deps\<close> panics.
\<close>

theorem deps_twice_same_buckets:
  "(\<exists>ctx1 ctx2.
      Module_deps c ctx = Inr (deduplicated (fst (Module_deps_stages c ctx)), ctx1) \<and>
      Module_deps c ctx1 = Inr (deduplicated (fst (Module_deps_stages c ctx)), ctx2))
   \<and> distinct (WholeStaticLibs (deduplicated d)) \<and> distinct (StaticLibs (deduplicated d))
   \<and> distinct (LateStaticLibs (deduplicated d)) \<and> distinct (SharedLibs (deduplicated d))
   \<and> distinct (LateSharedLibs (deduplicated d))
   \<and> deduplicated (deduplicated d) = deduplicated d
   \<and> (Module_depsToPaths incl r rctx ds = Inr (P, rctx1, ds1) \<longrightarrow>
        (\<exists>rctx2 ds2. Module_depsToPaths incl r rctx1 ds1 = Inr (P, rctx2, ds2)))"
  using Module_deps_again [of c ctx] Module_depsToPaths_again [of incl r rctx ds P rctx1 ds1]
  by (simp only: deduplicated_buckets simp_thms) blast

theorem deps_twice_same_buckets_witness:
  "map_sum id (\<lambda>r. (StaticLibs (fst r), SharedLibs (fst r)))
     (Module_deps duplicatingLibrary (deviceCtx ''libdup'')) =
     Inr ([''B'', ''A'', ''libcompiler_rt-extras''], [''libx''])
   \<and> map_sum id fst (Module_deps duplicatingLibrary
         (snd (projr (Module_deps duplicatingLibrary (deviceCtx ''libdup''))))) =
     map_sum id fst (Module_deps duplicatingLibrary (deviceCtx ''libdup''))
   \<and> map_sum id fst
       (Module_depsToPaths (\<lambda>dirs. ''-I'') duplicatingLibrary (deviceCtx ''C'') exampleDeps) =
     Inr (PathDeps_zero\<lparr>pd_SharedLibs := [PathForModuleOut [''S.so'']],
            pd_WholeStaticLibs := [PathForModuleOut [''W.a'']],
            pd_WholeStaticLibObjFiles := [PathForModuleOut [''w1.o'']],
            pd_Cflags := [''-Iw/include''], pd_ReexportedCflags := [''-Iw/include'']\<rparr>)
   \<and> map_sum id fst
       (Module_depsToPaths (\<lambda>dirs. ''-I'') duplicatingLibrary
          ((deviceCtx ''C'')\<lparr>missingDeps := [''X (required by W)'']\<rparr>)
          [\<lparr>depName = ''W'', depTagOf = CcTag wholeStaticDepTag,
             depModule = CcModule (exportingStaticLib\<lparr>linker := Some (LibraryLinker
               (libraryLinker_zero\<lparr>BuildStatic := True, VariantIsStatic := True,
                  exportedFlags := [''-Iw/include''],
                  wholeStaticMissingDeps := [''X (required by W)''],
                  objFiles := [PathForModuleOut [''w1.o'']]\<rparr>))\<rparr>)\<rparr>,
           \<lparr>depName = ''S'', depTagOf = CcTag sharedDepTag, depModule = CcModule sharedLibS\<rparr>]) =
     Inr (PathDeps_zero\<lparr>pd_SharedLibs := [PathForModuleOut [''S.so'']],
            pd_WholeStaticLibs := [PathForModuleOut [''W.a'']],
            pd_WholeStaticLibObjFiles := [PathForModuleOut [''w1.o'']],
            pd_Cflags := [''-Iw/include''], pd_ReexportedCflags := [''-Iw/include'']\<rparr>)"
proof -
  let ?P = "PathDeps_zero\<lparr>pd_SharedLibs := [PathForModuleOut [''S.so'']],
            pd_WholeStaticLibs := [PathForModuleOut [''W.a'']],
            pd_WholeStaticLibObjFiles := [PathForModuleOut [''w1.o'']],
            pd_Cflags := [''-Iw/include''], pd_ReexportedCflags := [''-Iw/include'']\<rparr>"
  let ?ctx1 = "(deviceCtx ''C'')\<lparr>missingDeps := [''X (required by W)'']\<rparr>"
  let ?ds1 = "[\<lparr>depName = ''W'', depTagOf = CcTag wholeStaticDepTag,
             depModule = CcModule (exportingStaticLib\<lparr>linker := Some (LibraryLinker
               (libraryLinker_zero\<lparr>BuildStatic := True, VariantIsStatic := True,
                  exportedFlags := [''-Iw/include''],
                  wholeStaticMissingDeps := [''X (required by W)''],
                  objFiles := [PathForModuleOut [''w1.o'']]\<rparr>))\<rparr>)\<rparr>,
           \<lparr>depName = ''S'', depTagOf = CcTag sharedDepTag, depModule = CcModule sharedLibS\<rparr>]"
  note inst = deps_twice_same_buckets [where c = duplicatingLibrary and ctx = "deviceCtx ''libdup''"
      and d = Deps_zero and incl = "\<lambda>dirs. ''-I''" and r = duplicatingLibrary
      and rctx = "deviceCtx ''C''" and ds = exampleDeps and P = ?P and ?rctx1.0 = ?ctx1
      and ?ds1.0 = ?ds1]
  have first: "Module_depsToPaths (\<lambda>dirs. ''-I'') duplicatingLibrary (deviceCtx ''C'') exampleDeps =
     Inr (?P, ?ctx1, ?ds1)"
    by (simp add: Module_depsToPaths_def exampleDeps_def visitDep_def bindP_def example_defs
        resolve_defs)
  from inst first obtain rctx2 ds2 where
    second: "Module_depsToPaths (\<lambda>dirs. ''-I'') duplicatingLibrary ?ctx1 ?ds1 = Inr (?P, rctx2, ds2)"
    by blast
  from inst obtain ctx1 ctx2 where
    m1: "Module_deps duplicatingLibrary (deviceCtx ''libdup'') =
          Inr (deduplicated (fst (Module_deps_stages duplicatingLibrary (deviceCtx ''libdup''))), ctx1)"
    and m2: "Module_deps duplicatingLibrary ctx1 =
          Inr (deduplicated (fst (Module_deps_stages duplicatingLibrary (deviceCtx ''libdup''))), ctx2)"
    by blast
  have st: "StaticLibs (fst (Module_deps_stages duplicatingLibrary (deviceCtx ''libdup''))) =
      [''A'', ''B'', ''A'', ''libcompiler_rt-extras'']"
    "SharedLibs (fst (Module_deps_stages duplicatingLibrary (deviceCtx ''libdup''))) =
      [''libx'', ''libx'']"
    by (simp_all add: example_defs eval_defs)
  show ?thesis
    unfolding first second
    by (simp add: m1 m2 st deduplicated_def)
qed

text \<open>
  C5. Every edge that \<open>Module.depsMutator\<close> adds with the whole-static tag requests the
  variation \<open>link = static\<close> of its target, one edge for each name of the deduplicated
  whole-static bucket, whatever the link mode of the requester; the mutator never
  panics. At resolution, a whole-static edge whose target is not a static library variant
  gives a module error, and the visit records no path and no object of the target: the
  path set is unchanged but for the exported flags. When the target passes the checks
  made before the tag is looked at, the error is the one of the call
  \<open>ctx.ModuleErrorf("module %q not a static library", name)\<close>.
\<close>

theorem whole_static_edges_request_static:
  "(\<exists>c' ctx' es. Module_depsMutator c ctx = Inr (c', ctx', es)
     \<and> filter (\<lambda>e. edgeTag e = wholeStaticDepTag) es =
         map (\<lambda>n. \<lparr>variations = [(''link'', ''static'')], edgeTag = wholeStaticDepTag, target = n\<rparr>)
           (remdups (WholeStaticLibs (fst (Module_deps_stages (Module_begin c ctx) ctx)))))
   \<and> (\<not> staticLibraryVariant cc \<longrightarrow>
        (\<exists>dp' ctx' fmt args.
           visitCc r rctx dp name (CcTag wholeStaticDepTag) cc = Inr (dp', ctx', cc)
           \<and> dp'\<lparr>pd_Cflags := pd_Cflags dp, pd_ReexportedCflags := pd_ReexportedCflags dp\<rparr> = dp
           \<and> errs ctx' \<noteq> errs rctx \<and> last (errs ctx') = ModuleError fmt args
           \<and> (Enabled cc \<and> Target_Os cc = Os rctx \<and> Target_ArchType cc = ArchType rctx \<and>
                outputFile cc \<noteq> None \<longrightarrow>
                fmt = ''module %q not a static library'' \<and> args = [StringArg name])))"
proof (intro conjI impI)
  show "\<exists>c' ctx' es. Module_depsMutator c ctx = Inr (c', ctx', es)
     \<and> filter (\<lambda>e. edgeTag e = wholeStaticDepTag) es =
         map (\<lambda>n. \<lparr>variations = [(''link'', ''static'')], edgeTag = wholeStaticDepTag, target = n\<rparr>)
           (remdups (WholeStaticLibs (fst (Module_deps_stages (Module_begin c ctx) ctx))))"
    by (rule Module_depsMutator_wholeStatic)
next
  assume ns: "\<not> staticLibraryVariant cc"
  let ?goal = "\<exists>dp' ctx' fmt args.
           visitCc r rctx dp name (CcTag wholeStaticDepTag) cc = Inr (dp', ctx', cc)
           \<and> dp'\<lparr>pd_Cflags := pd_Cflags dp, pd_ReexportedCflags := pd_ReexportedCflags dp\<rparr> = dp
           \<and> errs ctx' \<noteq> errs rctx \<and> last (errs ctx') = ModuleError fmt args
           \<and> (Enabled cc \<and> Target_Os cc = Os rctx \<and> Target_ArchType cc = ArchType rctx \<and>
                outputFile cc \<noteq> None \<longrightarrow>
                fmt = ''module %q not a static library'' \<and> args = [StringArg name])"
  show ?goal
  proof (cases "Enabled cc \<and> Target_Os cc = Os rctx \<and> Target_ArchType cc = ArchType rctx \<and>
                outputFile cc \<noteq> None")
    case False
    then show ?thesis
      by (auto simp add: visitCc_def ModuleErrorf_def)
  next
    case True
    then obtain out where out: "outputFile cc = Some out" by auto
    let ?p = "visitCc_library r rctx dp name (CcTag wholeStaticDepTag) cc"
    have v: "visitCc r rctx dp name (CcTag wholeStaticDepTag) cc =
          Inr (fst ?p, ModuleErrorf (snd ?p) ''module %q not a static library'' [StringArg name], cc)"
      using True out ns by (simp add: visitCc_wholeStatic visitCc_switch_not_static)
    have e: "errs (ModuleErrorf (snd ?p) f a) \<noteq> errs rctx" for f a
      using visitCc_library_ctx [of r rctx dp name "CcTag wholeStaticDepTag" cc]
      by (auto simp add: ModuleErrorf_def)
    show ?thesis
      using v e by (simp add: ModuleErrorf_def visitCc_library_paths)
  qed
qed

theorem whole_static_edges_request_static_witness:
  "filter (\<lambda>e. edgeTag e = wholeStaticDepTag)
      (snd (snd (projr (Module_depsMutator reexportingLibrary (deviceCtx ''libre''))))) =
     [\<lparr>variations = [(''link'', ''static'')], edgeTag = wholeStaticDepTag, target = ''libw''\<rparr>]
   \<and> map_sum id (\<lambda>r. (pd_WholeStaticLibs (fst r), pd_WholeStaticLibObjFiles (fst r),
                       last (errs (fst (snd r)))))
        (visitCc reexportingLibrary (deviceCtx ''libre'') PathDeps_zero ''libs''
           (CcTag wholeStaticDepTag) sharedLibS) =
       Inr ([], [], ModuleError ''module %q not a static library'' [StringArg ''libs''])"
proof -
  note inst = whole_static_edges_request_static [where c = reexportingLibrary
      and ctx = "deviceCtx ''libre''" and cc = sharedLibS and r = reexportingLibrary
      and rctx = "deviceCtx ''libre''" and dp = PathDeps_zero and name = "''libs''"]
  have w: "WholeStaticLibs (fst (Module_deps_stages
             (Module_begin reexportingLibrary (deviceCtx ''libre'')) (deviceCtx ''libre''))) =
           [''libw'']"
    by (simp add: example_defs eval_defs)
  have ns: "\<not> staticLibraryVariant sharedLibS"
    by (simp add: staticLibraryVariant_def example_defs)
  have ok: "Enabled sharedLibS \<and> Target_Os sharedLibS = Os (deviceCtx ''libre'') \<and>
      Target_ArchType sharedLibS = ArchType (deviceCtx ''libre'') \<and> outputFile sharedLibS \<noteq> None"
    by (simp add: example_defs)
  from inst obtain c' ctx' es where
    m: "Module_depsMutator reexportingLibrary (deviceCtx ''libre'') = Inr (c', ctx', es)" and
    f: "filter (\<lambda>e. edgeTag e = wholeStaticDepTag) es =
         map (\<lambda>n. \<lparr>variations = [(''link'', ''static'')], edgeTag = wholeStaticDepTag, target = n\<rparr>)
           (remdups (WholeStaticLibs (fst (Module_deps_stages
              (Module_begin reexportingLibrary (deviceCtx ''libre'')) (deviceCtx ''libre'')))))"
    by blast
  from inst ns ok obtain dp' rctx' where
    v: "visitCc reexportingLibrary (deviceCtx ''libre'') PathDeps_zero ''libs''
          (CcTag wholeStaticDepTag) sharedLibS = Inr (dp', rctx', sharedLibS)" and
    p: "dp'\<lparr>pd_Cflags := pd_Cflags PathDeps_zero,
            pd_ReexportedCflags := pd_ReexportedCflags PathDeps_zero\<rparr> = PathDeps_zero" and
    l: "last (errs rctx') = ModuleError ''module %q not a static library'' [StringArg ''libs'']"
    by blast
  have p1: "pd_WholeStaticLibs dp' = []"
    using arg_cong [OF p, of pd_WholeStaticLibs] by (simp add: PathDeps_zero_def)
  have p2: "pd_WholeStaticLibObjFiles dp' = []"
    using arg_cong [OF p, of pd_WholeStaticLibObjFiles] by (simp add: PathDeps_zero_def)
  show ?thesis
    using m f w v p1 p2 l by simp
qed

text \<open>
  C6. When a consumer resolves a whole-static edge to an enabled, built static library
  variant of its own OS and architecture that has recorded missing dependencies, every
  recorded name is added to the consumer's missing dependencies with the postfix
  " (required by <target>)", the target's object list is appended to the consumer's
  whole-static object files and the target's archive to its whole-static paths. The
  postfix is written into the target's own record, which holds the annotated names
  afterwards. A static link of the consumer then archives the absorbed objects with its
  own and records the consumer's missing dependencies for its own consumers.
\<close>

theorem whole_static_forwards_missing_deps:
  assumes "Enabled cc" and "Target_Os cc = Os ctx" and "Target_ArchType cc = ArchType ctx"
    and "outputFile cc = Some out" and "linker cc = Some (LibraryLinker w)"
    and "VariantIsStatic w" and "wholeStaticMissingDeps w \<noteq> []"
  shows "\<exists>dp' ctx'.
     visitCc c ctx dp name (CcTag wholeStaticDepTag) cc =
       Inr (dp', ctx', cc\<lparr>linker := Some (LibraryLinker (w\<lparr>wholeStaticMissingDeps :=
              map (\<lambda>dep. dep @ '' (required by '' @ name @ '')'') (wholeStaticMissingDeps w)\<rparr>))\<rparr>)
     \<and> missingDeps ctx' = missingDeps ctx @
           map (\<lambda>dep. dep @ '' (required by '' @ name @ '')'') (wholeStaticMissingDeps w)
     \<and> pd_WholeStaticLibObjFiles dp' = pd_WholeStaticLibObjFiles dp @ objFiles w
     \<and> pd_WholeStaticLibs dp' = pd_WholeStaticLibs dp @ [out]
     \<and> wholeStaticMissingDeps (fst (libraryLinker_linkStatic ext ctx' consumer dp' objs)) =
           missingDeps ctx'
     \<and> objFiles (fst (libraryLinker_linkStatic ext ctx' consumer dp' objs)) =
           pd_WholeStaticLibObjFiles dp' @ objs
     \<and> snd (snd (libraryLinker_linkStatic ext ctx' consumer dp' objs)) =
           [(if IsDarwin ctx' then TransformDarwinObjToStaticLib else TransformObjToStaticLib)
              (pd_WholeStaticLibObjFiles dp' @ objs)
              (PathForModuleOut [ModuleName ctx' @ VariantName consumer @ ext]),
            CheckbuildFile (PathForModuleOut [ModuleName ctx' @ VariantName consumer @ ext])]"
proof -
  let ?p = "visitCc_library c ctx dp name (CcTag wholeStaticDepTag) cc"
  have v: "visitCc c ctx dp name (CcTag wholeStaticDepTag) cc =
      visitCc_switch (snd ?p) (fst ?p) name (CcTag wholeStaticDepTag) cc out"
    using assms by (simp add: visitCc_wholeStatic)
  show ?thesis
    unfolding v
    using assms
    by (simp add: visitCc_switch_static visitCc_library_fields AddMissingDependencies_def
          libraryLinker_linkStatic_def GetMissingDependencies_def Let_def)
qed

theorem whole_static_forwards_missing_deps_witness:
  "map_sum id (\<lambda>r. (missingDeps (fst (snd r)), pd_WholeStaticLibObjFiles (fst r),
                     pd_WholeStaticLibs (fst r)))
      (visitCc reexportingLibrary (deviceCtx ''C'') PathDeps_zero ''W''
         (CcTag wholeStaticDepTag) staticLibW) =
     Inr ([''X (required by W)''], [PathForModuleOut [''w1.o''], PathForModuleOut [''w2.o'']],
          [PathForModuleOut [''W.a'']])"
  using whole_static_forwards_missing_deps [where cc = staticLibW and ctx = "deviceCtx ''C''"
      and c = reexportingLibrary and dp = PathDeps_zero and name = "''W''"
      and out = "PathForModuleOut [''W.a'']"
      and w = "libraryLinker_zero\<lparr>BuildStatic := True, VariantIsStatic := True,
          wholeStaticMissingDeps := [''X''],
          objFiles := [PathForModuleOut [''w1.o''], PathForModuleOut [''w2.o'']]\<rparr>"]
  by (simp add: example_defs resolve_defs)

text \<open>
  C7 (as amended). The libraries that a dependency stage adds for the system are placed
  in a late bucket, with two exceptions. On a device \<open>baseLinker.deps\<close>, which the
  library, binary, test and benchmark linkers run, appends \<open>libatomic\<close> and, unless
  \<open>no_libgcc\<close> is set, \<open>libgcc\<close> to the late-static bucket, and for a variant that is not
  static the system shared libraries to the late-shared bucket: \<open>system_shared_libs\<close>
  when set, otherwise \<open>libc\<close> and \<open>libm\<close> when the module is not built against the SDK.
  The exceptions: for a device module built against the SDK the system C and math
  libraries are \<open>ndk_libc.<version>\<close> and \<open>ndk_libm.<version>\<close>, appended to the ordinary
  shared bucket (before the shared libraries of a library's mode); and a static device
  binary that holds \<open>libc++_static\<close> gets \<open>libm\<close> and \<open>libdl\<close> in its ordinary static
  bucket, \<open>libc\<close> going with \<open>libc_nomalloc\<close> and \<open>libcompiler_rt\<close> to the front of the
  late-static bucket. (\<open>libcompiler_rt-extras\<close>, which \<open>baseLinker.deps\<close> appends for
  every module not built against the SDK, goes to the ordinary static bucket.) On a
  host build, and for every other linker (toolchain library, NDK prebuilts, objects), no
  library is added to a late bucket. The dependency mutator adds one edge with the late
  tag for each name of a deduplicated late bucket, a late edge resolves to the late
  bucket of paths, and in the link input of a shared library and of an executable every
  late-shared entry comes after every ordinary shared entry and every late-static entry
  after every ordinary static entry, whatever the order of declaration.
\<close>

theorem runtime_libs_buckets:
  "LateStaticLibs (baseLinker_deps c ctx lnk deps) =
     LateStaticLibs deps @
       (if Device ctx then [''libatomic''] @ (if Bool (No_libgcc lnk) then [] else [''libgcc''])
        else [])
   \<and> LateSharedLibs (baseLinker_deps c ctx lnk deps) =
     LateSharedLibs deps @
       (if Device ctx \<and> \<not> VariantIsStatic lnk then
          (case System_shared_libs lnk of
             Some libs \<Rightarrow> libs
           | None \<Rightarrow> if sdk c ctx then [] else [''libc'', ''libm''])
        else [])
   \<and> StaticLibs (baseLinker_deps c ctx lnk deps) =
     StaticLibs deps @ Static_libs lnk @
       (if \<not> sdk c ctx \<and> ModuleName ctx \<noteq> ''libcompiler_rt-extras''
        then [''libcompiler_rt-extras''] else [])
   \<and> SharedLibs (baseLinker_deps c ctx lnk deps) =
     SharedLibs deps @ Shared_libs lnk @
       (if Device ctx \<and> sdk c ctx
        then [''ndk_libc.'' @ sdkVersion c ctx, ''ndk_libm.'' @ sdkVersion c ctx] else [])
   \<and> LateStaticLibs (libraryLinker_deps c ctx l deps) = LateStaticLibs (baseLinker_deps c ctx l deps)
   \<and> LateSharedLibs (libraryLinker_deps c ctx l deps) = LateSharedLibs (baseLinker_deps c ctx l deps)
   \<and> StaticLibs (libraryLinker_deps c ctx l deps) =
       StaticLibs (baseLinker_deps c ctx l deps) @
         (if VariantIsStatic l then Static_Static_libs l else Shared_Static_libs l)
   \<and> SharedLibs (libraryLinker_deps c ctx l deps) =
       SharedLibs (baseLinker_deps c ctx l deps) @
         (if VariantIsStatic l then Static_Shared_libs l else Shared_Shared_libs l)
   \<and> LateSharedLibs (fst (binaryLinker_deps c ctx b deps)) =
       LateSharedLibs (baseLinker_deps c ctx b deps)
   \<and> SharedLibs (fst (binaryLinker_deps c ctx b deps)) = SharedLibs (baseLinker_deps c ctx b deps)
   \<and> StaticLibs (fst (binaryLinker_deps c ctx b deps)) =
       (if Device ctx \<and> VariantIsStaticBinary b then
          filter (\<lambda>l. l \<notin> set [''libc'', ''libc_nomalloc'', ''libcompiler_rt''])
            (StaticLibs (baseLinker_deps c ctx b deps) @
             (if ''libc++_static'' \<in> set (StaticLibs (baseLinker_deps c ctx b deps))
              then [''libm'', ''libc'', ''libdl''] else []))
        else StaticLibs (baseLinker_deps c ctx b deps))
   \<and> LateStaticLibs (fst (binaryLinker_deps c ctx b deps)) =
       (if Device ctx \<and> VariantIsStaticBinary b then
          filter (\<lambda>l. l \<in> set [''libc'', ''libc_nomalloc'', ''libcompiler_rt''])
            (StaticLibs (baseLinker_deps c ctx b deps) @
             (if ''libc++_static'' \<in> set (StaticLibs (baseLinker_deps c ctx b deps))
              then [''libm'', ''libc'', ''libdl''] else []))
          @ LateStaticLibs (baseLinker_deps c ctx b deps)
        else LateStaticLibs (baseLinker_deps c ctx b deps))
   \<and> testLinker_deps c ctx t deps =
       binaryLinker_deps c ctx t (deps\<lparr>StaticLibs := StaticLibs deps @
         (if \<not> Gtest t then []
          else if \<not> (sdk c ctx \<and> Device ctx) then [''libgtest_main'', ''libgtest'']
          else if selectedStl c = ''ndk_libc++_shared'' \<or> selectedStl c = ''ndk_libc++_static''
            then [''libgtest_main_ndk_libcxx'', ''libgtest_ndk_libcxx'']
          else if selectedStl c = ''ndk_libgnustl_static''
            then [''libgtest_main_ndk_gnustl'', ''libgtest_ndk_gnustl'']
          else [''libgtest_main_ndk'', ''libgtest_ndk''])\<rparr>)
   \<and> LateStaticLibs (fst (benchmarkLinker_deps c ctx bm deps)) =
       LateStaticLibs (fst (binaryLinker_deps c ctx bm deps))
   \<and> LateSharedLibs (fst (benchmarkLinker_deps c ctx bm deps)) =
       LateSharedLibs (fst (binaryLinker_deps c ctx bm deps))
   \<and> SharedLibs (fst (benchmarkLinker_deps c ctx bm deps)) =
       SharedLibs (fst (binaryLinker_deps c ctx bm deps))
   \<and> StaticLibs (fst (benchmarkLinker_deps c ctx bm deps)) =
       StaticLibs (fst (binaryLinker_deps c ctx bm deps)) @ [''libbenchmark'', ''libbase'']
   \<and> (\<not> runsBaseLinkerDeps other \<longrightarrow>
        SharedLibs (fst (linker_deps c ctx other deps)) = SharedLibs deps \<and>
        LateSharedLibs (fst (linker_deps c ctx other deps)) = LateSharedLibs deps \<and>
        StaticLibs (fst (linker_deps c ctx other deps)) = StaticLibs deps \<and>
        LateStaticLibs (fst (linker_deps c ctx other deps)) = LateStaticLibs deps \<and>
        WholeStaticLibs (fst (linker_deps c ctx other deps)) = WholeStaticLibs deps)
   \<and> (\<exists>c' ctx' es. Module_depsMutator mc mctx = Inr (c', ctx', es)
        \<and> filter (\<lambda>e. edgeTag e = lateStaticDepTag) es =
            map (\<lambda>n. \<lparr>variations = [(''link'', ''static'')], edgeTag = lateStaticDepTag,
                      target = n\<rparr>)
              (remdups (LateStaticLibs (fst (Module_deps_stages (Module_begin mc mctx) mctx))))
        \<and> filter (\<lambda>e. edgeTag e = lateSharedDepTag) es =
            map (\<lambda>n. \<lparr>variations = [(''link'', ''shared'')], edgeTag = lateSharedDepTag,
                      target = n\<rparr>)
              (remdups (LateSharedLibs (fst (Module_deps_stages (Module_begin mc mctx) mctx)))))
   \<and> visitCc_switch rctx dp name (CcTag lateStaticDepTag) cc out =
       Inr (dp\<lparr>pd_LateStaticLibs := pd_LateStaticLibs dp @ [out]\<rparr>, rctx, cc)
   \<and> visitCc_switch rctx dp name (CcTag lateSharedDepTag) cc out =
       Inr (dp\<lparr>pd_LateSharedLibs := pd_LateSharedLibs dp @ [out]\<rparr>, rctx, cc)
   \<and> (\<exists>rules args.
        snd (snd (libraryLinker_linkShared ShlibSuffix String lctx library flags pdeps objs)) =
          rules @ [TransformObjToDynamicBinary args]
        \<and> linkInputShared args = pd_SharedLibs pdeps @ pd_LateSharedLibs pdeps
        \<and> linkInputStatic args = pd_StaticLibs pdeps @ pd_LateStaticLibs pdeps)
   \<and> (\<exists>rules args.
        snd (snd (binaryLinker_link ExecutableSuffix lctx binary flags pdeps objs)) =
          rules @ [TransformObjToDynamicBinary args]
        \<and> linkInputShared args = pd_SharedLibs pdeps @ pd_LateSharedLibs pdeps
        \<and> linkInputStatic args = pd_StaticLibs pdeps @ pd_LateStaticLibs pdeps)"
proof -
  have base: "LateStaticLibs (baseLinker_deps c ctx lnk deps) =
     LateStaticLibs deps @
       (if Device ctx then [''libatomic''] @ (if Bool (No_libgcc lnk) then [] else [''libgcc''])
        else [])
   \<and> LateSharedLibs (baseLinker_deps c ctx lnk deps) =
     LateSharedLibs deps @
       (if Device ctx \<and> \<not> VariantIsStatic lnk then
          (case System_shared_libs lnk of
             Some libs \<Rightarrow> libs
           | None \<Rightarrow> if sdk c ctx then [] else [''libc'', ''libm''])
        else [])
   \<and> StaticLibs (baseLinker_deps c ctx lnk deps) =
     StaticLibs deps @ Static_libs lnk @
       (if \<not> sdk c ctx \<and> ModuleName ctx \<noteq> ''libcompiler_rt-extras''
        then [''libcompiler_rt-extras''] else [])
   \<and> SharedLibs (baseLinker_deps c ctx lnk deps) =
     SharedLibs deps @ Shared_libs lnk @
       (if Device ctx \<and> sdk c ctx
        then [''ndk_libc.'' @ sdkVersion c ctx, ''ndk_libm.'' @ sdkVersion c ctx] else [])"
    by (simp add: baseLinker_deps_closed)
  have lib: "LateStaticLibs (libraryLinker_deps c ctx l deps) = LateStaticLibs (baseLinker_deps c ctx l deps)
   \<and> LateSharedLibs (libraryLinker_deps c ctx l deps) = LateSharedLibs (baseLinker_deps c ctx l deps)
   \<and> StaticLibs (libraryLinker_deps c ctx l deps) =
       StaticLibs (baseLinker_deps c ctx l deps) @
         (if VariantIsStatic l then Static_Static_libs l else Shared_Static_libs l)
   \<and> SharedLibs (libraryLinker_deps c ctx l deps) =
       SharedLibs (baseLinker_deps c ctx l deps) @
         (if VariantIsStatic l then Static_Shared_libs l else Shared_Shared_libs l)"
    by (simp only: libraryLinker_deps_buckets simp_thms)
  have other: "\<not> runsBaseLinkerDeps other \<longrightarrow>
        SharedLibs (fst (linker_deps c ctx other deps)) = SharedLibs deps \<and>
        LateSharedLibs (fst (linker_deps c ctx other deps)) = LateSharedLibs deps \<and>
        StaticLibs (fst (linker_deps c ctx other deps)) = StaticLibs deps \<and>
        LateStaticLibs (fst (linker_deps c ctx other deps)) = LateStaticLibs deps \<and>
        WholeStaticLibs (fst (linker_deps c ctx other deps)) = WholeStaticLibs deps"
    using other_linker_deps_buckets [of other c ctx deps] by blast
  show ?thesis
    by (intro conjI base [THEN conjunct1] base [THEN conjunct2, THEN conjunct1]
          base [THEN conjunct2, THEN conjunct2, THEN conjunct1]
          base [THEN conjunct2, THEN conjunct2, THEN conjunct2]
          lib [THEN conjunct1] lib [THEN conjunct2, THEN conjunct1]
          lib [THEN conjunct2, THEN conjunct2, THEN conjunct1]
          lib [THEN conjunct2, THEN conjunct2, THEN conjunct2]
          binaryLinker_deps_shared binaryLinker_deps_StaticLibs binaryLinker_deps_LateStaticLibs
          testLinker_deps_eq benchmarkLinker_deps_buckets other Module_depsMutator_late
          visitCc_switch_late
          libraryLinker_linkShared_input binaryLinker_link_input)
qed

theorem runtime_libs_buckets_witness:
  "LateStaticLibs (baseLinker_deps exampleModule (deviceCtx ''libfoo'') libraryLinker_zero Deps_zero) =
     [''libatomic'', ''libgcc'']
   \<and> LateSharedLibs (baseLinker_deps exampleModule (deviceCtx ''libfoo'') libraryLinker_zero Deps_zero) =
     [''libc'', ''libm'']
   \<and> StaticLibs (baseLinker_deps exampleModule (deviceCtx ''libfoo'') libraryLinker_zero Deps_zero) =
     [''libcompiler_rt-extras'']
   \<and> SharedLibs (baseLinker_deps exampleModule (deviceCtx ''libfoo'') libraryLinker_zero Deps_zero) = []
   \<and> LateStaticLibs (fst (linker_deps exampleModule (deviceCtx ''libfoo'')
        (ToolchainLibraryLinker baseLinker_zero) Deps_zero)) = []
   \<and> LateSharedLibs (fst (linker_deps exampleModule (deviceCtx ''libfoo'')
        (ToolchainLibraryLinker baseLinker_zero) Deps_zero)) = []
   \<and> snd (snd (libraryLinker_linkShared (\<lambda>tc. ''.so'') (\<lambda>p. ''script'') (deviceCtx ''libfoo'')
        libraryLinker_zero exampleFlags examplePaths [])) =
       [TransformStrip (PathForModuleOut [''unstripped'', ''libfoo.so''])
          (PathForModuleOut [''libfoo.so'']) False True,
        TransformObjToDynamicBinary
          \<lparr>arg_objFiles = [],
           arg_sharedLibs = [OtherPath ''libuser.so'', OtherPath ''libc.so'', OtherPath ''libm.so''],
           arg_staticLibs = [OtherPath ''libuser.a''],
           arg_lateStaticLibs = [OtherPath ''libatomic.a'', OtherPath ''libgcc.a''],
           arg_wholeStaticLibs = [], arg_deps = [],
           arg_crtBegin = None, arg_crtEnd = None, arg_groupLate = False,
           arg_ldFlags = [''-w'', ''-shared''],
           arg_outputFile = PathForModuleOut [''unstripped'', ''libfoo.so'']\<rparr>]
   \<and> map (\<lambda>rule. case rule of
              TransformObjToDynamicBinary args \<Rightarrow> (linkInputShared args, linkInputStatic args)
            | _ \<Rightarrow> ([], []))
        (snd (snd (binaryLinker_link (\<lambda>tc. []) (deviceCtx ''app'') binaryLinker_zero exampleFlags
           examplePaths []))) =
       [([], []),
        ([OtherPath ''libuser.so'', OtherPath ''libc.so'', OtherPath ''libm.so''],
         [OtherPath ''libuser.a'', OtherPath ''libatomic.a'', OtherPath ''libgcc.a''])]"
proof -
  note inst = runtime_libs_buckets [where c = exampleModule and ctx = "deviceCtx ''libfoo''"
      and lnk = libraryLinker_zero and deps = Deps_zero and l = libraryLinker_zero
      and b = binaryLinker_zero and t = "binaryLinker.extend binaryLinker_zero
            (testLinker.fields True None)"
      and bm = binaryLinker_zero
      and other = "ToolchainLibraryLinker baseLinker_zero"
      and mc = sdkSharedLibrary and mctx = "deviceCtx ''libsdk''"
      and rctx = "deviceCtx ''libfoo''" and dp = PathDeps_zero and name = "''libc''"
      and cc = sharedLibS and out = "OtherPath ''libc.so''"
      and ShlibSuffix = "\<lambda>tc. ''.so''" and String = "\<lambda>p. ''script''"
      and lctx = "deviceCtx ''libfoo''" and library = libraryLinker_zero and flags = exampleFlags
      and pdeps = examplePaths and objs = "[]" and ExecutableSuffix = "\<lambda>tc. []"
      and binary = binaryLinker_zero]
  have o: "\<not> runsBaseLinkerDeps (ToolchainLibraryLinker baseLinker_zero)" by simp
  from inst o have t: "LateStaticLibs (fst (linker_deps exampleModule (deviceCtx ''libfoo'')
        (ToolchainLibraryLinker baseLinker_zero) Deps_zero)) = LateStaticLibs Deps_zero"
    "LateSharedLibs (fst (linker_deps exampleModule (deviceCtx ''libfoo'')
        (ToolchainLibraryLinker baseLinker_zero) Deps_zero)) = LateSharedLibs Deps_zero"
    by blast+
  from inst have b: "LateStaticLibs (baseLinker_deps exampleModule (deviceCtx ''libfoo'') libraryLinker_zero Deps_zero) =
     LateStaticLibs Deps_zero @
       (if Device (deviceCtx ''libfoo'') then [''libatomic''] @
          (if Bool (No_libgcc libraryLinker_zero) then [] else [''libgcc''])
        else [])" by blast
  show ?thesis
    using b t
    by (simp add: example_defs examplePaths_def Deps_zero_def sdk_def libraryLinker_linkShared_def
          binaryLinker_link_def binaryLinker_getStem_def Let_def
          addLdFlag_def needsStrip_def strip_def PathDeps_zero_def baseLinker_deps_closed
          linkInputShared_def linkInputStatic_def)
qed

text \<open>
  The claim as stated fails: for a shared library built against SDK version 21 with a
  shared library of the shared mode, the system C and math libraries are in the ordinary
  shared bucket, in front of the user's library, and the late-shared bucket is empty;
  for a static device binary with \<open>static_libs: ["libc++_static"]\<close> the system's \<open>libm\<close>
  and \<open>libdl\<close> are in the ordinary static bucket. A toolchain library on a device and a
  library on a Darwin host have no library in a late bucket at all.
\<close>

theorem sdk_libc_in_ordinary_bucket:
  "map_sum id (\<lambda>r. (SharedLibs (fst r), LateSharedLibs (fst r), LateStaticLibs (fst r), errs (snd r)))
     (Module_deps sdkSharedLibrary (deviceCtx ''libsdk'')) =
   Inr ([''ndk_libc.21'', ''ndk_libm.21'', ''libuser''], [], [''libatomic'', ''libgcc''], [])
   \<and> map_sum id (\<lambda>r. (StaticLibs (fst r), LateStaticLibs (fst r), errs (snd r)))
     (Module_deps (Module_begin staticBinaryWithLibcxx (deviceCtx ''init'')) (deviceCtx ''init'')) =
   Inr ([''libc++_static'', ''libcompiler_rt-extras'', ''libm'', ''libdl''],
        [''libc'', ''libatomic'', ''libgcc''], [])
   \<and> map_sum id (\<lambda>r. (LateStaticLibs (fst r), LateSharedLibs (fst r)))
     (Module_deps (Module_begin toolchainLibraryWithExport (deviceCtx ''libgcc''))
        (deviceCtx ''libgcc'')) = Inr ([], [])
   \<and> map_sum id (\<lambda>r. (LateStaticLibs (fst r), LateSharedLibs (fst r)))
     (Module_deps duplicatingLibrary (darwinHostCtx ''libhost'')) = Inr ([], [])"
proof (intro conjI)
  show "map_sum id (\<lambda>r. (SharedLibs (fst r), LateSharedLibs (fst r), LateStaticLibs (fst r),
                      errs (snd r)))
     (Module_deps sdkSharedLibrary (deviceCtx ''libsdk'')) =
   Inr ([''ndk_libc.21'', ''ndk_libm.21'', ''libuser''], [], [''libatomic'', ''libgcc''], [])"
    by (simp add: Module_deps_eq example_defs eval_defs)
  show "map_sum id (\<lambda>r. (StaticLibs (fst r), LateStaticLibs (fst r), errs (snd r)))
     (Module_deps (Module_begin staticBinaryWithLibcxx (deviceCtx ''init'')) (deviceCtx ''init'')) =
   Inr ([''libc++_static'', ''libcompiler_rt-extras'', ''libm'', ''libdl''],
        [''libc'', ''libatomic'', ''libgcc''], [])"
    by (simp add: Module_deps_eq example_defs eval_defs)
  show "map_sum id (\<lambda>r. (LateStaticLibs (fst r), LateSharedLibs (fst r)))
     (Module_deps (Module_begin toolchainLibraryWithExport (deviceCtx ''libgcc''))
        (deviceCtx ''libgcc'')) = Inr ([], [])"
    by (simp add: Module_deps_eq example_defs eval_defs)
  show "map_sum id (\<lambda>r. (LateStaticLibs (fst r), LateSharedLibs (fst r)))
     (Module_deps duplicatingLibrary (darwinHostCtx ''libhost'')) = Inr ([], [])"
    by (simp add: Module_deps_eq example_defs eval_defs)
qed

text \<open>
  C10. The illegal-flag filter removes \<open>-w\<close> from the C, C++ and C-only flag lists and
  changes no other field of the flags: the global, assembler, linker and Yacc flag lists
  (and the library flags) are as before, so an illegal flag in one of them is still there
  after the filter.
\<close>

theorem illegal_flags_filter_frame:
  "filterIllegalFlags flags =
     flags\<lparr>CFlags := filter (\<lambda>f. f \<noteq> ''-w'') (CFlags flags),
           CppFlags := filter (\<lambda>f. f \<noteq> ''-w'') (CppFlags flags),
           ConlyFlags := filter (\<lambda>f. f \<noteq> ''-w'') (ConlyFlags flags)\<rparr>
   \<and> GlobalFlags (filterIllegalFlags flags) = GlobalFlags flags
   \<and> AsFlags (filterIllegalFlags flags) = AsFlags flags
   \<and> LdFlags (filterIllegalFlags flags) = LdFlags flags
   \<and> YaccFlags (filterIllegalFlags flags) = YaccFlags flags
   \<and> libFlags (filterIllegalFlags flags) = libFlags flags
   \<and> ''-w'' \<notin> set (CFlags (filterIllegalFlags flags))
   \<and> ''-w'' \<notin> set (CppFlags (filterIllegalFlags flags))
   \<and> ''-w'' \<notin> set (ConlyFlags (filterIllegalFlags flags))
   \<and> (''-w'' \<in> set (GlobalFlags (filterIllegalFlags flags)) \<longleftrightarrow> ''-w'' \<in> set (GlobalFlags flags))
   \<and> (''-w'' \<in> set (AsFlags (filterIllegalFlags flags)) \<longleftrightarrow> ''-w'' \<in> set (AsFlags flags))
   \<and> (''-w'' \<in> set (LdFlags (filterIllegalFlags flags)) \<longleftrightarrow> ''-w'' \<in> set (LdFlags flags))
   \<and> (''-w'' \<in> set (YaccFlags (filterIllegalFlags flags)) \<longleftrightarrow> ''-w'' \<in> set (YaccFlags flags))"
  by (simp add: filterIllegalFlags_def illegalFlags_def Let_def)

theorem illegal_flags_filter_frame_witness:
  "CFlags (filterIllegalFlags exampleFlags) = [''-Wall'', ''-O2'']
   \<and> CppFlags (filterIllegalFlags exampleFlags) = [''-frtti'']
   \<and> ConlyFlags (filterIllegalFlags exampleFlags) = []
   \<and> GlobalFlags (filterIllegalFlags exampleFlags) = [''-w'']
   \<and> AsFlags (filterIllegalFlags exampleFlags) = [''-w'', ''-D__ASSEMBLY__'']
   \<and> LdFlags (filterIllegalFlags exampleFlags) = [''-w'', ''-shared'']
   \<and> YaccFlags (filterIllegalFlags exampleFlags) = [''-w'']"
  using illegal_flags_filter_frame [of exampleFlags]
  by (simp add: example_defs)

end
